(* ===== verification/Py_Prelude.thy ===== *)
theory Py_Prelude
  imports Main "HOL-Library.Sublist" "HOL-Library.AList"
begin

text \<open>
  The part of the Python runtime that the script \<open>breaking-api-check.py\<close> relies on,
  modelled once and shared by every component theory: the exceptions the script can
  raise (\<open>py_error\<close>), an exception-and-state monad for code that mutates the outside
  world (\<open>exc\<close>), and the string and dictionary methods the script calls
  (\<open>str.strip\<close>, \<open>str.startswith\<close>, slicing, \<open>readlines\<close> in text mode, \<open>dict.get\<close>,
  item assignment).  Strings are byte strings (\<open>char list\<close>); text is read with
  Python's universal newlines, modelled by \<open>univ_nl\<close>.  These are library semantics,
  not code of the repository.
\<close>

named_theorems pystr "equations that evaluate the modelled Python string methods"
named_theorems exc_simps "equations of the exception-and-state monad"

section \<open>Exceptions\<close>

datatype py_error =
    UnboundLocalError string
  | KeyError string
  | IndexError
  | ValueError string
  | TypeError string
  | FileNotFoundError string
  | NotADirectoryError string
  | IsADirectoryError string
  | Exception string
  | SystemExit int

type_synonym 'a res = "py_error + 'a"

section \<open>The exception-and-state monad\<close>

text \<open>
  A statement that may raise and that changes the outside world is a function from the
  state before it to a result and the state after it; a raise keeps the state reached
  so far, as Python keeps every side effect done before the exception.
\<close>

type_synonym ('s, 'a) exc = "'s \<Rightarrow> 'a res \<times> 's"

definition exc_return :: "'a \<Rightarrow> ('s, 'a) exc" where
  "exc_return a = (\<lambda>s. (Inr a, s))"

definition exc_raise :: "py_error \<Rightarrow> ('s, 'a) exc" where
  "exc_raise e = (\<lambda>s. (Inl e, s))"

definition exc_bind :: "('s, 'a) exc \<Rightarrow> ('a \<Rightarrow> ('s, 'b) exc) \<Rightarrow> ('s, 'b) exc" where
  "exc_bind m f = (\<lambda>s. case m s of (Inl e, s') \<Rightarrow> (Inl e, s') | (Inr a, s') \<Rightarrow> f a s')"

definition exc_then :: "('s, 'a) exc \<Rightarrow> ('s, 'b) exc \<Rightarrow> ('s, 'b) exc" where
  "exc_then m n = exc_bind m (\<lambda>_. n)"

definition exc_when :: "bool \<Rightarrow> ('s, unit) exc \<Rightarrow> ('s, unit) exc" where
  "exc_when b m = (if b then m else exc_return ())"

text \<open>\<open>list(map(f, xs))\<close> with an \<open>f\<close> that may raise or act on the state: the calls run in
  order and the first exception ends the loop.\<close>

primrec exc_map :: "('a \<Rightarrow> ('s, 'b) exc) \<Rightarrow> 'a list \<Rightarrow> ('s, 'b list) exc" where
  "exc_map f [] = exc_return []"
| "exc_map f (x # xs) = exc_bind (f x) (\<lambda>y. exc_bind (exc_map f xs) (\<lambda>ys. exc_return (y # ys)))"

primrec map_res :: "('a \<Rightarrow> 'b res) \<Rightarrow> 'a list \<Rightarrow> 'b list res" where
  "map_res f [] = Inr []"
| "map_res f (x # xs) = (case f x of Inl e \<Rightarrow> Inl e | Inr y \<Rightarrow> map_sum id (Cons y) (map_res f xs))"

section \<open>Characters and strings\<close>

abbreviation NL :: char where "NL \<equiv> CHR 0x0A"
abbreviation CR :: char where "CR \<equiv> CHR 0x0D"
abbreviation TAB :: char where "TAB \<equiv> CHR 0x09"

text \<open>\<open>str.isspace\<close> on the code points below 256.\<close>

definition py_isspace :: "char \<Rightarrow> bool" where
  "py_isspace c \<longleftrightarrow>
     (let n = (of_char c :: nat) in (9 \<le> n \<and> n \<le> 13) \<or> (28 \<le> n \<and> n \<le> 32) \<or> n = 133 \<or> n = 160)"

text \<open>\<open>str.strip()\<close> with no argument.\<close>

definition py_strip :: "string \<Rightarrow> string" where
  "py_strip s = rev (dropWhile py_isspace (rev (dropWhile py_isspace s)))"

definition startswith :: "string \<Rightarrow> string \<Rightarrow> bool" where
  "startswith s p \<longleftrightarrow> take (length p) s = p"

definition endswith :: "string \<Rightarrow> string \<Rightarrow> bool" where
  "endswith s p \<longleftrightarrow> length p \<le> length s \<and> drop (length s - length p) s = p"

text \<open>
  Slicing \<open>xs[i:j]\<close>: a negative index counts from the end, and both bounds are clamped
  to \<open>0 .. len(xs)\<close>; an empty range gives the empty sequence.
\<close>

definition py_index_clamp :: "int \<Rightarrow> nat \<Rightarrow> nat" where
  "py_index_clamp i n = (if i < 0 then nat (max 0 (int n + i)) else min (nat i) n)"

definition py_slice :: "'a list \<Rightarrow> int \<Rightarrow> int \<Rightarrow> 'a list" where
  "py_slice xs i j =
     (let n = length xs; a = py_index_clamp i n; b = py_index_clamp j n
      in take (b - a) (drop a xs))"

text \<open>Universal newlines: on reading in text mode \<open>\r\n\<close> and \<open>\r\<close> become \<open>\n\<close>.\<close>

fun univ_nl :: "string \<Rightarrow> string" where
  "univ_nl [] = []"
| "univ_nl [c] = [if c = CR then NL else c]"
| "univ_nl (c # d # s) =
     (if c = CR \<and> d = NL then NL # univ_nl s
      else if c = CR then NL # univ_nl (d # s)
      else c # univ_nl (d # s))"

text \<open>\<open>readlines()\<close>: the lines of the text, each with its terminating \<open>\n\<close>; the last
  line has none when the text does not end with one.\<close>

fun lines_from :: "string \<Rightarrow> string \<Rightarrow> string list" where
  "lines_from cur [] = (if cur = [] then [] else [cur])"
| "lines_from cur (c # s) =
     (if c = NL then (cur @ [NL]) # lines_from [] s else lines_from (cur @ [c]) s)"

definition readlines :: "string \<Rightarrow> string list" where
  "readlines s = lines_from [] s"

text \<open>\<open>str.split()\<close>: the maximal runs of non-whitespace characters.\<close>

fun split_ws_from :: "string \<Rightarrow> string \<Rightarrow> string list" where
  "split_ws_from cur [] = (if cur = [] then [] else [cur])"
| "split_ws_from cur (c # s) =
     (if py_isspace c then (if cur = [] then split_ws_from [] s else cur # split_ws_from [] s)
      else split_ws_from (cur @ [c]) s)"

definition split_ws :: "string \<Rightarrow> string list" where
  "split_ws s = split_ws_from [] s"

text \<open>\<open>str.split(sep)\<close> with a non-empty separator: the pieces between the
  non-overlapping occurrences of \<open>sep\<close>, scanned from the left; an empty separator raises.\<close>

function split_on_from :: "string \<Rightarrow> string \<Rightarrow> string \<Rightarrow> string list" where
  "split_on_from sep cur s =
     (if sep \<noteq> [] \<and> startswith s sep then cur # split_on_from sep [] (drop (length sep) s)
      else (case s of [] \<Rightarrow> [cur] | c # s' \<Rightarrow> split_on_from sep (cur @ [c]) s'))"
  by pat_completeness auto
termination
proof (relation "measure (\<lambda>(sep, cur, s). length s)")
  fix sep cur s :: string
  assume a: "sep \<noteq> [] \<and> startswith s sep"
  then have "length (take (length sep) s) = length sep" by (simp add: startswith_def)
  then have "length sep \<le> length s" by (simp add: min_def split: if_splits)
  moreover from a have "0 < length sep" by simp
  ultimately have "length s - length sep < length s" by arith
  then show "((sep, [], drop (length sep) s), (sep, cur, s)) \<in> measure (\<lambda>(sep, cur, s). length s)"
    by simp
qed auto

definition py_split :: "string \<Rightarrow> string \<Rightarrow> string list res" where
  "py_split s sep = (if sep = [] then Inl (ValueError ''empty separator'') else Inr (split_on_from sep [] s))"

text \<open>A lowercase hexadecimal digit, as \<open>hexdigest()\<close> and \<open>repr()\<close> write them.\<close>

definition hex_char :: "nat \<Rightarrow> char" where
  "hex_char d = (if d < 10 then char_of (48 + d) else char_of (87 + d))"

section \<open>Paths\<close>

text \<open>\<open>posixpath.join\<close> of two components and \<open>posixpath.basename\<close>.\<close>

definition path_join :: "string \<Rightarrow> string \<Rightarrow> string" where
  "path_join a b =
     (if startswith b ''/'' then b
      else if a = [] \<or> endswith a ''/'' then a @ b
      else a @ ''/'' @ b)"

definition basename :: "string \<Rightarrow> string" where
  "basename p = rev (takeWhile (\<lambda>c. c \<noteq> CHR ''/'') (rev p))"

text \<open>\<open>posixpath.dirname\<close>: everything up to the last slash, with trailing slashes
  removed unless it consists of slashes only.\<close>

definition dirname :: "string \<Rightarrow> string" where
  "dirname p =
     (let head = take (length p - length (basename p)) p in
      if head \<noteq> [] \<and> \<not> list_all (\<lambda>c. c = CHR ''/'') head
      then rev (dropWhile (\<lambda>c. c = CHR ''/'') (rev head)) else head)"

text \<open>\<open>posixpath.normpath\<close>: empty and \<open>.\<close> components dropped, \<open>..\<close> cancels the
  component before it, except at the root of an absolute path and after a leading run of
  \<open>..\<close> in a relative one; exactly two leading slashes are kept.  The components kept so
  far are accumulated in reverse.\<close>

fun norm_comps :: "bool \<Rightarrow> string list \<Rightarrow> string list \<Rightarrow> string list" where
  "norm_comps a acc [] = acc"
| "norm_comps a acc (c # cs) =
     (if c = [] \<or> c = ''.'' then norm_comps a acc cs
      else if c \<noteq> ''..'' \<or> (\<not> a \<and> acc = []) \<or> (acc \<noteq> [] \<and> hd acc = ''..'')
      then norm_comps a (c # acc) cs
      else norm_comps a (tl acc) cs)"

fun join_with :: "string \<Rightarrow> string list \<Rightarrow> string" where
  "join_with sep [] = []"
| "join_with sep [x] = x"
| "join_with sep (x # y # zs) = x @ sep @ join_with sep (y # zs)"

definition normpath :: "string \<Rightarrow> string" where
  "normpath p =
     (if p = [] then ''.''
      else
        let slashes = (if startswith p ''/'' then
                         (if startswith p ''//'' \<and> \<not> startswith p ''///'' then 2 else 1) else 0 :: nat);
            comps = rev (norm_comps (0 < slashes) [] (split_on_from ''/'' [] p));
            r = replicate slashes (CHR ''/'') @ join_with ''/'' comps
        in if r = [] then ''.'' else r)"

definition abspath :: "string \<Rightarrow> string \<Rightarrow> string" where
  "abspath cwd p = normpath (path_join cwd p)"

text \<open>The extension \<open>os.path.splitext(p)[1]\<close>: from the last dot of the last component,
  provided a character other than a dot precedes it in that component.\<close>

definition splitext_ext :: "string \<Rightarrow> string" where
  "splitext_ext p =
     (let b = basename p; stem = rev (dropWhile (\<lambda>c. c \<noteq> CHR ''.'') (rev b)) in
      if stem = [] then []
      else if list_all (\<lambda>c. c = CHR ''.'') (butlast stem) then []
      else drop (length stem - 1) b)"

section \<open>Dictionaries\<close>

text \<open>
  A Python \<open>dict\<close> keeps its keys in insertion order, and assigning to a present key
  keeps its position: an association list updated with \<open>AList.update\<close>.
\<close>

definition dict_get :: "('k \<times> 'v) list \<Rightarrow> 'k \<Rightarrow> 'v \<Rightarrow> 'v" where
  "dict_get d k dflt = (case map_of d k of None \<Rightarrow> dflt | Some v \<Rightarrow> v)"

definition dict_set :: "('k \<times> 'v) list \<Rightarrow> 'k \<Rightarrow> 'v \<Rightarrow> ('k \<times> 'v) list" where
  "dict_set d k v = AList.update k v d"

section \<open>Lemmas\<close>

declare split_on_from.simps [simp del]

subsection \<open>The monad\<close>

lemma exc_bind_return [exc_simps, simp]: "exc_bind (exc_return a) f = f a"
  by (simp add: exc_bind_def exc_return_def)

lemma exc_bind_raise [exc_simps, simp]: "exc_bind (exc_raise e) f = exc_raise e"
  by (simp add: exc_bind_def exc_raise_def)

lemma exc_bind_assoc [exc_simps]:
  "exc_bind (exc_bind m f) g = exc_bind m (\<lambda>a. exc_bind (f a) g)"
  by (rule ext) (simp add: exc_bind_def split: prod.splits sum.splits)

lemma exc_bind_apply [exc_simps]:
  "exc_bind m f s = (case m s of (Inl e, s') \<Rightarrow> (Inl e, s') | (Inr a, s') \<Rightarrow> f a s')"
  by (simp add: exc_bind_def)

lemma exc_bind_Inr [exc_simps]:
  "m s = (Inr a, s') \<Longrightarrow> exc_bind m f s = f a s'"
  by (simp add: exc_bind_def)

lemma exc_bind_Inl [exc_simps]:
  "m s = (Inl e, s') \<Longrightarrow> exc_bind m f s = (Inl e, s')"
  by (simp add: exc_bind_def)

lemma exc_return_apply [exc_simps, simp]: "exc_return a s = (Inr a, s)"
  by (simp add: exc_return_def)

lemma exc_raise_apply [exc_simps, simp]: "exc_raise e s = (Inl e, s)"
  by (simp add: exc_raise_def)

lemma exc_then_apply [exc_simps]:
  "exc_then m n s = (case m s of (Inl e, s') \<Rightarrow> (Inl e, s') | (Inr a, s') \<Rightarrow> n s')"
  by (simp add: exc_then_def exc_bind_def)

lemma exc_when_simps [exc_simps, simp]:
  "exc_when True m = m" "exc_when False m = exc_return ()"
  by (simp_all add: exc_when_def)

lemma map_res_Inr [simp]: "(\<And>x. x \<in> set xs \<Longrightarrow> f x = Inr (g x)) \<Longrightarrow> map_res f xs = Inr (map g xs)"
  by (induction xs) simp_all

lemma map_res_Inl:
  "(\<And>x. x \<in> set as \<Longrightarrow> f x = Inr (g x)) \<Longrightarrow> f x = Inl e \<Longrightarrow> map_res f (as @ x # bs) = Inl e"
  by (induction as) simp_all

subsection \<open>Strings\<close>

lemma dropWhile_all_iff: "(\<forall>x\<in>set (dropWhile P xs). P x) \<longleftrightarrow> (\<forall>x\<in>set xs. P x)"
  by (induction xs) auto

lemma py_strip_Nil_iff [pystr]: "py_strip s = [] \<longleftrightarrow> (\<forall>c\<in>set s. py_isspace c)"
  by (simp add: py_strip_def dropWhile_eq_Nil_conv dropWhile_all_iff)

lemma py_strip_trailing:
  assumes "s \<noteq> []" and "\<not> py_isspace (hd s)" and "\<not> py_isspace (last s)" and "list_all py_isspace ws"
  shows "py_strip (s @ ws) = s"
proof -
  obtain c s' where s: "s = c # s'" using assms(1) by (cases s) auto
  obtain d r where r: "rev s = d # r" using assms(1) by (cases "rev s") auto
  have "last s = d" using r by (metis last_rev list.sel(1) rev_rev_ident)
  have "dropWhile py_isspace (rev ws @ rev s) = dropWhile py_isspace (rev s)"
    by (rule dropWhile_append2) (use assms(4) in \<open>simp add: list_all_iff\<close>)
  also have "\<dots> = rev s" using \<open>last s = d\<close> assms(3) r by simp
  finally have "dropWhile py_isspace (rev ws @ rev s) = rev s" .
  with s assms(2) show ?thesis by (simp add: py_strip_def)
qed

lemma startswith_iff_prefix: "startswith s p \<longleftrightarrow> prefix p s"
  by (auto simp: startswith_def prefix_def) (metis append_take_drop_id)

lemma endswith_iff_suffix: "endswith s p \<longleftrightarrow> suffix p s"
proof
  assume "endswith s p"
  then show "suffix p s"
    unfolding endswith_def suffix_def by (metis append_take_drop_id)
next
  assume "suffix p s"
  then obtain zs where "s = zs @ p" by (auto simp: suffix_def)
  then show "endswith s p" by (simp add: endswith_def)
qed

lemma startswith_append [pystr, simp]: "startswith (p @ r) p"
  by (simp add: startswith_def)

lemma startswith_Cons [pystr]:
  "startswith (c # s) (d # p) \<longleftrightarrow> c = d \<and> startswith s p"
  by (auto simp: startswith_def)

lemma startswith_Nil [pystr, simp]: "startswith s []"
  by (simp add: startswith_def)

lemma startswith_Nil_Cons [pystr, simp]: "\<not> startswith [] (d # p)"
  by (simp add: startswith_def)

lemma endswith_append [pystr, simp]: "endswith (r @ p) p"
  by (simp add: endswith_def)

lemma py_slice_header [pystr]:
  "b \<noteq> [] \<Longrightarrow> py_slice (a @ m @ b) (int (length a)) (- int (length b)) = m"
  by (simp add: py_slice_def py_index_clamp_def Let_def)

lemma split_on_from_no_sep:
  "sep \<noteq> [] \<Longrightarrow> hd sep \<notin> set s \<Longrightarrow> split_on_from sep cur s = [cur @ s]"
proof (induction s arbitrary: cur)
  case Nil
  then show ?case by (subst split_on_from.simps) (cases sep, simp_all add: startswith_def)
next
  case (Cons c s)
  then have "\<not> startswith (c # s) sep" by (cases sep) (auto simp: startswith_Cons)
  with Cons show ?case by (subst split_on_from.simps) simp
qed

lemma split_on_from_sep:
  "sep \<noteq> [] \<Longrightarrow> hd sep \<notin> set a \<Longrightarrow> split_on_from sep cur (a @ sep @ b) = (cur @ a) # split_on_from sep [] b"
proof (induction a arbitrary: cur)
  case Nil
  then show ?case by (subst split_on_from.simps) (simp add: startswith_def)
next
  case (Cons c a)
  then have "\<not> startswith (c # a @ sep @ b) sep" by (cases sep) (auto simp: startswith_Cons)
  with Cons show ?case by (subst split_on_from.simps) simp
qed

lemma split_on_from_concat:
  "sep \<noteq> [] \<Longrightarrow> hd sep \<notin> set a \<Longrightarrow> (\<forall>e\<in>set es. hd sep \<notin> set e) \<Longrightarrow>
   split_on_from sep [] (a @ concat (map (\<lambda>e. sep @ e) es)) = a # es"
proof (induction es arbitrary: a)
  case Nil
  then show ?case by (simp add: split_on_from_no_sep)
next
  case (Cons e es)
  then show ?case by (simp add: split_on_from_sep)
qed

lemma split_ws_from_word:
  "\<not> list_ex py_isspace d \<Longrightarrow> py_isspace c \<Longrightarrow>
   split_ws_from cur (d @ c # r) = (if cur @ d = [] then split_ws_from [] r else (cur @ d) # split_ws_from [] r)"
  by (induction d arbitrary: cur) simp_all

subsection \<open>Lines\<close>

lemma concat_lines_from: "concat (lines_from cur s) = cur @ s"
  by (induction cur s rule: lines_from.induct) auto

lemma lines_from_no_NL:
  "NL \<notin> set l \<Longrightarrow> lines_from cur l = (if cur @ l = [] then [] else [cur @ l])"
  by (induction l arbitrary: cur) auto

lemma lines_from_line:
  "NL \<notin> set l \<Longrightarrow> lines_from cur (l @ NL # r) = (cur @ l @ [NL]) # lines_from [] r"
  by (induction l arbitrary: cur) auto

lemma readlines_line [pystr]:
  "NL \<notin> set l \<Longrightarrow> readlines (l @ NL # r) = (l @ [NL]) # readlines r"
  by (simp add: readlines_def lines_from_line)

lemma readlines_Nil [pystr, simp]: "readlines [] = []"
  by (simp add: readlines_def)

lemma readlines_last [pystr]:
  "NL \<notin> set l \<Longrightarrow> l \<noteq> [] \<Longrightarrow> readlines l = [l]"
  by (simp add: readlines_def lines_from_no_NL)

lemma concat_readlines: "concat (readlines s) = s"
  by (simp add: readlines_def concat_lines_from)

lemma readlines_terminated:
  "\<forall>l\<in>set ls. NL \<notin> set l \<Longrightarrow>
   readlines (concat (map (\<lambda>l. l @ [NL]) ls)) = map (\<lambda>l. l @ [NL]) ls"
  by (induction ls) (simp_all add: readlines_line)

lemma univ_nl_Cons_noCR: "c \<noteq> CR \<Longrightarrow> univ_nl (c # s) = c # univ_nl s"
  by (cases s) auto

lemma univ_nl_append_noCR: "CR \<notin> set l \<Longrightarrow> univ_nl (l @ s) = l @ univ_nl s"
  by (induction l) (auto simp: univ_nl_Cons_noCR)

lemma univ_nl_no_CR: "CR \<notin> set s \<Longrightarrow> univ_nl s = s"
  by (induction s rule: univ_nl.induct) auto

subsection \<open>Dictionaries\<close>

lemma dict_get_set_same [simp]: "dict_get (dict_set d k v) k dflt = v"
  by (simp add: dict_get_def dict_set_def update_conv')

lemma dict_get_set_other [simp]: "k' \<noteq> k \<Longrightarrow> dict_get (dict_set d k v) k' dflt = dict_get d k' dflt"
  by (simp add: dict_get_def dict_set_def update_conv')

lemma keys_dict_set: "map fst (dict_set d k v) =
   (if k \<in> fst ` set d then map fst d else map fst d @ [k])"
  unfolding dict_set_def by (induction d) auto

lemma distinct_dict_set: "distinct (map fst d) \<Longrightarrow> distinct (map fst (dict_set d k v))"
  by (simp add: dict_set_def distinct_update)

lemma set_dict_set: "set (dict_set d k v) \<subseteq> insert (k, v) (set d)"
  unfolding dict_set_def by (induction d) auto

lemma dict_set_absent [simp]: "k \<notin> fst ` set d \<Longrightarrow> dict_set d k v = d @ [(k, v)]"
  unfolding dict_set_def by (induction d) auto

lemma dict_get_cases: "dict_get d k dflt = dflt \<or> (k, dict_get d k dflt) \<in> set d"
  by (auto simp: dict_get_def dest: map_of_SomeD split: option.splits)

lemma dict_get_absent [simp]: "k \<notin> fst ` set d \<Longrightarrow> dict_get d k dflt = dflt"
proof -
  assume "k \<notin> fst ` set d"
  then have "map_of d k = None" by (simp add: map_of_eq_None_iff)
  then show ?thesis by (simp add: dict_get_def)
qed

subsection \<open>Paths\<close>

lemma basename_append_no_slash [simp]:
  "CHR ''/'' \<notin> set n \<Longrightarrow> basename (d @ ''/'' @ n) = n"
proof -
  assume "CHR ''/'' \<notin> set n"
  then have "takeWhile (\<lambda>c. c \<noteq> CHR ''/'') (rev n @ CHR ''/'' # rev d) = rev n @ []"
    using takeWhile_append2 [of "rev n" "\<lambda>c. c \<noteq> CHR ''/''" "CHR ''/'' # rev d"] by auto
  then show ?thesis by (simp add: basename_def)
qed

end
