(* ===== verification/World.thy ===== *)
theory World
  imports Py_Prelude
begin

text \<open>
  The outside world the script acts on: the file system (absolute path to bytes, and
  directory to its entries in the order \<open>os.listdir\<close> returns them), the working
  directory, the process's standard output and error, the command lines of the
  subprocesses it starts, in order, and the external tools (\<open>xcrun\<close>,
  \<open>swift-api-digester\<close>, \<open>gh\<close>) as an oracle \<open>tools\<close> from a command line and the file
  system to the child's outcome: it could not be started, or it exited with a status and
  output after leaving the file system in some state.  The statements of the script that
  touch the world are the operations below, in the monad \<open>exc\<close> over \<open>world\<close>:
  \<open>open(p).read()\<close>, \<open>open(p, "rb")\<close>, \<open>open(p, "w").write(s)\<close>, \<open>os.remove\<close>,
  \<open>os.path.isdir\<close>, \<open>os.listdir\<close>, \<open>print\<close> (to stdout or stderr) and
  \<open>subprocess.run\<close> with and without \<open>capture_output=True, text=True\<close>.  A relative
  path is resolved against the working directory; permissions are not modelled.  A path
  that is not a regular file makes \<open>open\<close> and \<open>os.remove\<close> raise the error Linux gives
  (\<open>open_error\<close>).
  Frame notions carry the proofs of composite operations: \<open>reader\<close> (the operation only
  reads the world, and the log of commands does not change its result), \<open>log_grows\<close>
  (it only appends to that log) and \<open>io_ok\<close> (it raises no \<open>SystemExit\<close> but \<open>exit(1)\<close>), each closed under the monad's
  combinators by its rules.
\<close>

named_theorems io_ok_intros "rules showing that an operation raises no SystemExit but exit(1)"

section \<open>Definitions\<close>

record proc =
  returncode :: int
  proc_stdout :: string
  proc_stderr :: string

datatype tool_result = Launch_error py_error | Completed proc "string \<rightharpoonup> string"

record world =
  files :: "string \<rightharpoonup> string"
  dirs :: "string \<rightharpoonup> string list"
  cwd :: string
  out :: string
  err :: string
  commands :: "string list list"
  tools :: "string list \<Rightarrow> (string \<rightharpoonup> string) \<Rightarrow> tool_result"

type_synonym 'a io = "(world, 'a) exc"

definition resolve :: "world \<Rightarrow> string \<Rightarrow> string" where
  "resolve w p = path_join (cwd w) p"

text \<open>The directories a path passes through: its prefixes that end before a slash.  A
  path through a regular file cannot be opened (\<open>ENOTDIR\<close>).\<close>

definition ancestors :: "string \<Rightarrow> string list" where
  "ancestors q = map (\<lambda>i. take i q) (filter (\<lambda>i. q ! i = CHR ''/'') [1..<length q])"

definition through_file :: "(string \<rightharpoonup> string) \<Rightarrow> string \<Rightarrow> bool" where
  "through_file fs q \<longleftrightarrow> list_ex (\<lambda>a. fs a \<noteq> None) (ancestors q)"

text \<open>The exception \<open>open(p)\<close> and \<open>os.remove(p)\<close> raise on a path that is not a regular
  file, as on Linux: a directory, a path through a regular file, or nothing.\<close>

definition open_error :: "world \<Rightarrow> string \<Rightarrow> py_error" where
  "open_error w p =
     (let q = resolve w p in
      if dirs w q \<noteq> None then IsADirectoryError p
      else if through_file (files w) q then NotADirectoryError p
      else FileNotFoundError p)"

definition read_bytes :: "string \<Rightarrow> string io" where
  "read_bytes p = (\<lambda>w. case files w (resolve w p) of
       None \<Rightarrow> (Inl (open_error w p), w)
     | Some c \<Rightarrow> (Inr c, w))"

text \<open>Text mode reads the bytes with universal newlines.\<close>

definition read_text :: "string \<Rightarrow> string io" where
  "read_text p = exc_bind (read_bytes p) (\<lambda>c. exc_return (univ_nl c))"

definition is_dir :: "world \<Rightarrow> string \<Rightarrow> bool" where
  "is_dir w p \<longleftrightarrow> dirs w (resolve w p) \<noteq> None"

definition list_dir :: "string \<Rightarrow> string list io" where
  "list_dir p = (\<lambda>w. case dirs w (resolve w p) of
       Some ns \<Rightarrow> (Inr ns, w)
     | None \<Rightarrow> (if files w (resolve w p) = None \<and> \<not> through_file (files w) (resolve w p)
                 then Inl (FileNotFoundError p) else Inl (NotADirectoryError p), w))"

definition write_text :: "string \<Rightarrow> string \<Rightarrow> unit io" where
  "write_text p c = (\<lambda>w. (Inr (), w\<lparr>files := (files w)(resolve w p \<mapsto> c)\<rparr>))"

definition remove_file :: "string \<Rightarrow> unit io" where
  "remove_file p = (\<lambda>w. case files w (resolve w p) of
       None \<Rightarrow> (Inl (open_error w p), w)
     | Some _ \<Rightarrow> (Inr (), w\<lparr>files := (files w)(resolve w p := None)\<rparr>))"

definition print_out :: "string \<Rightarrow> unit io" where
  "print_out s = (\<lambda>w. (Inr (), w\<lparr>out := out w @ s @ [NL]\<rparr>))"

definition print_err :: "string \<Rightarrow> unit io" where
  "print_err s = (\<lambda>w. (Inr (), w\<lparr>err := err w @ s @ [NL]\<rparr>))"

text \<open>\<open>subprocess.run(args, capture_output=True, text=True)\<close>: the child's output is
  returned, decoded with universal newlines, and not shown.\<close>

definition run_captured :: "string list \<Rightarrow> proc io" where
  "run_captured args = (\<lambda>w.
     let w' = w\<lparr>commands := commands w @ [args]\<rparr> in
     case tools w args (files w) of
       Launch_error e \<Rightarrow> (Inl e, w')
     | Completed p fs \<Rightarrow>
         (Inr (p\<lparr>proc_stdout := univ_nl (proc_stdout p), proc_stderr := univ_nl (proc_stderr p)\<rparr>),
          w'\<lparr>files := fs\<rparr>))"

text \<open>\<open>subprocess.run(args)\<close>: the child writes to the script's own streams.\<close>

definition run_inherit :: "string list \<Rightarrow> proc io" where
  "run_inherit args = (\<lambda>w.
     let w' = w\<lparr>commands := commands w @ [args]\<rparr> in
     case tools w args (files w) of
       Launch_error e \<Rightarrow> (Inl e, w')
     | Completed p fs \<Rightarrow>
         (Inr p, w'\<lparr>files := fs, out := out w @ proc_stdout p, err := err w @ proc_stderr p\<rparr>))"

text \<open>An operation that only reads the world: it leaves the world as it is, and the log of
  commands run so far does not change its result.\<close>

definition reader :: "'a io \<Rightarrow> bool" where
  "reader m \<longleftrightarrow> (\<forall>w. snd (m w) = w \<and> (\<forall>cs. m (w\<lparr>commands := cs\<rparr>) = (fst (m w), w\<lparr>commands := cs\<rparr>)))"

text \<open>An operation that only appends to the log of commands run.\<close>

definition log_grows :: "'a io \<Rightarrow> bool" where
  "log_grows m \<longleftrightarrow> (\<forall>w. prefix (commands w) (commands (snd (m w))))"

text \<open>The exit statuses a run can end with: an exception other than \<open>SystemExit\<close> ends
  the interpreter with status 1, \<open>SystemExit n\<close> with \<open>n\<close>.  \<open>io_ok\<close> says an operation
  raises no \<open>SystemExit\<close> but \<open>exit(1)\<close> and leaves the tools as they are, for every
  world whose tools, when they cannot be started, raise no \<open>SystemExit\<close> but that one.\<close>

definition exit_ok :: "py_error \<Rightarrow> bool" where
  "exit_ok e = (case e of SystemExit n \<Rightarrow> n = 1 | _ \<Rightarrow> True)"

definition res_ok :: "'a res \<Rightarrow> bool" where
  "res_ok r = (case r of Inl e \<Rightarrow> exit_ok e | Inr _ \<Rightarrow> True)"

definition tools_ok :: "(string list \<Rightarrow> (string \<rightharpoonup> string) \<Rightarrow> tool_result) \<Rightarrow> bool" where
  "tools_ok T \<longleftrightarrow> (\<forall>args fs e. T args fs = Launch_error e \<longrightarrow> exit_ok e)"

definition io_ok :: "'a io \<Rightarrow> bool" where
  "io_ok m \<longleftrightarrow> (\<forall>w. tools_ok (tools w) \<longrightarrow> res_ok (fst (m w)) \<and> tools (snd (m w)) = tools w)"

section \<open>Lemmas\<close>

text \<open>What each operation does to the world, one equation per outcome.\<close>

lemma read_bytes_Some [simp]:
  "files w (resolve w p) = Some c \<Longrightarrow> read_bytes p w = (Inr c, w)"
  by (simp add: read_bytes_def)

lemma read_bytes_None [simp]:
  "files w (resolve w p) = None \<Longrightarrow> read_bytes p w = (Inl (open_error w p), w)"
  by (simp add: read_bytes_def)

lemma read_text_Some [simp]:
  "files w (resolve w p) = Some c \<Longrightarrow> read_text p w = (Inr (univ_nl c), w)"
  by (simp add: read_text_def exc_bind_def)

lemma read_text_None [simp]:
  "files w (resolve w p) = None \<Longrightarrow> read_text p w = (Inl (open_error w p), w)"
  by (simp add: read_text_def exc_bind_def)

lemma open_error_missing:
  "dirs w (resolve w p) = None \<Longrightarrow> \<not> through_file (files w) (resolve w p) \<Longrightarrow>
   open_error w p = FileNotFoundError p"
  by (simp add: open_error_def)

lemma ancestors_shorter: "a \<in> set (ancestors q) \<Longrightarrow> length a < length q"
  by (auto simp: ancestors_def)

lemma ancestors_below: "q \<noteq> [] \<Longrightarrow> q \<in> set (ancestors (q @ ''/'' @ s))"
proof -
  assume "q \<noteq> []"
  then have "0 < length q" by simp
  then have "length q \<in> set (filter (\<lambda>i. (q @ ''/'' @ s) ! i = CHR ''/'') [1..<length (q @ ''/'' @ s)])"
    by (simp add: nth_append Suc_le_eq)
  then show ?thesis unfolding ancestors_def by (force simp: image_iff)
qed

lemma through_file_below: "q \<noteq> [] \<Longrightarrow> fs q \<noteq> None \<Longrightarrow> through_file fs (q @ ''/'' @ s)"
  unfolding through_file_def list_ex_iff using ancestors_below by blast

lemma resolve_absolute: "startswith p ''/'' \<Longrightarrow> resolve w p = p"
  by (simp add: resolve_def path_join_def)

lemma through_file_upd_self [simp]: "through_file (fs(q := v)) q = through_file fs q"
proof -
  have "a \<noteq> q" if "a \<in> set (ancestors q)" for a using ancestors_shorter [OF that] by auto
  then show ?thesis by (auto simp: through_file_def list_ex_iff)
qed

lemma open_error_commands [simp]: "open_error (w\<lparr>commands := cs\<rparr>) p = open_error w p"
  by (simp add: open_error_def resolve_def Let_def)

lemma write_text_apply [simp]:
  "write_text p c w = (Inr (), w\<lparr>files := (files w)(resolve w p \<mapsto> c)\<rparr>)"
  by (simp add: write_text_def)

lemma remove_file_Some [simp]:
  "files w (resolve w p) = Some c \<Longrightarrow>
   remove_file p w = (Inr (), w\<lparr>files := (files w)(resolve w p := None)\<rparr>)"
  by (simp add: remove_file_def)

lemma remove_file_None [simp]:
  "files w (resolve w p) = None \<Longrightarrow> remove_file p w = (Inl (open_error w p), w)"
  by (simp add: remove_file_def)

lemma print_out_apply [simp]: "print_out s w = (Inr (), w\<lparr>out := out w @ s @ [NL]\<rparr>)"
  by (simp add: print_out_def)

lemma print_err_apply [simp]: "print_err s w = (Inr (), w\<lparr>err := err w @ s @ [NL]\<rparr>)"
  by (simp add: print_err_def)

lemma run_captured_Completed [simp]:
  "tools w args (files w) = Completed p fs \<Longrightarrow>
   run_captured args w =
     (Inr (p\<lparr>proc_stdout := univ_nl (proc_stdout p), proc_stderr := univ_nl (proc_stderr p)\<rparr>),
      w\<lparr>commands := commands w @ [args], files := fs\<rparr>)"
  by (simp add: run_captured_def)

lemma run_captured_Launch_error [simp]:
  "tools w args (files w) = Launch_error e \<Longrightarrow>
   run_captured args w = (Inl e, w\<lparr>commands := commands w @ [args]\<rparr>)"
  by (simp add: run_captured_def)

lemma run_inherit_Completed [simp]:
  "tools w args (files w) = Completed p fs \<Longrightarrow>
   run_inherit args w =
     (Inr p, w\<lparr>commands := commands w @ [args], files := fs,
               out := out w @ proc_stdout p, err := err w @ proc_stderr p\<rparr>)"
  by (simp add: run_inherit_def)

lemma run_inherit_Launch_error [simp]:
  "tools w args (files w) = Launch_error e \<Longrightarrow>
   run_inherit args w = (Inl e, w\<lparr>commands := commands w @ [args]\<rparr>)"
  by (simp add: run_inherit_def)

lemma list_dir_Some [simp]: "dirs w (resolve w p) = Some ns \<Longrightarrow> list_dir p w = (Inr ns, w)"
  by (simp add: list_dir_def)

lemma resolve_cwd_independent [simp]: "resolve (w\<lparr>files := fs\<rparr>) p = resolve w p"
  "resolve (w\<lparr>out := o'\<rparr>) p = resolve w p" "resolve (w\<lparr>err := e'\<rparr>) p = resolve w p"
  "resolve (w\<lparr>commands := cs\<rparr>) p = resolve w p"
  by (simp_all add: resolve_def)

lemma tools_independent [simp]: "tools (w\<lparr>files := fs\<rparr>) = tools w"
  "tools (w\<lparr>out := o'\<rparr>) = tools w" "tools (w\<lparr>err := e'\<rparr>) = tools w"
  "tools (w\<lparr>commands := cs\<rparr>) = tools w"
  by simp_all

lemma readerD:
  "reader m \<Longrightarrow> snd (m w) = w"
  "reader m \<Longrightarrow> m (w\<lparr>commands := cs\<rparr>) = (fst (m w), w\<lparr>commands := cs\<rparr>)"
  by (simp_all add: reader_def)

lemma reader_apply: "reader m \<Longrightarrow> m w = (fst (m w), w)"
  by (metis readerD(1) prod.collapse)

lemma reader_return [simp]: "reader (exc_return a)"
  by (simp add: reader_def)

lemma reader_raise [simp]: "reader (exc_raise e)"
  by (simp add: reader_def)

lemma reader_bind [intro]:
  assumes "reader m" and "\<And>a. reader (f a)"
  shows "reader (exc_bind m f)"
  unfolding reader_def
proof (intro allI conjI)
  fix w cs
  have m: "m w = (fst (m w), w)" "m (w\<lparr>commands := cs\<rparr>) = (fst (m w), w\<lparr>commands := cs\<rparr>)"
    using reader_apply [OF assms(1)] readerD(2) [OF assms(1)] by blast+
  show "snd (exc_bind m f w) = w"
  proof (cases "fst (m w)")
    case (Inl e)
    then have "m w = (Inl e, w)" by (subst m(1)) simp
    then show ?thesis by (simp add: exc_bind_def)
  next
    case (Inr a)
    then have "m w = (Inr a, w)" by (subst m(1)) simp
    then show ?thesis using readerD(1) [OF assms(2)] by (simp add: exc_bind_def)
  qed
  show "exc_bind m f (w\<lparr>commands := cs\<rparr>) = (fst (exc_bind m f w), w\<lparr>commands := cs\<rparr>)"
    using m readerD(2) [OF assms(2)] by (cases "fst (m w)") (simp_all add: exc_bind_def)
qed

lemma reader_read_bytes [simp]: "reader (read_bytes p)"
  by (auto simp: reader_def read_bytes_def split: option.split)

lemma reader_read_text [simp]: "reader (read_text p)"
  unfolding read_text_def by (intro reader_bind) simp_all

lemma reader_list_dir [simp]: "reader (list_dir p)"
  by (auto simp: reader_def list_dir_def split: option.split)

lemma log_grows_return [simp]: "log_grows (exc_return a)"
  and log_grows_raise [simp]: "log_grows (exc_raise e)"
  by (simp_all add: log_grows_def)

lemma log_grows_reader: "reader m \<Longrightarrow> log_grows m"
  by (simp add: log_grows_def readerD(1))

lemma log_grows_bind_from:
  assumes "\<And>a. log_grows (f a)"
  shows "prefix (commands (snd (m w))) (commands (snd (exc_bind m f w)))"
  using assms by (cases "m w"; cases "fst (m w)") (simp_all add: exc_bind_def log_grows_def)

lemma log_grows_bind [intro]:
  assumes "log_grows m" and "\<And>a. log_grows (f a)"
  shows "log_grows (exc_bind m f)"
  unfolding log_grows_def
proof
  fix w
  have "prefix (commands w) (commands (snd (m w)))" using assms(1) by (simp add: log_grows_def)
  then show "prefix (commands w) (commands (snd (exc_bind m f w)))"
    using log_grows_bind_from [of f m w] assms(2) by (blast intro: prefix_order.trans)
qed

lemma log_grows_then [intro]: "log_grows m \<Longrightarrow> log_grows n \<Longrightarrow> log_grows (exc_then m n)"
  by (auto simp: exc_then_def)

lemma log_grows_when [intro]: "log_grows m \<Longrightarrow> log_grows (exc_when b m)"
  by (simp add: exc_when_def)

lemma log_grows_ops [simp]:
  "log_grows (read_bytes p)" "log_grows (read_text p)" "log_grows (write_text p c)"
  "log_grows (remove_file p)" "log_grows (print_out s)" "log_grows (print_err s)"
  "log_grows (run_captured args)" "log_grows (run_inherit args)"
  by (auto simp: log_grows_def read_bytes_def read_text_def exc_bind_def remove_file_def
      run_captured_def run_inherit_def Let_def split: option.split tool_result.split prod.split sum.split)

subsection \<open>Operations that raise no other exit status\<close>

lemma res_ok_simps [simp]: "res_ok (Inr a)" "res_ok (Inl e) = exit_ok e"
  by (simp_all add: res_ok_def)

lemma exit_ok_simps [simp]:
  "exit_ok (UnboundLocalError v)" "exit_ok (KeyError k)" "exit_ok IndexError" "exit_ok (ValueError m)"
  "exit_ok (TypeError m)" "exit_ok (FileNotFoundError p)" "exit_ok (NotADirectoryError p)"
  "exit_ok (IsADirectoryError p)" "exit_ok (open_error w p)"
  "exit_ok (Exception m)" "exit_ok (SystemExit n) \<longleftrightarrow> n = 1"
  by (simp_all add: exit_ok_def open_error_def Let_def)

lemma io_okI:
  "(\<And>w. tools_ok (tools w) \<Longrightarrow> res_ok (fst (m w)) \<and> tools (snd (m w)) = tools w) \<Longrightarrow> io_ok m"
  by (simp add: io_ok_def)

lemma io_okD: "io_ok m \<Longrightarrow> tools_ok (tools w) \<Longrightarrow> res_ok (fst (m w)) \<and> tools (snd (m w)) = tools w"
  by (simp add: io_ok_def)

lemma io_ok_return [io_ok_intros]: "io_ok (exc_return a)"
  by (simp add: io_ok_def)

lemma io_ok_raise [io_ok_intros]: "exit_ok e \<Longrightarrow> io_ok (exc_raise e)"
  by (simp add: io_ok_def)

lemma io_ok_bind [io_ok_intros]:
  assumes "io_ok m" and "\<And>a. io_ok (f a)"
  shows "io_ok (exc_bind m f)"
proof (rule io_okI)
  fix w :: world assume t: "tools_ok (tools w)"
  obtain r w1 where m: "m w = (r, w1)" by (cases "m w")
  with io_okD [OF assms(1) t] have r: "res_ok r" and t1: "tools w1 = tools w" by simp_all
  show "res_ok (fst (exc_bind m f w)) \<and> tools (snd (exc_bind m f w)) = tools w"
  proof (cases r)
    case (Inl e)
    then show ?thesis using m r t1 by (simp add: exc_bind_def)
  next
    case (Inr a)
    then show ?thesis using m t1 t io_okD [of "f a" w1] assms(2) by (simp add: exc_bind_def)
  qed
qed

lemma io_ok_then [io_ok_intros]: "io_ok m \<Longrightarrow> io_ok n \<Longrightarrow> io_ok (exc_then m n)"
  unfolding exc_then_def by (rule io_ok_bind)

lemma io_ok_when [io_ok_intros]: "io_ok m \<Longrightarrow> io_ok (exc_when b m)"
  by (simp add: exc_when_def io_ok_return)

lemma io_ok_if [io_ok_intros]: "io_ok m \<Longrightarrow> io_ok n \<Longrightarrow> io_ok (if b then m else n)"
  by simp

lemma io_ok_case_res [io_ok_intros]:
  "res_ok r \<Longrightarrow> (\<And>a. io_ok (f a)) \<Longrightarrow> io_ok (case r of Inl e \<Rightarrow> exc_raise e | Inr a \<Rightarrow> f a)"
  by (cases r) (simp_all add: io_ok_raise)

lemma io_ok_exc_map [io_ok_intros]: "(\<And>x. io_ok (f x)) \<Longrightarrow> io_ok (exc_map f xs)"
  by (induction xs) (simp_all add: io_ok_bind io_ok_return)

lemma io_ok_reader:
  "reader m \<Longrightarrow> (\<And>w. res_ok (fst (m w))) \<Longrightarrow> io_ok m"
  by (simp add: io_ok_def readerD(1))

lemma io_ok_ops [io_ok_intros]:
  "io_ok (read_bytes p)" "io_ok (read_text p)" "io_ok (list_dir p)" "io_ok (write_text p c)"
  "io_ok (remove_file p)" "io_ok (print_out s)" "io_ok (print_err s)"
  "io_ok (run_captured args)" "io_ok (run_inherit args)"
  by (auto simp: io_ok_def tools_ok_def read_bytes_def read_text_def exc_bind_def list_dir_def
      remove_file_def run_captured_def run_inherit_def Let_def
      split: option.split tool_result.split prod.split sum.split)

end
