(* ===== verification/Bundle.thy ===== *)
theory Bundle
  imports World
begin

text \<open>
  The SDK bundle as the script sees it: the property-list values \<open>plistlib\<close> returns
  (\<open>pval\<close>: strings, integers, booleans, arrays, dictionaries), with Python's item access
  \<open>d[k]\<close>, membership \<open>k in d\<close>, iteration, \<open>str()\<close> and \<open>repr()\<close> on them;
  \<open>XCFramework.Library\<close> (lines 229--262) as the record \<open>xc_library\<close> of the library's
  dictionary and root path, with its accessors and predicates; the device-library choice
  of \<open>XCFramework.iOSDeviceModule\<close> (line 279) as \<open>ios_device_library\<close>; and the
  \<open>XCFramework\<close> object (lines 264--276) with its name and its constructor.  The parser
  \<open>plistlib\<close> itself is a library: it is the parameter \<open>PL\<close> from the file's text to a
  value or an exception.
\<close>

section \<open>Definitions\<close>

subsection \<open>Property-list values\<close>

datatype pval = PStr string | PInt int | PBool bool | PArr "pval list" | PDict "(string \<times> pval) list"

fun nat_digits :: "nat \<Rightarrow> string" where
  "nat_digits n = (if n < 10 then [char_of (48 + n)] else nat_digits (n div 10) @ [char_of (48 + n mod 10)])"

definition int_str :: "int \<Rightarrow> string" where
  "int_str i = (if i < 0 then ''-'' @ nat_digits (nat (- i)) else nat_digits (nat i))"

definition hex2 :: "nat \<Rightarrow> string" where
  "hex2 n = [hex_char (n div 16), hex_char (n mod 16)]"

text \<open>One character inside \<open>repr\<close> of a string quoted with \<open>q\<close>: backslash and the
  quote escaped, tab, newline and return by name, other characters that are not printable
  as \<open>\xhh\<close>.\<close>

definition repr_char :: "char \<Rightarrow> char \<Rightarrow> string" where
  "repr_char q c =
     (let n = (of_char c :: nat) in
      if c = q \<or> c = CHR 0x5C then [CHR 0x5C, c]
      else if c = CHR 0x09 then [CHR 0x5C, CHR ''t'']
      else if c = NL then [CHR 0x5C, CHR ''n'']
      else if c = CR then [CHR 0x5C, CHR ''r'']
      else if n < 32 \<or> (127 \<le> n \<and> n \<le> 160) \<or> n = 173 then [CHR 0x5C, CHR ''x''] @ hex2 n
      else [c])"

definition repr_str :: "string \<Rightarrow> string" where
  "repr_str s =
     (let q = (if CHR 0x27 \<in> set s \<and> CHR 0x22 \<notin> set s then CHR 0x22 else CHR 0x27)
      in [q] @ concat (map (repr_char q) s) @ [q])"

fun py_repr :: "pval \<Rightarrow> string" where
  "py_repr (PStr s) = repr_str s"
| "py_repr (PInt i) = int_str i"
| "py_repr (PBool b) = (if b then ''True'' else ''False'')"
| "py_repr (PArr xs) = ''['' @ join_with '', '' (map py_repr xs) @ '']''"
| "py_repr (PDict d) = ''{'' @ join_with '', '' (map (\<lambda>kv. repr_str (fst kv) @ '': '' @ py_repr (snd kv)) d) @ ''}''"

text \<open>\<open>str(v)\<close>, as an f-string formats a value.\<close>

definition py_str :: "pval \<Rightarrow> string" where
  "py_str v = (case v of PStr s \<Rightarrow> s | _ \<Rightarrow> py_repr v)"

definition py_getitem :: "pval \<Rightarrow> string \<Rightarrow> pval res" where
  "py_getitem v k =
     (case v of
        PDict d \<Rightarrow> (case map_of d k of Some x \<Rightarrow> Inr x | None \<Rightarrow> Inl (KeyError k))
      | PArr _ \<Rightarrow> Inl (TypeError ''list indices must be integers or slices, not str'')
      | PStr _ \<Rightarrow> Inl (TypeError ''string indices must be integers'')
      | PInt _ \<Rightarrow> Inl (TypeError ''int object is not subscriptable'')
      | PBool _ \<Rightarrow> Inl (TypeError ''bool object is not subscriptable''))"

definition py_contains :: "pval \<Rightarrow> string \<Rightarrow> bool res" where
  "py_contains v k =
     (case v of
        PDict d \<Rightarrow> Inr (k \<in> set (map fst d))
      | PArr xs \<Rightarrow> Inr (PStr k \<in> set xs)
      | PStr s \<Rightarrow> Inr (sublist k s)
      | PInt _ \<Rightarrow> Inl (TypeError ''argument of type int is not iterable'')
      | PBool _ \<Rightarrow> Inl (TypeError ''argument of type bool is not iterable''))"

definition py_iter :: "pval \<Rightarrow> pval list res" where
  "py_iter v =
     (case v of
        PArr xs \<Rightarrow> Inr xs
      | PDict d \<Rightarrow> Inr (map (\<lambda>kv. PStr (fst kv)) d)
      | PStr s \<Rightarrow> Inr (map (\<lambda>c. PStr [c]) s)
      | PInt _ \<Rightarrow> Inl (TypeError ''int object is not iterable'')
      | PBool _ \<Rightarrow> Inl (TypeError ''bool object is not iterable''))"

definition py_index0 :: "'a list \<Rightarrow> 'a res" where
  "py_index0 xs = (case xs of [] \<Rightarrow> Inl IndexError | x # _ \<Rightarrow> Inr x)"

text \<open>\<open>list(filter(p, xs))\<close> with a predicate that may raise: every element is tested, in
  order, and the first exception ends the loop.\<close>

fun filter_res :: "('a \<Rightarrow> bool res) \<Rightarrow> 'a list \<Rightarrow> 'a list res" where
  "filter_res P [] = Inr []"
| "filter_res P (x # xs) =
     (case P x of
        Inl e \<Rightarrow> Inl e
      | Inr b \<Rightarrow> (case filter_res P xs of Inl e \<Rightarrow> Inl e | Inr ys \<Rightarrow> Inr (if b then x # ys else ys)))"

subsection \<open>XCFramework.Library\<close>

record xc_library =
  lib_dict :: pval
  lib_root :: string

definition lib_path :: "xc_library \<Rightarrow> pval res" where
  "lib_path l = py_getitem (lib_dict l) ''LibraryPath''"

definition lib_identifier :: "xc_library \<Rightarrow> pval res" where
  "lib_identifier l = py_getitem (lib_dict l) ''LibraryIdentifier''"

definition lib_platform :: "xc_library \<Rightarrow> pval res" where
  "lib_platform l = py_getitem (lib_dict l) ''SupportedPlatform''"

definition lib_variant :: "xc_library \<Rightarrow> pval res" where
  "lib_variant l = py_getitem (lib_dict l) ''SupportedPlatformVariant''"

definition lib_archs :: "xc_library \<Rightarrow> pval res" where
  "lib_archs l = py_getitem (lib_dict l) ''SupportedArchitectures''"

definition is_simulator :: "xc_library \<Rightarrow> bool res" where
  "is_simulator l = map_sum id (\<lambda>v. v = PStr ''simulator'') (lib_variant l)"

definition is_device :: "xc_library \<Rightarrow> bool res" where
  "is_device l = map_sum id Not (py_contains (lib_dict l) ''SupportedPlatformVariant'')"

definition is_ios :: "xc_library \<Rightarrow> bool res" where
  "is_ios l = map_sum id (\<lambda>v. v = PStr ''ios'') (lib_platform l)"

definition is_macos :: "xc_library \<Rightarrow> bool res" where
  "is_macos l = map_sum id (\<lambda>v. v = PStr ''macos'') (lib_platform l)"

definition lib_repr :: "xc_library \<Rightarrow> string" where
  "lib_repr l = ''XCFramework.Library('' @ py_str (lib_dict l) @ '')''"

text \<open>The filter of \<open>iOSDeviceModule\<close>, \<open>x.is_ios() and x.is_device()\<close>, with the
  short-circuit of \<open>and\<close>, and the choice of its first element.\<close>

definition ios_device_test :: "xc_library \<Rightarrow> bool res" where
  "ios_device_test l = (case is_ios l of Inl e \<Rightarrow> Inl e | Inr b \<Rightarrow> if b then is_device l else Inr False)"

definition ios_device_library :: "xc_library list \<Rightarrow> xc_library res" where
  "ios_device_library libs =
     (case filter_res ios_device_test libs of Inl e \<Rightarrow> Inl e | Inr ys \<Rightarrow> py_index0 ys)"

subsection \<open>XCFramework\<close>

record xcframework =
  xc_path :: string
  xc_name :: string
  xc_libraries :: "xc_library list"

text \<open>\<open>os.path.basename(path).split(".")[0]\<close>: the last component up to its first dot.\<close>

definition framework_name :: "string \<Rightarrow> string" where
  "framework_name p = takeWhile (\<lambda>c. c \<noteq> CHR ''.'') (basename p)"

definition xc_repr :: "xcframework \<Rightarrow> string" where
  "xc_repr x = ''XCFramework('' @ xc_path x @ '')''"

definition parse_libraries :: "pval \<Rightarrow> string \<Rightarrow> xc_library list res" where
  "parse_libraries plist root =
     (case py_getitem plist ''AvailableLibraries'' of
        Inl e \<Rightarrow> Inl e
      | Inr v \<Rightarrow> map_sum id (map (\<lambda>x. \<lparr>lib_dict = x, lib_root = root\<rparr>)) (py_iter v))"

definition XCFramework :: "(string \<Rightarrow> pval res) \<Rightarrow> string \<Rightarrow> xcframework io" where
  "XCFramework PL path = (\<lambda>w.
     let p = abspath (cwd w) path in
     if \<not> is_dir w p \<and> endswith p ''.xcframework''
     then (Inl (Exception (p @ '' is not a valid XCFramework'')), w)
     else exc_bind (read_text (path_join p ''Info.plist'')) (\<lambda>txt.
            case PL txt of
              Inl e \<Rightarrow> exc_raise e
            | Inr plist \<Rightarrow>
                (case parse_libraries plist p of
                   Inl e \<Rightarrow> exc_raise e
                 | Inr libs \<Rightarrow> exc_return \<lparr>xc_path = p, xc_name = framework_name p, xc_libraries = libs\<rparr>)) w)"

subsection \<open>The contract of the device-library choice\<close>

text \<open>A library entry whose \<open>SupportedPlatform\<close> can be read, and the abstract
  condition of the specification: the platform is \<open>ios\<close> and there is no variant.\<close>

definition has_platform :: "xc_library \<Rightarrow> bool" where
  "has_platform l = (case lib_dict l of PDict d \<Rightarrow> map_of d ''SupportedPlatform'' \<noteq> None | _ \<Rightarrow> False)"

definition device_lib :: "xc_library \<Rightarrow> bool" where
  "device_lib l =
     (case lib_dict l of
        PDict d \<Rightarrow> map_of d ''SupportedPlatform'' = Some (PStr ''ios'') \<and>
                   ''SupportedPlatformVariant'' \<notin> set (map fst d)
      | _ \<Rightarrow> False)"

section \<open>Lemmas\<close>

lemma filter_res_Inr:
  "(\<And>x. x \<in> set xs \<Longrightarrow> P x = Inr (Q x)) \<Longrightarrow> filter_res P xs = Inr (filter Q xs)"
  by (induction xs) simp_all

lemma filter_res_Inl:
  "(\<And>a. a \<in> set as \<Longrightarrow> P a = Inr (Q a)) \<Longrightarrow> P x = Inl e \<Longrightarrow> filter_res P (as @ x # bs) = Inl e"
  by (induction as) simp_all

lemma ios_device_test_spec: "has_platform l \<Longrightarrow> ios_device_test l = Inr (device_lib l)"
  by (auto simp: has_platform_def device_lib_def ios_device_test_def is_ios_def is_device_def
      lib_platform_def py_getitem_def py_contains_def split: pval.splits option.splits)

lemma ios_device_test_missing:
  "lib_dict l = PDict d \<Longrightarrow> map_of d ''SupportedPlatform'' = None \<Longrightarrow>
   ios_device_test l = Inl (KeyError ''SupportedPlatform'')"
  by (simp add: ios_device_test_def is_ios_def lib_platform_def py_getitem_def)

lemma filter_res_ios_device:
  "list_all has_platform libs \<Longrightarrow> filter_res ios_device_test libs = Inr (filter device_lib libs)"
  by (intro filter_res_Inr) (simp add: ios_device_test_spec list_all_iff)

lemma py_index0_simps [simp]: "py_index0 [] = Inl IndexError" "py_index0 (x # xs) = Inr x"
  by (simp_all add: py_index0_def)

lemma framework_name_bundle:
  assumes "CHR ''.'' \<notin> set n" and "CHR ''/'' \<notin> set n"
  shows "framework_name (d @ ''/'' @ n @ ''.xcframework'') = n"
proof -
  have "basename (d @ ''/'' @ n @ ''.xcframework'') = n @ ''.xcframework''"
    using assms(2) basename_append_no_slash [of "n @ ''.xcframework''" d] by simp
  moreover have "takeWhile (\<lambda>c. c \<noteq> CHR ''.'') (n @ ''.xcframework'') =
      n @ takeWhile (\<lambda>c. c \<noteq> CHR ''.'') ''.xcframework''"
    using assms(1) by (intro takeWhile_append2) auto
  ultimately show ?thesis by (simp add: framework_name_def)
qed

lemmas bundle_eval = ios_device_library_def ios_device_test_def is_ios_def is_device_def
  lib_platform_def py_getitem_def py_contains_def

lemma XCFramework_unfold:
  assumes "p = abspath (cwd w) path" and "is_dir w p \<or> \<not> endswith p ''.xcframework''"
  shows "XCFramework PL path w =
    exc_bind (read_text (path_join p ''Info.plist'')) (\<lambda>txt.
      case PL txt of
        Inl e \<Rightarrow> exc_raise e
      | Inr plist \<Rightarrow>
          (case parse_libraries plist p of
             Inl e \<Rightarrow> exc_raise e
           | Inr libs \<Rightarrow> exc_return \<lparr>xc_path = p, xc_name = framework_name p, xc_libraries = libs\<rparr>)) w"
  using assms by (auto simp: XCFramework_def Let_def)

lemma is_dir_commands [simp]: "is_dir (w\<lparr>commands := cs\<rparr>) p = is_dir w p"
  by (simp add: is_dir_def resolve_def)

lemma reader_XCFramework [simp]: "reader (XCFramework PL path)"
proof -
  have r: "reader (exc_bind (read_text (path_join p ''Info.plist'')) (\<lambda>txt.
      case PL txt of
        Inl e \<Rightarrow> exc_raise e
      | Inr plist \<Rightarrow>
          (case parse_libraries plist p of
             Inl e \<Rightarrow> exc_raise e
           | Inr libs \<Rightarrow> exc_return \<lparr>xc_path = p, xc_name = framework_name p, xc_libraries = libs\<rparr>)))" for p
    by (intro reader_bind) (simp_all split: sum.split)
  show ?thesis unfolding reader_def
  proof (intro allI conjI)
    fix w cs
    show "snd (XCFramework PL path w) = w"
      using readerD(1) [OF r] by (simp add: XCFramework_def Let_def)
    show "XCFramework PL path (w\<lparr>commands := cs\<rparr>) = (fst (XCFramework PL path w), w\<lparr>commands := cs\<rparr>)"
    proof -
      have c: "cwd (w\<lparr>commands := cs\<rparr>) = cwd w" by simp
      show ?thesis using readerD(2) [OF r, of "abspath (cwd w) path" cs w]
        by (simp only: XCFramework_def Let_def c) simp
    qed
  qed
qed

section \<open>Properties of the bundle\<close>

text \<open>C6. Device-library choice against its contract: when every library entry has a
  platform, \<open>iOSDeviceModule\<close> picks the first library whose platform is \<open>ios\<close> and that
  has no variant, and raises \<open>IndexError\<close> when there is none.\<close>

theorem ios_device_library_first:
  assumes "list_all has_platform libs"
  shows "ios_device_library libs = (case filter device_lib libs of [] \<Rightarrow> Inl IndexError | l # _ \<Rightarrow> Inr l)"
  using filter_res_ios_device [OF assms] by (simp add: ios_device_library_def split: list.split)

theorem ios_device_library_first_witness:
  "list_all has_platform
     [\<lparr>lib_dict = PDict [(''SupportedPlatform'', PStr ''ios''), (''SupportedPlatformVariant'', PStr ''simulator'')], lib_root = ''/x''\<rparr>,
      \<lparr>lib_dict = PDict [(''SupportedPlatform'', PStr ''ios'')], lib_root = ''/x''\<rparr>] \<and>
   ios_device_library
     [\<lparr>lib_dict = PDict [(''SupportedPlatform'', PStr ''ios''), (''SupportedPlatformVariant'', PStr ''simulator'')], lib_root = ''/x''\<rparr>,
      \<lparr>lib_dict = PDict [(''SupportedPlatform'', PStr ''ios'')], lib_root = ''/x''\<rparr>] =
     Inr \<lparr>lib_dict = PDict [(''SupportedPlatform'', PStr ''ios'')], lib_root = ''/x''\<rparr> \<and>
   list_all has_platform
     [\<lparr>lib_dict = PDict [(''SupportedPlatform'', PStr ''ios''), (''SupportedPlatformVariant'', PStr ''simulator'')], lib_root = ''/x''\<rparr>] \<and>
   ios_device_library
     [\<lparr>lib_dict = PDict [(''SupportedPlatform'', PStr ''ios''), (''SupportedPlatformVariant'', PStr ''simulator'')], lib_root = ''/x''\<rparr>] =
     Inl IndexError"
proof -
  let ?sim = "\<lparr>lib_dict = PDict [(''SupportedPlatform'', PStr ''ios''), (''SupportedPlatformVariant'', PStr ''simulator'')], lib_root = ''/x''\<rparr>"
  let ?dev = "\<lparr>lib_dict = PDict [(''SupportedPlatform'', PStr ''ios'')], lib_root = ''/x''\<rparr>"
  have h1: "list_all has_platform [?sim, ?dev]" and h2: "list_all has_platform [?sim]"
    by (simp_all add: has_platform_def)
  show ?thesis
    using h1 h2 ios_device_library_first [OF h1] ios_device_library_first [OF h2]
    by (simp add: device_lib_def)
qed

text \<open>C17. The filter of \<open>iOSDeviceModule\<close> runs over the whole list before the first
  element is taken: a library entry with no \<open>SupportedPlatform\<close> after entries that all
  have one makes the choice fail with \<open>KeyError\<close>, even when a device library comes
  before it.\<close>

theorem ios_device_library_eager:
  assumes "list_all has_platform as" and "lib_dict b = PDict d" and "map_of d ''SupportedPlatform'' = None"
  shows "ios_device_library (as @ b # bs) = Inl (KeyError ''SupportedPlatform'')"
proof -
  have "filter_res ios_device_test (as @ b # bs) = Inl (KeyError ''SupportedPlatform'')"
    using assms by (intro filter_res_Inl [where Q = device_lib])
      (simp_all add: ios_device_test_spec ios_device_test_missing list_all_iff)
  then show ?thesis by (simp add: ios_device_library_def)
qed

theorem ios_device_library_eager_witness:
  "list_all has_platform [\<lparr>lib_dict = PDict [(''SupportedPlatform'', PStr ''ios'')], lib_root = ''/x''\<rparr>] \<and>
   lib_dict \<lparr>lib_dict = PDict [(''LibraryIdentifier'', PStr ''docs'')], lib_root = ''/x''\<rparr> = PDict [(''LibraryIdentifier'', PStr ''docs'')] \<and>
   map_of [(''LibraryIdentifier'', PStr ''docs'')] ''SupportedPlatform'' = None \<and>
   ios_device_library [\<lparr>lib_dict = PDict [(''SupportedPlatform'', PStr ''ios'')], lib_root = ''/x''\<rparr>,
                       \<lparr>lib_dict = PDict [(''LibraryIdentifier'', PStr ''docs'')], lib_root = ''/x''\<rparr>] =
     Inl (KeyError ''SupportedPlatform'')"
proof -
  have h: "list_all has_platform [\<lparr>lib_dict = PDict [(''SupportedPlatform'', PStr ''ios'')], lib_root = ''/x''\<rparr>]"
    by (simp add: has_platform_def)
  have d: "lib_dict \<lparr>lib_dict = PDict [(''LibraryIdentifier'', PStr ''docs'')], lib_root = ''/x''\<rparr> = PDict [(''LibraryIdentifier'', PStr ''docs'')]"
    by simp
  have m: "map_of [(''LibraryIdentifier'', PStr ''docs'')] ''SupportedPlatform'' = None" by simp
  show ?thesis using h d m ios_device_library_eager [OF h d m, of "[]"] by simp
qed

lemma framework_name_split:
  assumes "basename p = n @ ''.'' @ e" and "CHR ''.'' \<notin> set n"
  shows "framework_name p = n"
proof -
  have "takeWhile (\<lambda>c. c \<noteq> CHR ''.'') (n @ CHR ''.'' # e) = n" using assms(2) by (induction n) auto
  then show ?thesis using assms(1) by (simp add: framework_name_def)
qed

text \<open>C13. The constructor \<open>XCFramework(path)\<close> on a path that passes its check: the
  object has the absolute path, the name \<open>n\<close> before the first dot of the last component
  \<open>n.e\<close>, and one library per entry of \<open>AvailableLibraries\<close> of the parsed \<open>Info.plist\<close>,
  in order, each holding that entry and rooted at the path; nothing in the world changes.\<close>

theorem XCFramework_ok:
  assumes "p = abspath (cwd w) path" and "is_dir w p"
    and "files w (resolve w (path_join p ''Info.plist'')) = Some t" and "PL (univ_nl t) = Inr plist"
    and "py_getitem plist ''AvailableLibraries'' = Inr (PArr ds)"
    and "basename p = n @ ''.'' @ e" and "CHR ''.'' \<notin> set n"
  shows "XCFramework PL path w =
    (Inr \<lparr>xc_path = p, xc_name = n, xc_libraries = map (\<lambda>d. \<lparr>lib_dict = d, lib_root = p\<rparr>) ds\<rparr>, w)"
proof -
  have "framework_name p = n" using assms(6,7) by (rule framework_name_split)
  moreover have "parse_libraries plist p = Inr (map (\<lambda>d. \<lparr>lib_dict = d, lib_root = p\<rparr>) ds)"
    using assms(5) by (simp add: parse_libraries_def py_iter_def)
  ultimately show ?thesis using assms(1-4) by (simp add: XCFramework_unfold exc_bind_def)
qed

theorem XCFramework_ok_witness:
  "''/sdk/MapboxMaps.xcframework'' = abspath (cwd \<lparr>files = Map.empty(''/sdk/MapboxMaps.xcframework/Info.plist'' \<mapsto> ''L''),
      dirs = Map.empty(''/sdk/MapboxMaps.xcframework'' \<mapsto> [''Info.plist'']), cwd = ''/sdk'', out = [], err = [], commands = [],
      tools = (\<lambda>_ _. Launch_error (FileNotFoundError ''xcrun''))\<rparr>) ''MapboxMaps.xcframework'' \<and>
   fst (XCFramework (\<lambda>t. if t = ''L'' then Inr (PDict [(''AvailableLibraries'', PArr [PDict []])]) else Inl (Exception ''plist''))
       ''MapboxMaps.xcframework''
      \<lparr>files = Map.empty(''/sdk/MapboxMaps.xcframework/Info.plist'' \<mapsto> ''L''),
       dirs = Map.empty(''/sdk/MapboxMaps.xcframework'' \<mapsto> [''Info.plist'']), cwd = ''/sdk'', out = [], err = [], commands = [],
       tools = (\<lambda>_ _. Launch_error (FileNotFoundError ''xcrun''))\<rparr>) =
     Inr \<lparr>xc_path = ''/sdk/MapboxMaps.xcframework'', xc_name = ''MapboxMaps'',
          xc_libraries = [\<lparr>lib_dict = PDict [], lib_root = ''/sdk/MapboxMaps.xcframework''\<rparr>]\<rparr>"
proof -
  let ?w = "\<lparr>files = Map.empty(''/sdk/MapboxMaps.xcframework/Info.plist'' \<mapsto> ''L''),
      dirs = Map.empty(''/sdk/MapboxMaps.xcframework'' \<mapsto> [''Info.plist'']), cwd = ''/sdk'', out = [], err = [], commands = [],
      tools = (\<lambda>_ _. Launch_error (FileNotFoundError ''xcrun''))\<rparr>"
  let ?PL = "\<lambda>t. if t = ''L'' then Inr (PDict [(''AvailableLibraries'', PArr [PDict []])]) else Inl (Exception ''plist'')"
  let ?p = "''/sdk/MapboxMaps.xcframework''"
  have p: "?p = abspath (cwd ?w) ''MapboxMaps.xcframework''"
    by (simp add: abspath_def normpath_def path_join_def startswith_def endswith_def split_on_from.simps)
  have d: "is_dir ?w ?p" by (simp add: is_dir_def resolve_def path_join_def startswith_def)
  have f: "files ?w (resolve ?w (path_join ?p ''Info.plist'')) = Some ''L''"
    by (simp add: resolve_def path_join_def startswith_def endswith_def)
  have l: "?PL (univ_nl ''L'') = Inr (PDict [(''AvailableLibraries'', PArr [PDict []])])" by simp
  have r: "py_getitem (PDict [(''AvailableLibraries'', PArr [PDict []])]) ''AvailableLibraries'' = Inr (PArr [PDict []])"
    by (simp add: py_getitem_def)
  have b: "basename ?p = ''MapboxMaps'' @ ''.'' @ ''xcframework''" by (simp add: basename_def)
  have n: "CHR ''.'' \<notin> set ''MapboxMaps''" by simp
  show ?thesis using p XCFramework_ok [where PL = ?PL, OF p d f l r b n] by simp
qed

text \<open>C27. The check of \<open>XCFramework(path)\<close> raises its \<open>is not a valid XCFramework\<close>
  exception only for a path that ends in \<open>.xcframework\<close> and is not a directory: a path
  that lacks the suffix and does not exist (its \<open>Info.plist\<close> is neither a file, nor a
  directory, nor under a regular file) passes it, and the constructor fails later, on the
  read of \<open>Info.plist\<close> under it, with \<open>FileNotFoundError\<close>.\<close>

theorem XCFramework_guard_gap:
  assumes "p = abspath (cwd w) path" and "\<not> is_dir w p" and "\<not> endswith p ''.xcframework''"
    and "files w (resolve w (path_join p ''Info.plist'')) = None"
    and "dirs w (resolve w (path_join p ''Info.plist'')) = None"
    and "\<not> through_file (files w) (resolve w (path_join p ''Info.plist''))"
  shows "XCFramework PL path w = (Inl (FileNotFoundError (path_join p ''Info.plist'')), w)"
  using assms by (simp add: XCFramework_unfold exc_bind_def open_error_missing)

theorem XCFramework_guard_gap_witness:
  "''/sdk/MapboxMaps'' = abspath (cwd \<lparr>files = Map.empty(''/sdk/MapboxMaps.zip'' \<mapsto> ''PK''), dirs = Map.empty(''/sdk'' \<mapsto> [''MapboxMaps.zip'']),
      cwd = ''/sdk'', out = [], err = [], commands = [], tools = (\<lambda>_ _. Launch_error (FileNotFoundError ''xcrun''))\<rparr>) ''MapboxMaps'' \<and>
   \<not> is_dir \<lparr>files = Map.empty(''/sdk/MapboxMaps.zip'' \<mapsto> ''PK''), dirs = Map.empty(''/sdk'' \<mapsto> [''MapboxMaps.zip'']),
      cwd = ''/sdk'', out = [], err = [], commands = [], tools = (\<lambda>_ _. Launch_error (FileNotFoundError ''xcrun''))\<rparr> ''/sdk/MapboxMaps'' \<and>
   \<not> endswith ''/sdk/MapboxMaps'' ''.xcframework'' \<and>
   fst (XCFramework (\<lambda>_. Inl (Exception ''plist'')) ''MapboxMaps''
     \<lparr>files = Map.empty(''/sdk/MapboxMaps.zip'' \<mapsto> ''PK''), dirs = Map.empty(''/sdk'' \<mapsto> [''MapboxMaps.zip'']),
      cwd = ''/sdk'', out = [], err = [], commands = [], tools = (\<lambda>_ _. Launch_error (FileNotFoundError ''xcrun''))\<rparr>) =
   Inl (FileNotFoundError ''/sdk/MapboxMaps/Info.plist'')"
proof -
  let ?w = "\<lparr>files = Map.empty(''/sdk/MapboxMaps.zip'' \<mapsto> ''PK''), dirs = Map.empty(''/sdk'' \<mapsto> [''MapboxMaps.zip'']),
      cwd = ''/sdk'', out = [], err = [], commands = [], tools = (\<lambda>_ _. Launch_error (FileNotFoundError ''xcrun''))\<rparr>"
  let ?p = "''/sdk/MapboxMaps''"
  have p: "?p = abspath (cwd ?w) ''MapboxMaps''"
    by (simp add: abspath_def normpath_def path_join_def startswith_def endswith_def split_on_from.simps)
  have d: "\<not> is_dir ?w ?p" by (simp add: is_dir_def resolve_def path_join_def startswith_def)
  have e: "\<not> endswith ?p ''.xcframework''" by (simp add: endswith_def)
  have r: "resolve ?w (path_join ?p ''Info.plist'') = ''/sdk/MapboxMaps/Info.plist''"
    by (simp add: resolve_def path_join_def startswith_def endswith_def)
  have f: "files ?w (resolve ?w (path_join ?p ''Info.plist'')) = None" using r by simp
  have g: "dirs ?w (resolve ?w (path_join ?p ''Info.plist'')) = None" using r by simp
  have t: "\<not> through_file (files ?w) (resolve ?w (path_join ?p ''Info.plist''))"
    unfolding r by code_simp
  have j: "path_join ?p ''Info.plist'' = ''/sdk/MapboxMaps/Info.plist''"
    by (simp add: path_join_def startswith_def endswith_def)
  show ?thesis using p d e XCFramework_guard_gap [OF p d e f g t, of "\<lambda>_. Inl (Exception ''plist'')"] j by simp
qed

text \<open>C33. A regular file that lacks the \<open>.xcframework\<close> suffix (the SDK archive itself, say)
  passes the same check, and the constructor then fails on \<open>Info.plist\<close> below it with
  \<open>NotADirectoryError\<close>, not with the check's \<open>is not a valid XCFramework\<close>.\<close>

theorem XCFramework_regular_file:
  assumes p: "p = abspath (cwd w) path" and ab: "startswith p ''/''" and ns: "\<not> endswith p ''/''"
    and isf: "files w p \<noteq> None" and nd: "dirs w p = None" and e: "\<not> endswith p ''.xcframework''"
    and nf: "files w (p @ ''/Info.plist'') = None" and ng: "dirs w (p @ ''/Info.plist'') = None"
  shows "XCFramework PL path w = (Inl (NotADirectoryError (p @ ''/Info.plist'')), w)"
proof -
  have ne: "p \<noteq> []" using ab by (cases p) simp_all
  have j: "path_join p ''Info.plist'' = p @ ''/Info.plist''"
    using ne ns by (simp add: path_join_def startswith_def)
  have r: "resolve w (p @ ''/Info.plist'') = p @ ''/Info.plist''"
    using ab by (simp add: resolve_absolute startswith_iff_prefix prefix_prefix)
  have d: "is_dir w p \<or> \<not> endswith p ''.xcframework''" using e by simp
  have t: "through_file (files w) (p @ ''/'' @ ''Info.plist'')" by (rule through_file_below [where fs = "files w", OF ne isf])
  show ?thesis
    using XCFramework_unfold [OF p d, of PL] nf ng t
    by (simp add: j r exc_bind_def open_error_def)
qed

theorem XCFramework_regular_file_witness:
  "XCFramework (\<lambda>_. Inl (Exception ''plist'')) ''MapboxMaps.zip''
     \<lparr>files = Map.empty(''/sdk/MapboxMaps.zip'' \<mapsto> ''PK''), dirs = Map.empty(''/sdk'' \<mapsto> [''MapboxMaps.zip'']),
      cwd = ''/sdk'', out = [], err = [], commands = [], tools = (\<lambda>_ _. Launch_error (FileNotFoundError ''xcrun''))\<rparr> =
   (Inl (NotADirectoryError ''/sdk/MapboxMaps.zip/Info.plist''),
     \<lparr>files = Map.empty(''/sdk/MapboxMaps.zip'' \<mapsto> ''PK''), dirs = Map.empty(''/sdk'' \<mapsto> [''MapboxMaps.zip'']),
      cwd = ''/sdk'', out = [], err = [], commands = [], tools = (\<lambda>_ _. Launch_error (FileNotFoundError ''xcrun''))\<rparr>)"
proof -
  let ?w = "\<lparr>files = Map.empty(''/sdk/MapboxMaps.zip'' \<mapsto> ''PK''), dirs = Map.empty(''/sdk'' \<mapsto> [''MapboxMaps.zip'']),
      cwd = ''/sdk'', out = [], err = [], commands = [], tools = (\<lambda>_ _. Launch_error (FileNotFoundError ''xcrun''))\<rparr>"
  let ?p = "''/sdk/MapboxMaps.zip''"
  have p: "?p = abspath (cwd ?w) ''MapboxMaps.zip''"
    by (simp add: abspath_def normpath_def path_join_def startswith_def endswith_def split_on_from.simps)
  have ab: "startswith ?p ''/''" and ns: "\<not> endswith ?p ''/''" and e: "\<not> endswith ?p ''.xcframework''"
    by (simp_all add: startswith_def endswith_def)
  have isf: "files ?w ?p \<noteq> None" and nd: "dirs ?w ?p = None"
    and nf: "files ?w (?p @ ''/Info.plist'') = None" and ng: "dirs ?w (?p @ ''/Info.plist'') = None"
    by simp_all
  show ?thesis using XCFramework_regular_file [OF p ab ns isf nd e nf ng] by simp
qed

end
