(* ===== verification/SDK_Module.thy ===== *)
theory SDK_Module
  imports Bundle
begin

text \<open>
  \<open>SDKModule\<close> (lines 189--226) and \<open>XCFramework.iOSDeviceModule\<close> (lines 278--281): the
  module directory of one library of a bundle, its parsed \<open>Info.plist\<close>, the target triple
  and executable read from it, and the module's linked libraries, read from the output of
  \<open>xcrun otool -L\<close> and filtered of system libraries and of the SDK's own framework.
  \<open>PL\<close> is \<open>plistlib.load\<close> on the file's bytes.  \<open>otool_output\<close> is the layout of the
  tool's listing, used to state what the parse recovers.
\<close>

section \<open>Definitions\<close>

record sdk_module =
  mod_library :: xc_library
  mod_path :: string
  mod_plist :: pval

text \<open>\<open>v[0]\<close> on a property-list value.\<close>

definition py_item0 :: "pval \<Rightarrow> pval res" where
  "py_item0 v =
     (case v of
        PArr xs \<Rightarrow> py_index0 xs
      | PStr s \<Rightarrow> map_sum id (\<lambda>c. PStr [c]) (py_index0 s)
      | PDict _ \<Rightarrow> Inl (KeyError ''0'')
      | PInt _ \<Rightarrow> Inl (TypeError ''int object is not subscriptable'')
      | PBool _ \<Rightarrow> Inl (TypeError ''bool object is not subscriptable''))"

text \<open>\<open>os.path.join(root, library.libraryIdentifier(), library.path())\<close> then
  \<open>plistlib.load\<close> of \<open>Info.plist\<close> under it.\<close>

definition SDKModule :: "(string \<Rightarrow> pval res) \<Rightarrow> string \<Rightarrow> xc_library \<Rightarrow> sdk_module io" where
  "SDKModule PL root lib =
     (case lib_identifier lib of
        Inl e \<Rightarrow> exc_raise e
      | Inr ident \<Rightarrow>
          (case lib_path lib of
             Inl e \<Rightarrow> exc_raise e
           | Inr lp \<Rightarrow>
               (case (ident, lp) of
                  (PStr i, PStr l) \<Rightarrow>
                    let p = path_join (path_join root i) l in
                    exc_bind (read_bytes (path_join p ''Info.plist'')) (\<lambda>b.
                      case PL b of
                        Inl e \<Rightarrow> exc_raise e
                      | Inr pl \<Rightarrow> exc_return \<lparr>mod_library = lib, mod_path = p, mod_plist = pl\<rparr>)
                | _ \<Rightarrow> exc_raise (TypeError ''join() argument must be str''))))"

definition minimum_os_version :: "sdk_module \<Rightarrow> pval res" where
  "minimum_os_version m = py_getitem (mod_plist m) ''MinimumOSVersion''"

text \<open>The f-string of \<open>triplet_target\<close>, its three fields read left to right.\<close>

definition triplet_target :: "sdk_module \<Rightarrow> string res" where
  "triplet_target m =
     (case lib_archs (mod_library m) of
        Inl e \<Rightarrow> Inl e
      | Inr archs \<Rightarrow>
          (case py_item0 archs of
             Inl e \<Rightarrow> Inl e
           | Inr a \<Rightarrow>
               (case lib_platform (mod_library m) of
                  Inl e \<Rightarrow> Inl e
                | Inr pf \<Rightarrow>
                    (case minimum_os_version m of
                       Inl e \<Rightarrow> Inl e
                     | Inr v \<Rightarrow> Inr (py_str a @ ''-apple-'' @ py_str pf @ py_str v)))))"

definition executable_path :: "sdk_module \<Rightarrow> pval res" where
  "executable_path m = py_getitem (mod_plist m) ''CFBundleExecutable''"

definition executable :: "sdk_module \<Rightarrow> string res" where
  "executable m =
     (case executable_path m of
        Inl e \<Rightarrow> Inl e
      | Inr (PStr s) \<Rightarrow> Inr (path_join (mod_path m) s)
      | Inr _ \<Rightarrow> Inl (TypeError ''join() argument must be str''))"

text \<open>\<open>f"SDKModule({self.path, self.plist})"\<close>: the pair is a tuple, formatted by its
  \<open>repr\<close>.\<close>

definition mod_repr :: "sdk_module \<Rightarrow> string" where
  "mod_repr m = ''SDKModule(('' @ repr_str (mod_path m) @ '', '' @ py_repr (mod_plist m) @ ''))''"

definition otool_cmd :: "string \<Rightarrow> string list" where
  "otool_cmd exe = [''xcrun'', ''otool'', ''-L'', exe]"

text \<open>\<open>stdout.strip().split("\n\t")\<close>, then the first word of every entry after the first.\<close>

definition parse_otool :: "string \<Rightarrow> string list res" where
  "parse_otool s =
     (case py_split (py_strip s) [NL, TAB] of
        Inl e \<Rightarrow> Inl e
      | Inr parts \<Rightarrow> map_res (\<lambda>x. py_index0 (split_ws x)) (drop 1 parts))"

text \<open>The return code of \<open>otool\<close> is not read: only its standard output is.\<close>

definition list_all_dependencies :: "sdk_module \<Rightarrow> string list io" where
  "list_all_dependencies m =
     (case executable m of
        Inl e \<Rightarrow> exc_raise e
      | Inr exe \<Rightarrow>
          exc_bind (run_captured (otool_cmd exe)) (\<lambda>p.
            case parse_otool (proc_stdout p) of
              Inl e \<Rightarrow> exc_raise e
            | Inr ds \<Rightarrow> exc_return ds))"

definition filter_system_dependencies :: "string \<Rightarrow> bool" where
  "filter_system_dependencies d \<longleftrightarrow>
     \<not> startswith d ''/usr/lib'' \<and> \<not> startswith d ''/System'' \<and>
     \<not> endswith d ''.dylib'' \<and> \<not> endswith d ''MapboxMaps.framework/MapboxMaps''"

definition list_dependencies :: "sdk_module \<Rightarrow> string list io" where
  "list_dependencies m =
     exc_bind (list_all_dependencies m) (\<lambda>ds. exc_return (filter filter_system_dependencies ds))"

definition iOSDeviceModule :: "(string \<Rightarrow> pval res) \<Rightarrow> xcframework \<Rightarrow> sdk_module io" where
  "iOSDeviceModule PL x =
     (case ios_device_library (xc_libraries x) of
        Inl e \<Rightarrow> exc_raise e
      | Inr l \<Rightarrow> SDKModule PL (xc_path x) l)"

text \<open>The listing of \<open>otool -L\<close>: the binary's path and a colon, then one line per linked
  library, a tab, its install name and the parenthesised versions.\<close>

definition otool_output :: "string \<Rightarrow> (string \<times> string) list \<Rightarrow> string" where
  "otool_output exe deps =
     exe @ '':'' @ concat (map (\<lambda>dv. [NL, TAB] @ fst dv @ '' ('' @ snd dv @ '')'') deps) @ [NL]"

text \<open>An install name the parse can recover: non-empty, with no white space, and neither it
  nor the version text holds a line break.\<close>

definition otool_entry_ok :: "string \<times> string \<Rightarrow> bool" where
  "otool_entry_ok dv \<longleftrightarrow>
     fst dv \<noteq> [] \<and> \<not> list_ex py_isspace (fst dv) \<and> NL \<notin> set (snd dv) \<and>
     CR \<notin> set (fst dv) \<and> CR \<notin> set (snd dv)"

definition otool_exe_ok :: "string \<Rightarrow> bool" where
  "otool_exe_ok exe \<longleftrightarrow> exe \<noteq> [] \<and> \<not> py_isspace (hd exe) \<and> NL \<notin> set exe \<and> CR \<notin> set exe"

section \<open>Lemmas\<close>

lemma otool_body_last:
  "concat (map (\<lambda>dv. [NL, TAB] @ fst dv @ '' ('' @ snd dv @ '')'') deps) = [] \<or>
   last (concat (map (\<lambda>dv. [NL, TAB] @ fst dv @ '' ('' @ snd dv @ '')'') deps)) = CHR '')''"
  by (induction deps) auto

lemma otool_strip:
  assumes "otool_exe_ok exe"
  shows "py_strip (otool_output exe deps) =
    exe @ '':'' @ concat (map (\<lambda>dv. [NL, TAB] @ fst dv @ '' ('' @ snd dv @ '')'') deps)"
proof -
  let ?s = "exe @ '':'' @ concat (map (\<lambda>dv. [NL, TAB] @ fst dv @ '' ('' @ snd dv @ '')'') deps)"
  have "last ?s \<in> {CHR '':'', CHR '')''}"
    using otool_body_last [of deps] by auto
  moreover have "\<forall>c\<in>{CHR '':'', CHR '')''}. \<not> py_isspace c" by (simp add: py_isspace_def)
  ultimately have "\<not> py_isspace (last ?s)" by blast
  moreover have "hd ?s = hd exe" using assms by (simp add: otool_exe_ok_def)
  ultimately show ?thesis using assms py_strip_trailing [of ?s "[NL]"]
    by (simp add: otool_output_def otool_exe_ok_def py_isspace_def)
qed

lemma otool_first_word:
  "otool_entry_ok dv \<Longrightarrow> py_index0 (split_ws (fst dv @ '' ('' @ snd dv @ '')'')) = Inr (fst dv)"
  by (simp add: otool_entry_ok_def split_ws_def split_ws_from_word py_isspace_def)

lemma concat_map_sep:
  "concat (map (\<lambda>dv. [NL, TAB] @ fst dv @ '' ('' @ snd dv @ '')'') deps) =
   concat (map (\<lambda>e. [NL, TAB] @ e) (map (\<lambda>dv. fst dv @ '' ('' @ snd dv @ '')'') deps))"
  by (induction deps) simp_all

lemma otool_output_no_CR:
  "otool_exe_ok exe \<Longrightarrow> list_all otool_entry_ok deps \<Longrightarrow> CR \<notin> set (otool_output exe deps)"
  by (auto simp: otool_output_def otool_exe_ok_def otool_entry_ok_def list_all_iff)

lemma parse_otool_output:
  assumes "otool_exe_ok exe" and "list_all otool_entry_ok deps"
  shows "parse_otool (otool_output exe deps) = Inr (map fst deps)"
proof -
  let ?es = "map (\<lambda>dv. fst dv @ '' ('' @ snd dv @ '')'') deps"
  have h1: "hd [NL, TAB] \<notin> set (exe @ '':'')" using assms(1) by (simp add: otool_exe_ok_def)
  have h2: "\<forall>e\<in>set ?es. hd [NL, TAB] \<notin> set e"
    using assms(2) by (fastforce simp: otool_entry_ok_def list_all_iff list_ex_iff py_isspace_def)
  have "py_strip (otool_output exe deps) = (exe @ '':'') @ concat (map (\<lambda>e. [NL, TAB] @ e) ?es)"
    using otool_strip [OF assms(1)] concat_map_sep [of deps] by simp
  then have s: "split_on_from [NL, TAB] [] (py_strip (otool_output exe deps)) = (exe @ '':'') # ?es"
    using split_on_from_concat [OF _ h1 h2] by simp
  have m: "map_res (\<lambda>x. py_index0 (split_ws x)) ?es = Inr (map fst deps)"
    using assms(2)
  proof (induction deps)
    case (Cons dv deps)
    then show ?case using otool_first_word [of dv] by simp
  qed simp
  show ?thesis unfolding parse_otool_def py_split_def using s m by simp
qed

lemma list_all_dependencies_run:
  assumes "executable m = Inr exe" and "tools w (otool_cmd exe) (files w) = Completed p fs"
  shows "list_all_dependencies m w =
    (case parse_otool (univ_nl (proc_stdout p)) of
       Inl e \<Rightarrow> (Inl e, w\<lparr>commands := commands w @ [otool_cmd exe], files := fs\<rparr>)
     | Inr ds \<Rightarrow> (Inr ds, w\<lparr>commands := commands w @ [otool_cmd exe], files := fs\<rparr>))"
  using assms by (simp add: list_all_dependencies_def exc_bind_def split: sum.split)

lemma SDKModule_ok:
  assumes "lib_identifier l = Inr (PStr i)" and "lib_path l = Inr (PStr lp)"
    and "files w (resolve w (path_join (path_join (path_join root i) lp) ''Info.plist'')) = Some b"
    and "PL b = Inr pl"
  shows "SDKModule PL root l w =
    (Inr \<lparr>mod_library = l, mod_path = path_join (path_join root i) lp, mod_plist = pl\<rparr>, w)"
  using assms by (simp add: SDKModule_def exc_bind_def Let_def)

lemma list_dependencies_run:
  "executable m = Inr exe \<Longrightarrow> tools w (otool_cmd exe) (files w) = Completed p fs \<Longrightarrow>
   parse_otool (univ_nl (proc_stdout p)) = Inr ds \<Longrightarrow>
   list_dependencies m w =
     (Inr (filter filter_system_dependencies ds), w\<lparr>commands := commands w @ [otool_cmd exe], files := fs\<rparr>)"
  by (simp add: list_dependencies_def exc_bind_def list_all_dependencies_run)

lemma reader_SDKModule [simp]: "reader (SDKModule PL root l)"
  unfolding SDKModule_def Let_def by (auto split: sum.split pval.split intro!: reader_bind)

lemma reader_iOSDeviceModule [simp]: "reader (iOSDeviceModule PL x)"
  unfolding iOSDeviceModule_def by (simp split: sum.split)

section \<open>Properties of the module\<close>

text \<open>C7. The dependency listing: when \<open>otool -L\<close> lists the install names \<open>map fst deps\<close>
  of the module's executable, \<open>list_dependencies\<close> returns them in the tool's order, less
  those under \<open>/usr/lib\<close> or \<open>/System\<close>, those ending in \<open>.dylib\<close> and the SDK's own
  \<open>MapboxMaps.framework/MapboxMaps\<close>; the one command run is \<open>xcrun otool -L\<close> on the
  executable.\<close>

theorem list_dependencies_otool:
  assumes "executable m = Inr exe" and "otool_exe_ok exe" and "list_all otool_entry_ok deps"
    and "tools w (otool_cmd exe) (files w) = Completed p fs" and "proc_stdout p = otool_output exe deps"
  shows "list_dependencies m w =
    (Inr (filter filter_system_dependencies (map fst deps)),
     w\<lparr>commands := commands w @ [otool_cmd exe], files := fs\<rparr>)"
proof -
  have "univ_nl (proc_stdout p) = otool_output exe deps"
    using assms(2,3,5) by (simp add: univ_nl_no_CR otool_output_no_CR)
  then show ?thesis
    using list_dependencies_run [OF assms(1,4)] parse_otool_output [OF assms(2,3)] by simp
qed

theorem list_dependencies_otool_witness:
  "executable \<lparr>mod_library = \<lparr>lib_dict = PDict [], lib_root = ''/x''\<rparr>, mod_path = ''/m'',
      mod_plist = PDict [(''CFBundleExecutable'', PStr ''MapboxMaps'')]\<rparr> = Inr ''/m/MapboxMaps'' \<and>
   otool_exe_ok ''/m/MapboxMaps'' \<and>
   list_all otool_entry_ok [(''/usr/lib/libX.dylib'', ''v''), (''/System/Library/Foo'', ''v''),
      (''/path/to/MapboxMaps.framework/MapboxMaps'', ''v''), (''/path/to/Sibling.framework/Sibling'', ''v'')] \<and>
   fst (list_dependencies \<lparr>mod_library = \<lparr>lib_dict = PDict [], lib_root = ''/x''\<rparr>, mod_path = ''/m'',
      mod_plist = PDict [(''CFBundleExecutable'', PStr ''MapboxMaps'')]\<rparr>
     \<lparr>files = Map.empty, dirs = Map.empty, cwd = ''/'', out = [], err = [], commands = [],
      tools = (\<lambda>_ fs. Completed \<lparr>returncode = 0, proc_stdout = otool_output ''/m/MapboxMaps''
          [(''/usr/lib/libX.dylib'', ''v''), (''/System/Library/Foo'', ''v''),
           (''/path/to/MapboxMaps.framework/MapboxMaps'', ''v''), (''/path/to/Sibling.framework/Sibling'', ''v'')],
        proc_stderr = []\<rparr> fs)\<rparr>) =
   Inr [''/path/to/Sibling.framework/Sibling'']"
proof -
  let ?m = "\<lparr>mod_library = \<lparr>lib_dict = PDict [], lib_root = ''/x''\<rparr>, mod_path = ''/m'',
      mod_plist = PDict [(''CFBundleExecutable'', PStr ''MapboxMaps'')]\<rparr>"
  let ?deps = "[(''/usr/lib/libX.dylib'', ''v''), (''/System/Library/Foo'', ''v''),
      (''/path/to/MapboxMaps.framework/MapboxMaps'', ''v''), (''/path/to/Sibling.framework/Sibling'', ''v'')]"
  let ?p = "\<lparr>returncode = 0, proc_stdout = otool_output ''/m/MapboxMaps'' ?deps, proc_stderr = []\<rparr>"
  let ?w = "\<lparr>files = Map.empty, dirs = Map.empty, cwd = ''/'', out = [], err = [], commands = [],
      tools = (\<lambda>_ fs. Completed ?p fs)\<rparr>"
  have e: "executable ?m = Inr ''/m/MapboxMaps''"
    by (simp add: executable_def executable_path_def py_getitem_def path_join_def startswith_def endswith_def)
  have x: "otool_exe_ok ''/m/MapboxMaps''" by (simp add: otool_exe_ok_def py_isspace_def)
  have d: "list_all otool_entry_ok ?deps" by (simp add: otool_entry_ok_def py_isspace_def)
  have t: "tools ?w (otool_cmd ''/m/MapboxMaps'') (files ?w) = Completed ?p (files ?w)" by simp
  have o: "proc_stdout ?p = otool_output ''/m/MapboxMaps'' ?deps" by simp
  have f: "filter filter_system_dependencies (map fst ?deps) = [''/path/to/Sibling.framework/Sibling'']"
    by (simp add: filter_system_dependencies_def startswith_def endswith_def)
  show ?thesis using e x d f list_dependencies_otool [OF e x d t o] by simp
qed

text \<open>C23. The exit status of \<open>otool\<close> is never read: whatever status the tool exits with,
  an empty standard output gives an empty dependency list, and the dump goes on without
  the dependencies' search paths.\<close>

theorem list_dependencies_ignores_status:
  assumes "executable m = Inr exe" and "tools w (otool_cmd exe) (files w) = Completed p fs"
    and "proc_stdout p = []"
  shows "list_dependencies m w = (Inr [], w\<lparr>commands := commands w @ [otool_cmd exe], files := fs\<rparr>)"
proof -
  have "parse_otool (univ_nl (proc_stdout p)) = Inr []"
    using assms(3) by (simp add: parse_otool_def py_split_def py_strip_def split_on_from.simps)
  then show ?thesis using list_dependencies_run [OF assms(1,2)] by simp
qed

theorem list_dependencies_ignores_status_witness:
  "executable \<lparr>mod_library = \<lparr>lib_dict = PDict [], lib_root = ''/x''\<rparr>, mod_path = ''/m'',
      mod_plist = PDict [(''CFBundleExecutable'', PStr ''MapboxMaps'')]\<rparr> = Inr ''/m/MapboxMaps'' \<and>
   proc_stdout \<lparr>returncode = 1, proc_stdout = [], proc_stderr = ''error: no such file''\<rparr> = [] \<and>
   list_dependencies \<lparr>mod_library = \<lparr>lib_dict = PDict [], lib_root = ''/x''\<rparr>, mod_path = ''/m'',
      mod_plist = PDict [(''CFBundleExecutable'', PStr ''MapboxMaps'')]\<rparr>
     \<lparr>files = Map.empty, dirs = Map.empty, cwd = ''/'', out = [], err = [], commands = [],
      tools = (\<lambda>_ fs. Completed \<lparr>returncode = 1, proc_stdout = [], proc_stderr = ''error: no such file''\<rparr> fs)\<rparr> =
   (Inr [], \<lparr>files = Map.empty, dirs = Map.empty, cwd = ''/'', out = [], err = [], commands = [otool_cmd ''/m/MapboxMaps''],
      tools = (\<lambda>_ fs. Completed \<lparr>returncode = 1, proc_stdout = [], proc_stderr = ''error: no such file''\<rparr> fs)\<rparr>)"
proof -
  let ?m = "\<lparr>mod_library = \<lparr>lib_dict = PDict [], lib_root = ''/x''\<rparr>, mod_path = ''/m'',
      mod_plist = PDict [(''CFBundleExecutable'', PStr ''MapboxMaps'')]\<rparr>"
  let ?p = "\<lparr>returncode = 1, proc_stdout = [], proc_stderr = ''error: no such file''\<rparr>"
  let ?w = "\<lparr>files = Map.empty, dirs = Map.empty, cwd = ''/'', out = [], err = [], commands = [],
      tools = (\<lambda>_ fs. Completed ?p fs)\<rparr>"
  have e: "executable ?m = Inr ''/m/MapboxMaps''"
    by (simp add: executable_def executable_path_def py_getitem_def path_join_def startswith_def endswith_def)
  have t: "tools ?w (otool_cmd ''/m/MapboxMaps'') (files ?w) = Completed ?p (files ?w)" by simp
  have o: "proc_stdout ?p = []" by simp
  show ?thesis using e list_dependencies_ignores_status [OF e t o] by simp
qed

text \<open>C26. The target triple is the first supported architecture, \<open>-apple-\<close>, the
  platform and the minimum OS version, as in \<open>arm64-apple-ios11.0\<close>.\<close>

theorem triplet_target_format:
  assumes "lib_archs (mod_library m) = Inr (PArr (PStr a # as))"
    and "lib_platform (mod_library m) = Inr (PStr pf)" and "minimum_os_version m = Inr (PStr v)"
  shows "triplet_target m = Inr (a @ ''-apple-'' @ pf @ v)"
  using assms by (simp add: triplet_target_def py_item0_def py_str_def)

theorem triplet_target_format_witness:
  "lib_archs \<lparr>lib_dict = PDict [(''SupportedArchitectures'', PArr [PStr ''arm64'']), (''SupportedPlatform'', PStr ''ios'')],
      lib_root = ''/x''\<rparr> = Inr (PArr [PStr ''arm64'']) \<and>
   lib_platform \<lparr>lib_dict = PDict [(''SupportedArchitectures'', PArr [PStr ''arm64'']), (''SupportedPlatform'', PStr ''ios'')],
      lib_root = ''/x''\<rparr> = Inr (PStr ''ios'') \<and>
   minimum_os_version \<lparr>mod_library = \<lparr>lib_dict = PDict [(''SupportedArchitectures'', PArr [PStr ''arm64'']),
      (''SupportedPlatform'', PStr ''ios'')], lib_root = ''/x''\<rparr>, mod_path = ''/m'',
      mod_plist = PDict [(''MinimumOSVersion'', PStr ''11.0'')]\<rparr> = Inr (PStr ''11.0'') \<and>
   triplet_target \<lparr>mod_library = \<lparr>lib_dict = PDict [(''SupportedArchitectures'', PArr [PStr ''arm64'']),
      (''SupportedPlatform'', PStr ''ios'')], lib_root = ''/x''\<rparr>, mod_path = ''/m'',
      mod_plist = PDict [(''MinimumOSVersion'', PStr ''11.0'')]\<rparr> = Inr ''arm64-apple-ios11.0''"
proof -
  let ?l = "\<lparr>lib_dict = PDict [(''SupportedArchitectures'', PArr [PStr ''arm64'']), (''SupportedPlatform'', PStr ''ios'')],
      lib_root = ''/x''\<rparr>"
  let ?m = "\<lparr>mod_library = ?l, mod_path = ''/m'', mod_plist = PDict [(''MinimumOSVersion'', PStr ''11.0'')]\<rparr>"
  have a: "lib_archs (mod_library ?m) = Inr (PArr [PStr ''arm64''])" by (simp add: lib_archs_def py_getitem_def)
  have p: "lib_platform (mod_library ?m) = Inr (PStr ''ios'')" by (simp add: lib_platform_def py_getitem_def)
  have v: "minimum_os_version ?m = Inr (PStr ''11.0'')" by (simp add: minimum_os_version_def py_getitem_def)
  show ?thesis using a p v triplet_target_format [OF a p v] by simp
qed

text \<open>C12. \<open>iOSDeviceModule\<close> on a bundle whose library entries all have a platform: the
  module of the first \<open>ios\<close> library with no variant, at
  \<open>bundle/LibraryIdentifier/LibraryPath\<close>, with that directory's \<open>Info.plist\<close>; the
  world is unchanged.\<close>

theorem iOSDeviceModule_ok:
  assumes "list_all has_platform (xc_libraries x)" and "filter device_lib (xc_libraries x) = l # ls"
    and "lib_identifier l = Inr (PStr i)" and "lib_path l = Inr (PStr lp)"
    and "files w (resolve w (path_join (path_join (path_join (xc_path x) i) lp) ''Info.plist'')) = Some b"
    and "PL b = Inr pl"
  shows "iOSDeviceModule PL x w =
    (Inr \<lparr>mod_library = l, mod_path = path_join (path_join (xc_path x) i) lp, mod_plist = pl\<rparr>, w)"
proof -
  have "ios_device_library (xc_libraries x) = Inr l"
    using filter_res_ios_device [OF assms(1)] assms(2) by (simp add: ios_device_library_def)
  then show ?thesis using SDKModule_ok [where PL = PL, OF assms(3-6)] by (simp add: iOSDeviceModule_def)
qed

theorem iOSDeviceModule_ok_witness:
  "list_all has_platform (xc_libraries \<lparr>xc_path = ''/a/M.xcframework'', xc_name = ''M'',
      xc_libraries = [\<lparr>lib_dict = PDict [(''SupportedPlatform'', PStr ''ios''), (''SupportedPlatformVariant'', PStr ''simulator'')], lib_root = ''/a/M.xcframework''\<rparr>,
        \<lparr>lib_dict = PDict [(''LibraryIdentifier'', PStr ''ios-arm64''), (''LibraryPath'', PStr ''M.framework''),
           (''SupportedPlatform'', PStr ''ios'')], lib_root = ''/a/M.xcframework''\<rparr>]\<rparr>) \<and>
   fst (iOSDeviceModule (\<lambda>b. Inr (PDict [(''MinimumOSVersion'', PStr b)]))
     \<lparr>xc_path = ''/a/M.xcframework'', xc_name = ''M'',
      xc_libraries = [\<lparr>lib_dict = PDict [(''SupportedPlatform'', PStr ''ios''), (''SupportedPlatformVariant'', PStr ''simulator'')], lib_root = ''/a/M.xcframework''\<rparr>,
        \<lparr>lib_dict = PDict [(''LibraryIdentifier'', PStr ''ios-arm64''), (''LibraryPath'', PStr ''M.framework''),
           (''SupportedPlatform'', PStr ''ios'')], lib_root = ''/a/M.xcframework''\<rparr>]\<rparr>
     \<lparr>files = Map.empty(''/a/M.xcframework/ios-arm64/M.framework/Info.plist'' \<mapsto> ''12.0''), dirs = Map.empty,
      cwd = ''/'', out = [], err = [], commands = [], tools = (\<lambda>_ _. Launch_error (FileNotFoundError ''xcrun''))\<rparr>) =
   Inr \<lparr>mod_library = \<lparr>lib_dict = PDict [(''LibraryIdentifier'', PStr ''ios-arm64''), (''LibraryPath'', PStr ''M.framework''),
           (''SupportedPlatform'', PStr ''ios'')], lib_root = ''/a/M.xcframework''\<rparr>,
        mod_path = ''/a/M.xcframework/ios-arm64/M.framework'', mod_plist = PDict [(''MinimumOSVersion'', PStr ''12.0'')]\<rparr>"
proof -
  let ?sim = "\<lparr>lib_dict = PDict [(''SupportedPlatform'', PStr ''ios''), (''SupportedPlatformVariant'', PStr ''simulator'')], lib_root = ''/a/M.xcframework''\<rparr>"
  let ?dev = "\<lparr>lib_dict = PDict [(''LibraryIdentifier'', PStr ''ios-arm64''), (''LibraryPath'', PStr ''M.framework''),
           (''SupportedPlatform'', PStr ''ios'')], lib_root = ''/a/M.xcframework''\<rparr>"
  let ?x = "\<lparr>xc_path = ''/a/M.xcframework'', xc_name = ''M'', xc_libraries = [?sim, ?dev]\<rparr>"
  let ?w = "\<lparr>files = Map.empty(''/a/M.xcframework/ios-arm64/M.framework/Info.plist'' \<mapsto> ''12.0''), dirs = Map.empty,
      cwd = ''/'', out = [], err = [], commands = [], tools = (\<lambda>_ _. Launch_error (FileNotFoundError ''xcrun''))\<rparr>"
  let ?PL = "\<lambda>b. Inr (PDict [(''MinimumOSVersion'', PStr b)]) :: pval res"
  have h: "list_all has_platform (xc_libraries ?x)" by (simp add: has_platform_def)
  have f: "filter device_lib (xc_libraries ?x) = ?dev # []" by (simp add: device_lib_def)
  have i: "lib_identifier ?dev = Inr (PStr ''ios-arm64'')" by (simp add: lib_identifier_def py_getitem_def)
  have p: "lib_path ?dev = Inr (PStr ''M.framework'')" by (simp add: lib_path_def py_getitem_def)
  have j: "path_join (path_join (xc_path ?x) ''ios-arm64'') ''M.framework'' = ''/a/M.xcframework/ios-arm64/M.framework''"
    by (simp add: path_join_def startswith_def endswith_def)
  have r: "files ?w (resolve ?w (path_join (path_join (path_join (xc_path ?x) ''ios-arm64'') ''M.framework'') ''Info.plist'')) =
      Some ''12.0''"
    unfolding j by (simp add: resolve_def path_join_def startswith_def endswith_def)
  have l: "?PL ''12.0'' = Inr (PDict [(''MinimumOSVersion'', PStr ''12.0'')])" by simp
  show ?thesis using h iOSDeviceModule_ok [where PL = ?PL, OF h f i p r l] j by simp
qed

end
