(* ===== verification/Report_Parser.thy ===== *)
theory Report_Parser
  imports Py_Prelude
begin

text \<open>
  The parser of the comparator's text report, \<open>APIDigester.BreakageReport.__parseReport\<close>
  (src/scripts/api-compatibility-check/breaking-api-check.py, lines 167--175).  The loop
  variable \<open>category\<close> of the Python code is unbound before its first assignment, \<open>None\<close>
  after a blank line, or a string after a header line; the dictionary \<open>self.breakage\<close> is
  an association list in insertion order.  One step of the loop is \<open>parse_line\<close>, the
  loop is \<open>parse_lines\<close>, and \<open>parse_report\<close> reads the file's text as \<open>open(path)\<close>
  and \<open>readlines()\<close> do.  \<open>render_report\<close> writes a report in the comparator's
  format (\<open>/* name */\<close> headers, finding lines, blank separators) and
  \<open>group_findings\<close> is the abstract specification of what the parser recovers from it.
\<close>

section \<open>Definitions\<close>

datatype category_var = Unbound | CatNone | CatStr string

record parse_state =
  ps_category :: category_var
  ps_breakage :: "(string \<times> string list) list"

definition parse_init :: parse_state where
  "parse_init = \<lparr>ps_category = Unbound, ps_breakage = []\<rparr>"

text \<open>One iteration of the \<open>for line in ...\<close> loop, branch by branch as in the source.\<close>

definition parse_line :: "parse_state \<Rightarrow> string \<Rightarrow> parse_state res" where
  "parse_line st line =
     (if length (py_strip line) = 0 then Inr (st\<lparr>ps_category := CatNone\<rparr>)
      else if startswith line ''/* ''
      then Inr (st\<lparr>ps_category := CatStr (py_slice line 3 (-4))\<rparr>)
      else (case ps_category st of
              Unbound \<Rightarrow> Inl (UnboundLocalError ''category'')
            | CatNone \<Rightarrow> Inr st
            | CatStr c \<Rightarrow>
                if c = [] then Inr st
                else Inr (st\<lparr>ps_breakage :=
                            dict_set (ps_breakage st) c (dict_get (ps_breakage st) c [] @ [line])\<rparr>)))"

fun parse_lines :: "parse_state \<Rightarrow> string list \<Rightarrow> parse_state res" where
  "parse_lines st [] = Inr st"
| "parse_lines st (l # ls) = (case parse_line st l of Inl e \<Rightarrow> Inl e | Inr st' \<Rightarrow> parse_lines st' ls)"

definition parse_report :: "string \<Rightarrow> (string \<times> string list) list res" where
  "parse_report raw = map_sum id ps_breakage (parse_lines parse_init (readlines (univ_nl raw)))"

subsection \<open>The report format and its abstract reading\<close>

definition header_line :: "string \<Rightarrow> string" where
  "header_line name = ''/* '' @ name @ '' */''"

definition block_lines :: "string \<times> string list \<Rightarrow> string list" where
  "block_lines b = header_line (fst b) # snd b @ [[]]"

definition render_report :: "(string \<times> string list) list \<Rightarrow> string" where
  "render_report bs = concat (map (\<lambda>l. l @ [NL]) (concat (map block_lines bs)))"

text \<open>A line the parser files as a finding: not blank and not a header.\<close>

definition finding_line :: "string \<Rightarrow> bool" where
  "finding_line l \<longleftrightarrow> py_strip l \<noteq> [] \<and> \<not> startswith l ''/* ''"

definition wf_block :: "string \<times> string list \<Rightarrow> bool" where
  "wf_block b \<longleftrightarrow> fst b \<noteq> [] \<and> NL \<notin> set (fst b) \<and> CR \<notin> set (fst b) \<and>
     (\<forall>f\<in>set (snd b). NL \<notin> set f \<and> CR \<notin> set f \<and> finding_line (f @ [NL]))"

text \<open>What a report means: the findings of every block, grouped by category name in
  order of first appearance; a block without findings adds nothing.\<close>

definition add_block :: "(string \<times> string list) list \<Rightarrow> string \<times> string list \<Rightarrow> (string \<times> string list) list" where
  "add_block d b = (if snd b = [] then d else dict_set d (fst b) (dict_get d (fst b) [] @ snd b))"

definition group_findings :: "(string \<times> string list) list \<Rightarrow> (string \<times> string list) list" where
  "group_findings bs = foldl add_block [] (map (\<lambda>b. (fst b, map (\<lambda>f. f @ [NL]) (snd b))) bs)"

text \<open>The invariant of the loop: distinct non-empty category names, each with a non-empty
  list of finding lines taken in file order from the lines read so far.\<close>

definition parse_inv :: "string list \<Rightarrow> parse_state \<Rightarrow> bool" where
  "parse_inv seen st \<longleftrightarrow> distinct (map fst (ps_breakage st)) \<and>
     (\<forall>(k, v)\<in>set (ps_breakage st). k \<noteq> [] \<and> v \<noteq> [] \<and> (\<forall>l\<in>set v. finding_line l) \<and> subseq v seen)"

section \<open>Lemmas\<close>

lemma py_isspace_NL [simp]: "py_isspace NL"
  by (simp add: py_isspace_def)

lemma blank_NL [simp]: "py_strip [NL] = []"
  by (simp add: py_strip_Nil_iff)

lemma header_not_blank [simp]: "py_strip (header_line n @ [NL]) \<noteq> []"
  by (simp add: py_strip_Nil_iff header_line_def py_isspace_def)

lemma header_startswith [simp]: "startswith (header_line n @ [NL]) ''/* ''"
  by (simp add: header_line_def startswith_def)

lemma header_category [simp]: "py_slice (header_line n @ [NL]) 3 (-4) = n"
proof -
  have "py_slice (''/* '' @ n @ '' */'' @ [NL]) (int (length ''/* '')) (- int (length ('' */'' @ [NL]))) = n"
    by (rule py_slice_header) simp
  then show ?thesis by (simp add: header_line_def)
qed

lemma parse_line_blank: "py_strip l = [] \<Longrightarrow> parse_line st l = Inr (st\<lparr>ps_category := CatNone\<rparr>)"
  by (simp add: parse_line_def)

lemma parse_line_header:
  "py_strip l \<noteq> [] \<Longrightarrow> startswith l ''/* '' \<Longrightarrow>
   parse_line st l = Inr (st\<lparr>ps_category := CatStr (py_slice l 3 (-4))\<rparr>)"
  by (simp add: parse_line_def)

lemma parse_line_finding:
  "finding_line l \<Longrightarrow> c \<noteq> [] \<Longrightarrow>
   parse_line \<lparr>ps_category = CatStr c, ps_breakage = b\<rparr> l =
     Inr \<lparr>ps_category = CatStr c, ps_breakage = dict_set b c (dict_get b c [] @ [l])\<rparr>"
  by (simp add: parse_line_def finding_line_def)

lemma parse_lines_append:
  "parse_lines st (xs @ ys) = (case parse_lines st xs of Inl e \<Rightarrow> Inl e | Inr st' \<Rightarrow> parse_lines st' ys)"
  by (induction xs arbitrary: st) (auto split: sum.splits)

lemma dict_set_twice [simp]: "dict_set (dict_set d k v) k v' = dict_set d k v'"
  by (simp add: dict_set_def)

lemma parse_findings:
  "c \<noteq> [] \<Longrightarrow> \<forall>l\<in>set ls. finding_line l \<Longrightarrow> ls \<noteq> [] \<Longrightarrow>
   parse_lines \<lparr>ps_category = CatStr c, ps_breakage = b\<rparr> ls =
     Inr \<lparr>ps_category = CatStr c, ps_breakage = dict_set b c (dict_get b c [] @ ls)\<rparr>"
proof (induction ls arbitrary: b)
  case Nil
  then show ?case by simp
next
  case (Cons l ls)
  show ?case
  proof (cases "ls = []")
    case True
    with Cons.prems show ?thesis by (simp add: parse_line_finding)
  next
    case False
    with Cons.prems Cons.IH [of "dict_set b c (dict_get b c [] @ [l])"] show ?thesis
      by (simp add: parse_line_finding)
  qed
qed

lemma parse_findings_any:
  "c \<noteq> [] \<Longrightarrow> \<forall>l\<in>set ls. finding_line l \<Longrightarrow>
   parse_lines \<lparr>ps_category = CatStr c, ps_breakage = b\<rparr> ls =
     Inr \<lparr>ps_category = CatStr c, ps_breakage = add_block b (c, ls)\<rparr>"
  by (cases "ls = []") (simp_all add: parse_findings add_block_def)

lemma parse_block:
  assumes "wf_block b"
  shows "parse_lines \<lparr>ps_category = k, ps_breakage = d\<rparr> (map (\<lambda>l. l @ [NL]) (block_lines b)) =
    Inr \<lparr>ps_category = CatNone, ps_breakage = add_block d (fst b, map (\<lambda>f. f @ [NL]) (snd b))\<rparr>"
proof -
  obtain n fs where b: "b = (n, fs)" by (cases b)
  from assms b have n: "n \<noteq> []" and fs: "\<forall>l\<in>set (map (\<lambda>f. f @ [NL]) fs). finding_line l"
    by (auto simp: wf_block_def)
  have hd: "parse_line \<lparr>ps_category = k, ps_breakage = d\<rparr> (header_line n @ [NL]) =
      Inr \<lparr>ps_category = CatStr n, ps_breakage = d\<rparr>"
    by (simp add: parse_line_header)
  show ?thesis
    using parse_findings_any [OF n fs, of d]
    by (simp add: b block_lines_def hd parse_lines_append parse_line_blank)
qed

lemma parse_blocks:
  "\<forall>b\<in>set bs. wf_block b \<Longrightarrow>
   map_sum id ps_breakage (parse_lines \<lparr>ps_category = k, ps_breakage = d\<rparr>
      (map (\<lambda>l. l @ [NL]) (concat (map block_lines bs)))) =
   Inr (foldl add_block d (map (\<lambda>b. (fst b, map (\<lambda>f. f @ [NL]) (snd b))) bs))"
proof (induction bs arbitrary: k d)
  case Nil
  then show ?case by simp
next
  case (Cons b bs)
  then show ?case
    by (simp add: parse_lines_append parse_block)
qed

lemma render_report_text:
  "\<forall>b\<in>set bs. wf_block b \<Longrightarrow>
   readlines (univ_nl (render_report bs)) = map (\<lambda>l. l @ [NL]) (concat (map block_lines bs))"
proof -
  assume wf: "\<forall>b\<in>set bs. wf_block b"
  then have nl: "\<forall>l\<in>set (concat (map block_lines bs)). NL \<notin> set l"
    and cr: "\<forall>l\<in>set (concat (map block_lines bs)). CR \<notin> set l"
    by (auto simp: wf_block_def block_lines_def header_line_def)
  from cr have "CR \<notin> set (render_report bs)"
    by (auto simp: render_report_def)
  then show ?thesis
    using nl by (simp add: univ_nl_no_CR render_report_def readlines_terminated)
qed

subsection \<open>The loop invariant\<close>

lemma parse_inv_init: "parse_inv [] parse_init"
  by (simp add: parse_inv_def parse_init_def)

lemma parse_inv_seen: "parse_inv seen st \<Longrightarrow> parse_inv (seen @ ls) st"
  by (auto simp: parse_inv_def intro: subseq_rev_drop_many)

lemma parse_inv_add:
  assumes inv: "parse_inv seen st" and c: "c \<noteq> []" and l: "finding_line l"
  shows "parse_inv (seen @ [l])
     (st\<lparr>ps_breakage := dict_set (ps_breakage st) c (dict_get (ps_breakage st) c [] @ [l])\<rparr>)"
proof -
  let ?b = "ps_breakage st" and ?g = "dict_get (ps_breakage st) c []"
  have g: "(\<forall>x\<in>set ?g. finding_line x) \<and> subseq ?g seen"
    using dict_get_cases [of ?b c "[]"] inv by (auto simp: parse_inv_def)
  have new: "c \<noteq> [] \<and> ?g @ [l] \<noteq> [] \<and> (\<forall>x\<in>set (?g @ [l]). finding_line x) \<and> subseq (?g @ [l]) (seen @ [l])"
    using c l g by simp
  have old: "\<forall>(k, v)\<in>set ?b. k \<noteq> [] \<and> v \<noteq> [] \<and> (\<forall>x\<in>set v. finding_line x) \<and> subseq v (seen @ [l])"
    using inv by (auto simp: parse_inv_def intro: subseq_rev_drop_many)
  define P where "P = (\<lambda>(k :: string, v :: string list). k \<noteq> [] \<and> v \<noteq> [] \<and> (\<forall>x\<in>set v. finding_line x) \<and> subseq v (seen @ [l]))"
  have "\<forall>p\<in>insert (c, ?g @ [l]) (set ?b). P p"
    using new old by (auto simp: P_def)
  then have "\<forall>p\<in>set (dict_set ?b c (?g @ [l])). P p"
    using set_dict_set [of ?b c "?g @ [l]"] by blast
  moreover have "distinct (map fst (dict_set ?b c (?g @ [l])))"
    using inv by (simp add: parse_inv_def distinct_dict_set)
  ultimately show ?thesis
    by (simp add: parse_inv_def P_def)
qed

lemma parse_line_inv:
  assumes inv: "parse_inv seen st" and step: "parse_line st l = Inr st'"
  shows "parse_inv (seen @ [l]) st'"
proof (cases "py_strip l = [] \<or> startswith l ''/* ''")
  case True
  with step have "ps_breakage st' = ps_breakage st"
    by (auto simp: parse_line_def split: if_splits)
  with inv show ?thesis by (auto simp: parse_inv_def intro: subseq_rev_drop_many)
next
  case False
  then have l: "finding_line l" by (simp add: finding_line_def)
  show ?thesis
  proof (cases "ps_category st")
    case Unbound
    with False step show ?thesis by (simp add: parse_line_def)
  next
    case CatNone
    with False step inv show ?thesis by (simp add: parse_line_def parse_inv_seen)
  next
    case (CatStr c)
    with False step inv l show ?thesis
      by (auto simp: parse_line_def parse_inv_seen parse_inv_add split: if_splits)
  qed
qed

lemma parse_lines_inv:
  "parse_inv seen st \<Longrightarrow> parse_lines st ls = Inr st' \<Longrightarrow> parse_inv (seen @ ls) st'"
proof (induction ls arbitrary: seen st)
  case Nil
  then show ?case by simp
next
  case (Cons l ls)
  then obtain st1 where st1: "parse_line st l = Inr st1" and rest: "parse_lines st1 ls = Inr st'"
    by (auto split: sum.splits)
  from Cons.prems(1) st1 have "parse_inv (seen @ [l]) st1" by (rule parse_line_inv)
  from this rest have "parse_inv ((seen @ [l]) @ ls) st'" by (rule Cons.IH)
  then show ?case by simp
qed

subsection \<open>Rendered reports\<close>

lemma foldl_add_block_fresh:
  "distinct (map fst bs) \<Longrightarrow> fst ` set bs \<inter> fst ` set d = {} \<Longrightarrow> \<forall>b\<in>set bs. snd b \<noteq> [] \<Longrightarrow>
   foldl add_block d bs = d @ bs"
proof (induction bs arbitrary: d)
  case Nil
  then show ?case by simp
next
  case (Cons b bs)
  obtain n fs where b: "b = (n, fs)" by (cases b)
  with Cons.prems have "add_block d b = d @ [b]"
    by (auto simp: add_block_def)
  moreover have "foldl add_block (d @ [b]) bs = (d @ [b]) @ bs"
    using Cons.prems by (intro Cons.IH) auto
  ultimately show ?case by simp
qed

lemma foldl_add_block_empty:
  "\<forall>b\<in>set bs. snd b = [] \<Longrightarrow> foldl add_block d bs = d"
  by (induction bs) (auto simp: add_block_def)

lemma parse_report_text_line:
  "NL \<notin> set l \<Longrightarrow> CR \<notin> set l \<Longrightarrow>
   parse_report (l @ NL # rest) =
     map_sum id ps_breakage (parse_lines parse_init ((l @ [NL]) # readlines (univ_nl rest)))"
  by (simp add: parse_report_def univ_nl_append_noCR univ_nl_Cons_noCR readlines_line)

lemmas parse_eval = parse_report_def render_report_def block_lines_def header_line_def
  readlines_def parse_init_def parse_line_def py_strip_def py_isspace_def startswith_def
  py_slice_def py_index_clamp_def dict_set_def dict_get_def

lemmas wf_eval = wf_block_def finding_line_def py_strip_def py_isspace_def startswith_def

section \<open>Properties of the parser\<close>

text \<open>C1. Parsing refines grouping: for every report the comparator writes (blocks of a
  \<open>/* name */\<close> header, finding lines and a blank line), \<open>__parseReport\<close> yields exactly the
  findings of each category, grouped by category name in order of first appearance, each
  line verbatim with its newline.\<close>

theorem parse_report_render:
  assumes "\<forall>b\<in>set bs. wf_block b"
  shows "parse_report (render_report bs) = Inr (group_findings bs)"
  using parse_blocks [OF assms, of Unbound "[]"] render_report_text [OF assms]
  by (simp add: parse_report_def parse_init_def group_findings_def)

theorem parse_report_render_witness:
  "wf_block (''Removed Decls'', [''Func foo() has been removed'']) \<and>
   parse_report (render_report [(''Removed Decls'', [''Func foo() has been removed''])]) =
     Inr (group_findings [(''Removed Decls'', [''Func foo() has been removed''])])"
proof -
  have wf: "wf_block (''Removed Decls'', [''Func foo() has been removed''])"
    by (simp add: wf_eval)
  show ?thesis
    using wf parse_report_render [of "[(''Removed Decls'', [''Func foo() has been removed''])]"]
    by simp
qed

text \<open>C5. Loop invariant of \<open>__parseReport\<close>: whenever parsing succeeds, the category names
  are distinct and non-empty, every category holds at least one finding, every finding is
  a non-blank line that is not a header, and each category's findings occur in the file's
  lines in the same order.\<close>

theorem parse_report_inv:
  assumes "parse_report raw = Inr d"
  shows "distinct (map fst d) \<and>
    (\<forall>(k, v)\<in>set d. k \<noteq> [] \<and> v \<noteq> [] \<and> (\<forall>l\<in>set v. finding_line l) \<and>
       subseq v (readlines (univ_nl raw)))"
proof -
  from assms obtain st where run: "parse_lines parse_init (readlines (univ_nl raw)) = Inr st"
    and d: "d = ps_breakage st"
    by (cases "parse_lines parse_init (readlines (univ_nl raw))") (auto simp: parse_report_def)
  from parse_inv_init run have "parse_inv ([] @ readlines (univ_nl raw)) st"
    by (rule parse_lines_inv)
  with d show ?thesis by (simp add: parse_inv_def)
qed

theorem parse_report_inv_witness:
  "parse_report (render_report [(''Others'', [''Var x changes''])]) = Inr [(''Others'', [''Var x changes'' @ [NL]])] \<and>
   distinct (map fst [(''Others'', [''Var x changes'' @ [NL]])]) \<and>
   finding_line (''Var x changes'' @ [NL]) \<and>
   subseq [''Var x changes'' @ [NL]] (readlines (univ_nl (render_report [(''Others'', [''Var x changes''])])))"
proof -
  have p: "parse_report (render_report [(''Others'', [''Var x changes''])]) = Inr [(''Others'', [''Var x changes'' @ [NL]])]"
    by (simp add: parse_eval)
  show ?thesis using p parse_report_inv [OF p] by simp
qed

text \<open>C14. A report of \<open>N\<close> blocks with distinct category names, each with at least one
  finding, parses to exactly \<open>N\<close> entries, in order, each holding its block's lines.\<close>

theorem parse_report_blocks:
  assumes wf: "\<forall>b\<in>set bs. wf_block b \<and> snd b \<noteq> []" and dist: "distinct (map fst bs)"
  shows "parse_report (render_report bs) = Inr (map (\<lambda>b. (fst b, map (\<lambda>f. f @ [NL]) (snd b))) bs)"
proof -
  let ?g = "map (\<lambda>b. (fst b, map (\<lambda>f. f @ [NL]) (snd b))) bs"
  from wf have wf': "\<forall>b\<in>set bs. wf_block b" by simp
  have "foldl add_block [] ?g = [] @ ?g"
    using wf dist by (intro foldl_add_block_fresh) (auto simp: comp_def)
  then show ?thesis
    using parse_blocks [OF wf', of Unbound "[]"] render_report_text [OF wf']
    by (simp add: parse_report_def parse_init_def)
qed

theorem parse_report_blocks_witness:
  "wf_block (''Removed Decls'', [''Func f() has been removed'']) \<and> wf_block (''Others'', [''Var x changes'']) \<and>
   distinct (map fst [(''Removed Decls'', [''Func f() has been removed'']), (''Others'', [''Var x changes''])]) \<and>
   parse_report (render_report [(''Removed Decls'', [''Func f() has been removed'']), (''Others'', [''Var x changes''])]) =
     Inr [(''Removed Decls'', [''Func f() has been removed'' @ [NL]]), (''Others'', [''Var x changes'' @ [NL]])]"
proof -
  have wf: "\<forall>b\<in>set [(''Removed Decls'', [''Func f() has been removed'']), (''Others'', [''Var x changes''])].
      wf_block b \<and> snd b \<noteq> []"
    by (simp add: wf_eval)
  have d: "distinct (map fst [(''Removed Decls'', [''Func f() has been removed'']), (''Others'', [''Var x changes''])])"
    by simp
  show ?thesis using wf d parse_report_blocks [OF wf d] by simp
qed

text \<open>C15. The loop variable \<open>category\<close> is first assigned by a blank or header line: a
  report whose first line is any other line makes \<open>__parseReport\<close> raise
  \<open>UnboundLocalError\<close>.\<close>

theorem parse_report_unbound:
  assumes "NL \<notin> set l" "CR \<notin> set l" "finding_line (l @ [NL])"
  shows "parse_report (l @ NL # rest) = Inl (UnboundLocalError ''category'')"
  using assms
  by (simp add: parse_report_text_line parse_line_def parse_init_def finding_line_def)

theorem parse_report_unbound_witness:
  "NL \<notin> set ''Func f() has been removed'' \<and> CR \<notin> set ''Func f() has been removed'' \<and>
   finding_line (''Func f() has been removed'' @ [NL]) \<and>
   parse_report (''Func f() has been removed'' @ NL # []) = Inl (UnboundLocalError ''category'')"
proof -
  have h: "NL \<notin> set ''Func f() has been removed''" "CR \<notin> set ''Func f() has been removed''"
    "finding_line (''Func f() has been removed'' @ [NL])"
    by (simp_all add: wf_eval)
  show ?thesis using h parse_report_unbound [OF h, of "[]"] by simp
qed

text \<open>C16. A report made only of category headers separated by blank lines (the shape of
  the comparator's report when it finds nothing) parses to a mapping with no category.\<close>

theorem parse_report_headers_only:
  assumes "\<forall>n\<in>set ns. n \<noteq> [] \<and> NL \<notin> set n \<and> CR \<notin> set n"
  shows "parse_report (render_report (map (\<lambda>n. (n, [])) ns)) = Inr []"
proof -
  have wf: "\<forall>b\<in>set (map (\<lambda>n. (n, [])) ns). wf_block b"
    using assms by (auto simp: wf_block_def)
  have "foldl add_block [] (map (\<lambda>b. (fst b, map (\<lambda>f. f @ [NL]) (snd b))) (map (\<lambda>n. (n, [])) ns)) = []"
    by (rule foldl_add_block_empty) auto
  then show ?thesis
    using parse_blocks [OF wf, of Unbound "[]"] render_report_text [OF wf]
    by (simp add: parse_report_def parse_init_def)
qed

theorem parse_report_headers_only_witness:
  "NL \<notin> set ''Removed Decls'' \<and> NL \<notin> set ''Type Changes'' \<and> CR \<notin> set ''Others'' \<and>
   parse_report (render_report (map (\<lambda>n. (n, [])) [''Removed Decls'', ''Type Changes'', ''Others''])) = Inr []"
proof -
  have h: "\<forall>n\<in>set [''Removed Decls'', ''Type Changes'', ''Others'']. n \<noteq> [] \<and> NL \<notin> set n \<and> CR \<notin> set n"
    by simp
  show ?thesis using h parse_report_headers_only [OF h] by simp
qed

end
