(* ===== verification/Block_Hash.thy ===== *)
theory Block_Hash
  imports Py_Prelude "HOL-Library.Word"
begin

text \<open>
  The fingerprint of the report, \<open>APIDigester.BreakageReport.__hashsum\<close> and
  \<open>__empty_report_hashsum\<close> (lines 177--187),.  The
  file is read in binary mode in blocks of 4096 bytes until \<open>read\<close> returns \<open>b""\<close>
  (\<open>read_blocks\<close>), each block is fed to the hash object's \<open>update\<close>, and the hex digest
  is compared with a constant.  \<open>hashlib.sha1\<close> is a library: it is an interface
  \<open>hash_algo\<close> (initial state, \<open>update\<close>, \<open>hexdigest\<close>) whose \<open>update\<close> obeys the law
  hashlib documents, \<open>streaming\<close>: an update with \<open>b""\<close> changes nothing and two updates
  equal one update with the concatenation.  \<open>fold_hash\<close> builds such an interface from
  a byte-wise step; \<open>java_hash\<close> is one, a 32-bit polynomial hash, used to run the
  theorems on concrete inputs.
\<close>

section \<open>Definitions\<close>

record 's hash_algo =
  h_init :: 's
  h_update :: "'s \<Rightarrow> string \<Rightarrow> 's"
  h_hexdigest :: "'s \<Rightarrow> string"

definition streaming :: "'s hash_algo \<Rightarrow> bool" where
  "streaming H \<longleftrightarrow>
     (\<forall>s. h_update H s [] = s) \<and> (\<forall>s a b. h_update H (h_update H s a) b = h_update H s (a @ b))"

text \<open>\<open>iter(lambda: f.read(n), b"")\<close>: the blocks of at most \<open>n\<close> bytes that successive
  reads return, up to the first empty read.\<close>

function read_blocks :: "nat \<Rightarrow> string \<Rightarrow> string list" where
  "read_blocks n s = (let b = take n s in if b = [] then [] else b # read_blocks n (drop n s))"
  by pat_completeness auto
termination
  by (relation "measure (\<lambda>(n, s). length s)") auto

definition block_size :: nat where
  "block_size = 4096"

definition hashsum_of :: "'s hash_algo \<Rightarrow> string \<Rightarrow> string" where
  "hashsum_of H raw = h_hexdigest H (foldl (h_update H) (h_init H) (read_blocks block_size raw))"

definition empty_report_hashsum :: string where
  "empty_report_hashsum = ''afd2a1b542b33273920d65821deddc653063c700''"

subsection \<open>A concrete streaming hash\<close>

definition fold_hash :: "'s \<Rightarrow> ('s \<Rightarrow> char \<Rightarrow> 's) \<Rightarrow> ('s \<Rightarrow> string) \<Rightarrow> 's hash_algo" where
  "fold_hash i step dig = \<lparr>h_init = i, h_update = foldl step, h_hexdigest = dig\<rparr>"

fun hex_of :: "nat \<Rightarrow> nat \<Rightarrow> string" where
  "hex_of 0 n = []"
| "hex_of (Suc k) n = hex_of k (n div 16) @ [hex_char (n mod 16)]"

definition java_step :: "32 word \<Rightarrow> char \<Rightarrow> 32 word" where
  "java_step h c = h * 31 + of_nat (of_char c)"

definition java_hash :: "32 word hash_algo" where
  "java_hash = fold_hash 0 java_step (\<lambda>h. hex_of 8 (unat h))"

section \<open>Lemmas\<close>

declare read_blocks.simps [simp del]

lemma read_blocks_Nil [simp]: "read_blocks n [] = []"
  by (simp add: read_blocks.simps)

lemma read_blocks_zero [simp]: "read_blocks 0 s = []"
  by (simp add: read_blocks.simps)

lemma read_blocks_Cons:
  "0 < n \<Longrightarrow> s \<noteq> [] \<Longrightarrow> read_blocks n s = take n s # read_blocks n (drop n s)"
  by (simp add: read_blocks.simps [of n s])

lemma foldl_read_blocks:
  assumes "streaming H" "0 < n"
  shows "foldl (h_update H) s (read_blocks n raw) = h_update H s raw"
using assms proof (induction n raw arbitrary: s rule: read_blocks.induct)
  case (1 n raw)
  show ?case
  proof (cases "raw = []")
    case True
    with "1.prems" show ?thesis by (simp add: streaming_def)
  next
    case False
    with "1.prems" have b: "take n raw \<noteq> []" by simp
    have "foldl (h_update H) (h_update H s (take n raw)) (read_blocks n (drop n raw)) =
        h_update H (h_update H s (take n raw)) (drop n raw)"
      using "1.IH" [OF refl b] "1.prems" by blast
    also have "\<dots> = h_update H s raw"
      using "1.prems" by (simp add: streaming_def)
    finally show ?thesis
      using "1.prems" False by (simp add: read_blocks_Cons)
  qed
qed

lemma read_blocks_concat: "0 < n \<Longrightarrow> concat (read_blocks n s) = s"
proof (induction n s rule: read_blocks.induct)
  case (1 n s)
  then show ?case
    by (cases "s = []") (simp_all add: read_blocks_Cons)
qed

lemma read_blocks_sizes:
  "0 < n \<Longrightarrow> b \<in> set (read_blocks n s) \<Longrightarrow> 0 < length b \<and> length b \<le> n"
proof (induction n s rule: read_blocks.induct)
  case (1 n s)
  then show ?case
    by (cases "s = []") (auto simp: read_blocks_Cons)
qed

lemma read_blocks_length:
  "0 < n \<Longrightarrow> length (read_blocks n s) = (length s + (n - 1)) div n"
proof (induction n s rule: read_blocks.induct)
  case (1 n s)
  show ?case
  proof (cases "s = []")
    case True
    with "1.prems" show ?thesis by simp
  next
    case False
    with "1.prems" "1.IH" [of "take n s"] have
      "length (read_blocks n s) = Suc ((length s - n + (n - 1)) div n)"
      by (simp add: read_blocks_Cons)
    also have "\<dots> = (length s + (n - 1)) div n"
    proof (cases "n \<le> length s")
      case True
      then have "length s + (n - 1) = (length s - n + (n - 1)) + n" by simp
      then have "(length s + (n - 1)) div n = (length s - n + (n - 1)) div n + 1"
        using "1.prems" by (simp only: div_add_self2 [of n "length s - n + (n - 1)"])
      then show ?thesis by simp
    next
      case False
      from \<open>s \<noteq> []\<close> have "0 < length s" by simp
      with False have lo: "n * 1 \<le> length s + (n - 1)" by arith
      from False have hi: "length s + (n - 1) < n * Suc 1" by arith
      from False have "(length s - n + (n - 1)) div n = 0" by simp
      moreover from lo hi have "(length s + (n - 1)) div n = 1" by (rule div_nat_eqI)
      ultimately show ?thesis by simp
    qed
    finally show ?thesis .
  qed
qed

lemma streaming_fold_hash: "streaming (fold_hash i step dig)"
  by (simp add: streaming_def fold_hash_def)

lemma length_hex_of [simp]: "length (hex_of k n) = k"
  by (induction k arbitrary: n) simp_all

lemmas hash_eval = hashsum_of_def java_hash_def fold_hash_def java_step_def block_size_def
  read_blocks.simps hex_char_def

section \<open>Properties of the fingerprint\<close>

text \<open>C2. Block-wise hashing is hashing: for any hash object whose \<open>update\<close> obeys the
  concatenation law, the digest \<open>__hashsum\<close> computes from 4096-byte reads equals the digest
  of one update with the whole file.\<close>

theorem hashsum_streaming:
  assumes "streaming H"
  shows "hashsum_of H raw = h_hexdigest H (h_update H (h_init H) raw)"
  using foldl_read_blocks [OF assms, of block_size "h_init H" raw]
  by (simp add: hashsum_of_def block_size_def)

theorem hashsum_streaming_witness:
  "streaming java_hash \<and>
   hashsum_of java_hash ''Func f() has been removed'' =
     h_hexdigest java_hash (h_update java_hash (h_init java_hash) ''Func f() has been removed'')"
proof -
  have h: "streaming java_hash" by (simp add: java_hash_def streaming_fold_hash)
  show ?thesis using h hashsum_streaming [OF h] by simp
qed

text \<open>C18. The read loop of \<open>__hashsum\<close> ends: it reads \<open>\<lceil>len/4096\<rceil>\<close> blocks, each of one
  to 4096 bytes.\<close>

theorem hashsum_blocks_bounds:
  "length (read_blocks block_size raw) = (length raw + 4095) div 4096 \<and>
   (\<forall>b\<in>set (read_blocks block_size raw). 0 < length b \<and> length b \<le> 4096)"
  using read_blocks_length [of block_size raw] read_blocks_sizes [of block_size _ raw]
  by (simp add: block_size_def)

theorem hashsum_blocks_bounds_witness:
  "length (read_blocks block_size (replicate 5000 (CHR ''a''))) = 2"
  using hashsum_blocks_bounds [of "replicate 5000 (CHR ''a'')"] by simp

end
