(* ===== verification/Breakage_Report.thy ===== *)
theory Breakage_Report
  imports Report_Parser Block_Hash World
begin

text \<open>
  The constructor \<open>APIDigester.BreakageReport(path)\<close> (lines 159--165): it parses the file
  opened in text mode (\<open>Report_Parser\<close>), then opens it again in binary mode to compute the
  fingerprint (\<open>Block_Hash\<close>), and sets \<open>is_good\<close> to whether the fingerprint is the
  constant of the empty report.  The object is the record \<open>breakage_report\<close>; the
  constructor is an operation of the world monad that reads and does not write.
  \<open>crlf\<close> rewrites a file's line ends as \<open>\r\n\<close>, to compare what the parser and the
  fingerprint see of the same report.
\<close>

section \<open>Definitions\<close>

record breakage_report =
  br_path :: string
  breakage :: "(string \<times> string list) list"
  hashsum :: string
  is_good :: bool

definition BreakageReport :: "'s hash_algo \<Rightarrow> string \<Rightarrow> breakage_report io" where
  "BreakageReport H path =
     exc_bind (read_bytes path) (\<lambda>raw.
       case parse_report raw of
         Inl e \<Rightarrow> exc_raise e
       | Inr b \<Rightarrow>
           exc_bind (read_bytes path) (\<lambda>bytes.
             let h = hashsum_of H bytes in
             exc_return \<lparr>br_path = path, breakage = b, hashsum = h,
                         is_good = (h = empty_report_hashsum)\<rparr>))"

definition crlf :: "string \<Rightarrow> string" where
  "crlf s = concat (map (\<lambda>c. if c = NL then [CR, NL] else [c]) s)"

section \<open>Lemmas\<close>

lemma BreakageReport_file:
  "files w (resolve w path) = Some raw \<Longrightarrow>
   BreakageReport H path w =
     (case parse_report raw of
        Inl e \<Rightarrow> (Inl e, w)
      | Inr b \<Rightarrow> (Inr \<lparr>br_path = path, breakage = b, hashsum = hashsum_of H raw,
                      is_good = (hashsum_of H raw = empty_report_hashsum)\<rparr>, w))"
  by (simp add: BreakageReport_def exc_bind_def Let_def split: sum.splits)

lemma BreakageReport_missing:
  "files w (resolve w path) = None \<Longrightarrow>
   BreakageReport H path w = (Inl (open_error w path), w)"
  by (simp add: BreakageReport_def exc_bind_def)

lemma BreakageReport_world:
  "BreakageReport H path w = (r, w') \<Longrightarrow> w' = w"
  by (cases "files w (resolve w path)")
     (auto simp: BreakageReport_file BreakageReport_missing split: sum.splits)

lemma univ_nl_crlf: "CR \<notin> set s \<Longrightarrow> univ_nl (crlf s) = s"
proof (induction s)
  case Nil
  then show ?case by (simp add: crlf_def)
next
  case (Cons c s)
  then have "c \<noteq> CR" and IH: "univ_nl (crlf s) = s" by auto
  then show ?case
    by (cases "c = NL") (simp_all add: crlf_def univ_nl_Cons_noCR)
qed

lemma crlf_differs: "NL \<in> set s \<Longrightarrow> crlf s \<noteq> s"
proof
  assume "NL \<in> set s" and eq: "crlf s = s"
  have "length (crlf s) = length s + length (filter (\<lambda>c. c = NL) s)"
    by (induction s) (simp_all add: crlf_def)
  with eq have "filter (\<lambda>c. c = NL) s = []" by simp
  with \<open>NL \<in> set s\<close> show False by (auto simp: filter_empty_conv)
qed

lemma reader_BreakageReport [simp]: "reader (BreakageReport H path)"
  unfolding BreakageReport_def Let_def by (auto split: sum.split intro!: reader_bind)

section \<open>Properties of the report object\<close>

text \<open>C19. The verdict reads the whole file: for a streaming hash, \<open>BreakageReport\<close> on an
  existing file that parses has the parsed findings, the digest of one update with all the
  file's bytes as fingerprint, and is good exactly when that digest is the empty report's
  constant; the world is unchanged.\<close>

theorem BreakageReport_verdict:
  assumes "streaming H" and "files w (resolve w path) = Some raw" and "parse_report raw = Inr b"
  shows "BreakageReport H path w =
    (Inr \<lparr>br_path = path, breakage = b, hashsum = h_hexdigest H (h_update H (h_init H) raw),
          is_good = (h_hexdigest H (h_update H (h_init H) raw) = empty_report_hashsum)\<rparr>, w)"
proof -
  have "hashsum_of H raw = h_hexdigest H (h_update H (h_init H) raw)"
    using foldl_read_blocks [OF assms(1), of block_size "h_init H" raw]
    by (simp add: hashsum_of_def block_size_def)
  with assms(2,3) show ?thesis by (simp add: BreakageReport_file)
qed

theorem BreakageReport_verdict_witness:
  "streaming java_hash \<and>
   files \<lparr>files = Map.empty(''/r.txt'' \<mapsto> ''/* Others */'' @ [NL, NL]), dirs = Map.empty, cwd = ''/'', out = [], err = [],
          commands = [], tools = (\<lambda>_ _. Launch_error (FileNotFoundError ''xcrun''))\<rparr>
     (resolve \<lparr>files = Map.empty(''/r.txt'' \<mapsto> ''/* Others */'' @ [NL, NL]), dirs = Map.empty, cwd = ''/'', out = [], err = [],
          commands = [], tools = (\<lambda>_ _. Launch_error (FileNotFoundError ''xcrun''))\<rparr> ''/r.txt'') =
     Some (''/* Others */'' @ [NL, NL]) \<and>
   parse_report (''/* Others */'' @ [NL, NL]) = Inr [] \<and>
   fst (BreakageReport java_hash ''/r.txt''
     \<lparr>files = Map.empty(''/r.txt'' \<mapsto> ''/* Others */'' @ [NL, NL]), dirs = Map.empty, cwd = ''/'', out = [], err = [],
          commands = [], tools = (\<lambda>_ _. Launch_error (FileNotFoundError ''xcrun''))\<rparr>) =
   Inr \<lparr>br_path = ''/r.txt'', breakage = [],
        hashsum = h_hexdigest java_hash (h_update java_hash (h_init java_hash) (''/* Others */'' @ [NL, NL])),
        is_good = (h_hexdigest java_hash (h_update java_hash (h_init java_hash) (''/* Others */'' @ [NL, NL])) =
                   empty_report_hashsum)\<rparr>"
proof -
  let ?w = "\<lparr>files = Map.empty(''/r.txt'' \<mapsto> ''/* Others */'' @ [NL, NL]), dirs = Map.empty, cwd = ''/'', out = [], err = [],
          commands = [], tools = (\<lambda>_ _. Launch_error (FileNotFoundError ''xcrun''))\<rparr>"
  have h: "streaming java_hash" by (simp add: java_hash_def streaming_fold_hash)
  have f: "files ?w (resolve ?w ''/r.txt'') = Some (''/* Others */'' @ [NL, NL])"
    by (simp add: resolve_def path_join_def startswith_def)
  have p: "parse_report (''/* Others */'' @ [NL, NL]) = Inr []"
    by (simp add: parse_eval)
  show ?thesis using h f p BreakageReport_verdict [OF h f p] by simp
qed

text \<open>C25. The fingerprint sees bytes the parser does not: the copy of a report with
  \<open>\r\n\<close> line ends parses to the same findings, while the fingerprint is taken over
  different bytes.\<close>

theorem BreakageReport_crlf:
  assumes "CR \<notin> set raw" and "NL \<in> set raw" and "parse_report raw = Inr b"
    and "files w (resolve w path) = Some (crlf raw)"
  shows "BreakageReport H path w =
    (Inr \<lparr>br_path = path, breakage = b, hashsum = hashsum_of H (crlf raw),
          is_good = (hashsum_of H (crlf raw) = empty_report_hashsum)\<rparr>, w) \<and> crlf raw \<noteq> raw"
proof -
  from assms(1,3) have "parse_report (crlf raw) = Inr b"
    by (simp add: parse_report_def univ_nl_crlf univ_nl_no_CR)
  with assms(2,4) show ?thesis by (simp add: BreakageReport_file crlf_differs)
qed

theorem BreakageReport_crlf_witness:
  "CR \<notin> set (''/* Others */'' @ [NL, NL]) \<and> NL \<in> set (''/* Others */'' @ [NL, NL]) \<and>
   parse_report (''/* Others */'' @ [NL, NL]) = Inr [] \<and>
   files \<lparr>files = Map.empty(''/r.txt'' \<mapsto> crlf (''/* Others */'' @ [NL, NL])), dirs = Map.empty, cwd = ''/'', out = [], err = [],
          commands = [], tools = (\<lambda>_ _. Launch_error (FileNotFoundError ''xcrun''))\<rparr>
     (resolve \<lparr>files = Map.empty(''/r.txt'' \<mapsto> crlf (''/* Others */'' @ [NL, NL])), dirs = Map.empty, cwd = ''/'', out = [], err = [],
          commands = [], tools = (\<lambda>_ _. Launch_error (FileNotFoundError ''xcrun''))\<rparr> ''/r.txt'') =
     Some (crlf (''/* Others */'' @ [NL, NL])) \<and>
   crlf (''/* Others */'' @ [NL, NL]) \<noteq> ''/* Others */'' @ [NL, NL] \<and>
   fst (BreakageReport java_hash ''/r.txt''
     \<lparr>files = Map.empty(''/r.txt'' \<mapsto> crlf (''/* Others */'' @ [NL, NL])), dirs = Map.empty, cwd = ''/'', out = [], err = [],
          commands = [], tools = (\<lambda>_ _. Launch_error (FileNotFoundError ''xcrun''))\<rparr>) =
   Inr \<lparr>br_path = ''/r.txt'', breakage = [], hashsum = hashsum_of java_hash (crlf (''/* Others */'' @ [NL, NL])),
        is_good = (hashsum_of java_hash (crlf (''/* Others */'' @ [NL, NL])) = empty_report_hashsum)\<rparr>"
proof -
  let ?raw = "''/* Others */'' @ [NL, NL]"
  let ?w = "\<lparr>files = Map.empty(''/r.txt'' \<mapsto> crlf ?raw), dirs = Map.empty, cwd = ''/'', out = [], err = [],
          commands = [], tools = (\<lambda>_ _. Launch_error (FileNotFoundError ''xcrun''))\<rparr>"
  have h: "CR \<notin> set ?raw" "NL \<in> set ?raw" by simp_all
  have p: "parse_report ?raw = Inr []" by (simp add: parse_eval)
  have f: "files ?w (resolve ?w ''/r.txt'') = Some (crlf ?raw)"
    by (simp add: resolve_def path_join_def startswith_def)
  show ?thesis using h p f BreakageReport_crlf [OF h p f, of java_hash] by simp
qed

end
