(* ===== verification/Notifier.thy ===== *)
theory Notifier
  imports Breakage_Report
begin

text \<open>
  The notifier, \<open>add_comment_to_pr\<close> (lines 46--67).  It renders the report as a
  Markdown comment (\<open>render_comment\<close>: a fixed line when the report is good, otherwise a
  title and, per category in the dictionary's order, a heading and one bullet per finding),
  writes it to the transient file \<open>comment.txt\<close> in the working directory, asks
  \<open>gh pr comment --edit-last\<close> to replace the last comment, runs \<open>gh pr comment\<close> to create
  a new one when editing failed and the report is not good, and removes the file.  The
  emoji are written as the UTF-8 bytes Python writes for them.
\<close>

section \<open>Definitions\<close>

definition check_mark :: string where
  "check_mark = [CHR 0xE2, CHR 0x9C, CHR 0x85]"

definition cross_mark :: string where
  "cross_mark = [CHR 0xE2, CHR 0x9D, CHR 0x8C]"

definition good_comment :: string where
  "good_comment = [NL] @ ''**API compatibility report:** '' @ check_mark @ [NL] @ ''        ''"

definition bad_title :: string where
  "bad_title = [NL] @ ''## API compatibility report: '' @ cross_mark @ [NL]"

definition render_category :: "string \<times> string list \<Rightarrow> string" where
  "render_category cb =
     ''#### '' @ fst cb @ [NL] @ concat (map (\<lambda>b. ''* `'' @ b @ ''`'' @ [NL]) (snd cb))"

definition render_comment :: "breakage_report \<Rightarrow> string" where
  "render_comment r =
     (if is_good r then good_comment else bad_title @ concat (map render_category (breakage r)))"

definition comment_file :: string where
  "comment_file = ''comment.txt''"

definition gh_edit_cmd :: "string list" where
  "gh_edit_cmd = [''gh'', ''pr'', ''comment'', ''--edit-last'', ''--body-file'', comment_file]"

definition gh_create_cmd :: "string list" where
  "gh_create_cmd = [''gh'', ''pr'', ''comment'', ''--body-file'', comment_file]"

definition add_comment_to_pr :: "breakage_report \<Rightarrow> unit io" where
  "add_comment_to_pr r =
     exc_then (print_out ''Commenting on PR'')
    (exc_then (write_text comment_file (render_comment r))
    (exc_bind (run_inherit gh_edit_cmd) (\<lambda>p.
     exc_then (exc_when (returncode p \<noteq> 0 \<and> \<not> is_good r) (exc_then (run_inherit gh_create_cmd) (exc_return ())))
     (remove_file comment_file))))"

section \<open>Lemmas\<close>

text \<open>The world after the comment is written, as the first \<open>gh\<close> call sees it.\<close>

definition comment_written :: "breakage_report \<Rightarrow> world \<Rightarrow> world" where
  "comment_written r w =
     w\<lparr>out := out w @ ''Commenting on PR'' @ [NL],
       files := (files w)(resolve w comment_file \<mapsto> render_comment r)\<rparr>"

lemma add_comment_to_pr_unfold:
  "add_comment_to_pr r w =
     exc_bind (run_inherit gh_edit_cmd) (\<lambda>p.
       exc_then (exc_when (returncode p \<noteq> 0 \<and> \<not> is_good r) (exc_then (run_inherit gh_create_cmd) (exc_return ())))
       (remove_file comment_file)) (comment_written r w)"
  by (simp add: add_comment_to_pr_def exc_then_apply comment_written_def)

lemma resolve_comment_written [simp]: "resolve (comment_written r w) p = resolve w p"
  by (simp add: comment_written_def resolve_def)

lemma tools_comment_written [simp]: "tools (comment_written r w) = tools w"
  by (simp add: comment_written_def)

lemma commands_comment_written [simp]:
  "commands (comment_written r w) = commands w" "dirs (comment_written r w) = dirs w"
  by (simp_all add: comment_written_def)

lemma streams_comment_written [simp]:
  "err (comment_written r w) = err w" "out (comment_written r w) = out w @ ''Commenting on PR'' @ [NL]"
  by (simp_all add: comment_written_def)

lemma files_comment_written [simp]:
  "files (comment_written r w) = (files w)(resolve w comment_file \<mapsto> render_comment r)"
  by (simp add: comment_written_def)

lemma sublist_concat: "x \<in> set xs \<Longrightarrow> sublist x (concat xs)"
proof (induction xs)
  case Nil
  then show ?case by simp
next
  case (Cons y ys)
  show ?case
  proof (cases "x = y")
    case True
    then show ?thesis by simp
  next
    case False
    with Cons have "sublist x (concat ys)" by simp
    moreover have "sublist (concat ys) (y @ concat ys)" by simp
    ultimately show ?thesis by (simp add: sublist_order.order_trans)
  qed
qed

lemma log_grows_add_comment_to_pr [simp]: "log_grows (add_comment_to_pr r)"
  unfolding add_comment_to_pr_def by (intro log_grows_then log_grows_bind log_grows_when) simp_all

section \<open>Properties of the notifier\<close>

text \<open>C4. When both \<open>gh\<close> calls run (and leave the file system as it is), the notifier
  first tries to edit the last comment, then creates a new comment exactly when editing
  failed and the report is not good, and finally removes \<open>comment.txt\<close>: the file system
  ends as before with that path absent.\<close>

theorem add_comment_to_pr_effects:
  assumes edit: "tools w gh_edit_cmd ((files w)(resolve w comment_file \<mapsto> render_comment r)) =
      Completed p ((files w)(resolve w comment_file \<mapsto> render_comment r))"
    and create: "tools w gh_create_cmd ((files w)(resolve w comment_file \<mapsto> render_comment r)) =
      Completed q ((files w)(resolve w comment_file \<mapsto> render_comment r))"
  shows "\<exists>w'. add_comment_to_pr r w = (Inr (), w') \<and>
    files w' = (files w)(resolve w comment_file := None) \<and>
    commands w' = commands w @ gh_edit_cmd #
      (if returncode p \<noteq> 0 \<and> \<not> is_good r then [gh_create_cmd] else [])"
  using edit create
  by (simp add: add_comment_to_pr_unfold exc_bind_def exc_then_apply)

theorem add_comment_to_pr_effects_witness:
  "tools \<lparr>files = Map.empty, dirs = Map.empty, cwd = ''/work'', out = [], err = [], commands = [],
          tools = (\<lambda>args fs. Completed \<lparr>returncode = (if args = gh_edit_cmd then 1 else 0),
                                        proc_stdout = [], proc_stderr = []\<rparr> fs)\<rparr>
     gh_edit_cmd (Map.empty(''/work/comment.txt'' \<mapsto> render_comment
        \<lparr>br_path = ''/work/r.txt'', breakage = [(''Removed Decls'', [''Func f()'' @ [NL]])],
         hashsum = [], is_good = False\<rparr>)) =
   Completed \<lparr>returncode = 1, proc_stdout = [], proc_stderr = []\<rparr>
     (Map.empty(''/work/comment.txt'' \<mapsto> render_comment
        \<lparr>br_path = ''/work/r.txt'', breakage = [(''Removed Decls'', [''Func f()'' @ [NL]])],
         hashsum = [], is_good = False\<rparr>)) \<and>
   (\<exists>w'. add_comment_to_pr
        \<lparr>br_path = ''/work/r.txt'', breakage = [(''Removed Decls'', [''Func f()'' @ [NL]])],
         hashsum = [], is_good = False\<rparr>
        \<lparr>files = Map.empty, dirs = Map.empty, cwd = ''/work'', out = [], err = [], commands = [],
          tools = (\<lambda>args fs. Completed \<lparr>returncode = (if args = gh_edit_cmd then 1 else 0),
                                        proc_stdout = [], proc_stderr = []\<rparr> fs)\<rparr> = (Inr (), w') \<and>
      files w' = Map.empty(''/work/comment.txt'' := None) \<and>
      commands w' = [gh_edit_cmd, gh_create_cmd])"
proof -
  let ?r = "\<lparr>br_path = ''/work/r.txt'', breakage = [(''Removed Decls'', [''Func f()'' @ [NL]])],
         hashsum = [], is_good = False\<rparr>"
  let ?w = "\<lparr>files = Map.empty, dirs = Map.empty, cwd = ''/work'', out = [], err = [], commands = [],
          tools = (\<lambda>args fs. Completed \<lparr>returncode = (if args = gh_edit_cmd then 1 else 0),
                                        proc_stdout = [], proc_stderr = []\<rparr> fs)\<rparr>"
  have c: "resolve ?w comment_file = ''/work/comment.txt''"
    by (simp add: resolve_def path_join_def comment_file_def startswith_def endswith_def)
  have ne: "gh_create_cmd \<noteq> gh_edit_cmd"
    by (simp add: gh_create_cmd_def gh_edit_cmd_def)
  have e: "tools ?w gh_edit_cmd ((files ?w)(resolve ?w comment_file \<mapsto> render_comment ?r)) =
      Completed \<lparr>returncode = 1, proc_stdout = [], proc_stderr = []\<rparr> ((files ?w)(resolve ?w comment_file \<mapsto> render_comment ?r))"
    by simp
  have cr: "tools ?w gh_create_cmd ((files ?w)(resolve ?w comment_file \<mapsto> render_comment ?r)) =
      Completed \<lparr>returncode = 0, proc_stdout = [], proc_stderr = []\<rparr> ((files ?w)(resolve ?w comment_file \<mapsto> render_comment ?r))"
    using ne by simp
  show ?thesis
    using add_comment_to_pr_effects [OF e cr] c by simp
qed

text \<open>C21. If \<open>gh\<close> cannot be started, the notifier raises before \<open>os.remove\<close>: the
  transient \<open>comment.txt\<close> is left behind with the comment in it.\<close>

theorem add_comment_to_pr_launch_failure:
  assumes "tools w gh_edit_cmd ((files w)(resolve w comment_file \<mapsto> render_comment r)) = Launch_error e"
  shows "\<exists>w'. add_comment_to_pr r w = (Inl e, w') \<and>
    files w' (resolve w comment_file) = Some (render_comment r)"
  using assms by (simp add: add_comment_to_pr_unfold exc_bind_def)

theorem add_comment_to_pr_launch_failure_witness:
  "tools \<lparr>files = Map.empty, dirs = Map.empty, cwd = ''/work'', out = [], err = [], commands = [],
          tools = (\<lambda>args fs. Launch_error (FileNotFoundError ''gh''))\<rparr>
     gh_edit_cmd (Map.empty(''/work/comment.txt'' \<mapsto> render_comment
        \<lparr>br_path = ''/work/r.txt'', breakage = [], hashsum = [], is_good = True\<rparr>)) =
     Launch_error (FileNotFoundError ''gh'') \<and>
   (\<exists>w'. add_comment_to_pr \<lparr>br_path = ''/work/r.txt'', breakage = [], hashsum = [], is_good = True\<rparr>
        \<lparr>files = Map.empty, dirs = Map.empty, cwd = ''/work'', out = [], err = [], commands = [],
          tools = (\<lambda>args fs. Launch_error (FileNotFoundError ''gh''))\<rparr> =
        (Inl (FileNotFoundError ''gh''), w') \<and>
      files w' ''/work/comment.txt'' = Some good_comment)"
proof -
  let ?r = "\<lparr>br_path = ''/work/r.txt'', breakage = [], hashsum = [], is_good = True\<rparr>"
  let ?w = "\<lparr>files = Map.empty, dirs = Map.empty, cwd = ''/work'', out = [], err = [], commands = [],
          tools = (\<lambda>args fs. Launch_error (FileNotFoundError ''gh''))\<rparr>"
  have c: "resolve ?w comment_file = ''/work/comment.txt''"
    by (simp add: resolve_def path_join_def comment_file_def startswith_def endswith_def)
  have e: "tools ?w gh_edit_cmd ((files ?w)(resolve ?w comment_file \<mapsto> render_comment ?r)) =
      Launch_error (FileNotFoundError ''gh'')"
    by simp
  show ?thesis
    using add_comment_to_pr_launch_failure [OF e] c by (simp add: render_comment_def)
qed

text \<open>C22. The comment for a report that is not good lists every finding of every
  category as a bullet in a code span, the finding's own newline included.\<close>

theorem render_comment_findings:
  assumes "\<not> is_good r" and "(c, fs) \<in> set (breakage r)" and "f \<in> set fs"
  shows "sublist (''* `'' @ f @ ''`'' @ [NL]) (render_comment r)"
proof -
  have "sublist (''* `'' @ f @ ''`'' @ [NL]) (concat (map (\<lambda>b. ''* `'' @ b @ ''`'' @ [NL]) fs))"
    using assms(3) by (intro sublist_concat) simp
  moreover have "sublist (concat (map (\<lambda>b. ''* `'' @ b @ ''`'' @ [NL]) fs)) (render_category (c, fs))"
    unfolding render_category_def fst_conv snd_conv append_assoc [symmetric]
    by (rule sublist_append_leftI)
  moreover have "sublist (render_category (c, fs)) (concat (map render_category (breakage r)))"
    using assms(2) by (intro sublist_concat) simp
  moreover have "sublist (concat (map render_category (breakage r))) (render_comment r)"
    using assms(1) unfolding render_comment_def by simp
  ultimately show ?thesis
    by (meson sublist_order.order_trans)
qed

theorem render_comment_findings_witness:
  "\<not> is_good \<lparr>br_path = ''/r'', breakage = [(''Removed Decls'', [''Func f()'' @ [NL]])], hashsum = [], is_good = False\<rparr> \<and>
   (''Removed Decls'', [''Func f()'' @ [NL]]) \<in> set (breakage \<lparr>br_path = ''/r'', breakage = [(''Removed Decls'', [''Func f()'' @ [NL]])], hashsum = [], is_good = False\<rparr>) \<and>
   ''Func f()'' @ [NL] \<in> set [''Func f()'' @ [NL]] \<and>
   sublist (''* `'' @ (''Func f()'' @ [NL]) @ ''`'' @ [NL])
     (render_comment \<lparr>br_path = ''/r'', breakage = [(''Removed Decls'', [''Func f()'' @ [NL]])], hashsum = [], is_good = False\<rparr>)"
proof -
  let ?r = "\<lparr>br_path = ''/r'', breakage = [(''Removed Decls'', [''Func f()'' @ [NL]])], hashsum = [], is_good = False\<rparr>"
  have h: "\<not> is_good ?r" "(''Removed Decls'', [''Func f()'' @ [NL]]) \<in> set (breakage ?r)"
    "''Func f()'' @ [NL] \<in> set [''Func f()'' @ [NL]]"
    by simp_all
  show ?thesis using h render_comment_findings [OF h] by blast
qed

end
