(* ===== verification/Digester.thy ===== *)
theory Digester
  imports Notifier
begin

text \<open>
  The comparison side of the script: \<open>APIDigester.compare\<close> (lines 96--114) builds the
  \<open>swift-api-digester -diagnose-sdk\<close> command line (\<open>compare_args\<close>), runs it with its
  output captured, prints the tool's error stream and raises when it exits with a non-zero
  status, and otherwise constructs the \<open>BreakageReport\<close> of the file the tool wrote.
  \<open>check_api_breaking_changes\<close> (lines 28--43) compares, optionally comments on the pull
  request, and when the report is not good prints a banner with the whole report to
  standard error and calls \<open>exit(1)\<close>, which raises \<open>SystemExit\<close>.  \<open>exit_status\<close> is the
  status the interpreter exits with: 0 on return, the code of \<open>SystemExit\<close>, 1 for any
  other uncaught exception.  An allow-list path is passed when it is truthy: \<open>None\<close> and
  the empty string are not.
\<close>

section \<open>Definitions\<close>

definition digester_cmd :: "string list" where
  "digester_cmd = [''xcrun'', ''--sdk'', ''iphoneos'', ''swift-api-digester'']"

definition compare_args :: "string \<Rightarrow> string \<Rightarrow> string \<Rightarrow> string option \<Rightarrow> string list" where
  "compare_args baseline current output allow =
     digester_cmd @ [''-diagnose-sdk'', ''-o'', output, ''-input-paths'', baseline,
                     ''-input-paths'', current, ''-v''] @
     (case allow of
        Some a \<Rightarrow> if a \<noteq> [] then [''-breakage-allowlist-path'', a] else []
      | None \<Rightarrow> [])"

definition compare :: "'s hash_algo \<Rightarrow> string \<Rightarrow> string \<Rightarrow> string \<Rightarrow> string option \<Rightarrow> breakage_report io" where
  "compare H baseline current output allow =
     exc_bind (run_captured (compare_args baseline current output allow)) (\<lambda>p.
       if returncode p \<noteq> 0
       then exc_then (print_out (proc_stderr p)) (exc_raise (Exception ''swift-api-digester failed''))
       else BreakageReport H output)"

definition rule_line :: string where
  "rule_line = replicate 38 (CHR ''='')"

definition breakage_banner :: "string \<Rightarrow> string \<Rightarrow> string" where
  "breakage_banner latest report_text =
     [NL] @ rule_line @ [NL] @ ''ERROR: API breakage detected in '' @ basename latest @ [NL] @
     rule_line @ [NL] @ report_text @ [NL] @ ''        ''"

definition check_api_breaking_changes ::
  "'s hash_algo \<Rightarrow> string \<Rightarrow> string \<Rightarrow> string option \<Rightarrow> string \<Rightarrow> bool \<Rightarrow> unit io" where
  "check_api_breaking_changes H baseline latest allow report_path comment_pr =
     exc_bind (compare H baseline latest report_path allow) (\<lambda>r.
     exc_then (exc_when comment_pr (add_comment_to_pr r))
     (if \<not> is_good r
      then exc_bind (read_text report_path) (\<lambda>txt.
             exc_then (print_err (breakage_banner latest txt)) (exc_raise (SystemExit 1)))
      else exc_return ()))"

definition exit_status :: "unit res \<Rightarrow> int" where
  "exit_status r = (case r of Inr _ \<Rightarrow> 0 | Inl (SystemExit n) \<Rightarrow> n | Inl _ \<Rightarrow> 1)"

section \<open>Lemmas\<close>

text \<open>The world after the comparator ran, as \<open>BreakageReport\<close> sees it.\<close>

definition after_run :: "string list \<Rightarrow> (string \<rightharpoonup> string) \<Rightarrow> world \<Rightarrow> world" where
  "after_run args fs w = w\<lparr>commands := commands w @ [args], files := fs\<rparr>"

lemma after_run_simps [simp]:
  "files (after_run args fs w) = fs"
  "resolve (after_run args fs w) p = resolve w p"
  "tools (after_run args fs w) = tools w"
  "commands (after_run args fs w) = commands w @ [args]"
  "out (after_run args fs w) = out w"
  "err (after_run args fs w) = err w"
  "cwd (after_run args fs w) = cwd w"
  "dirs (after_run args fs w) = dirs w"
  by (simp_all add: after_run_def resolve_def)

lemma compare_ok:
  assumes "tools w (compare_args bl cur outp al) (files w) = Completed p fs" "returncode p = 0"
  shows "compare H bl cur outp al w = BreakageReport H outp (after_run (compare_args bl cur outp al) fs w)"
  using assms by (simp add: compare_def exc_bind_def after_run_def)

lemma compare_report:
  assumes "tools w (compare_args bl cur outp al) (files w) = Completed p fs" "returncode p = 0"
    and "fs (resolve w outp) = Some raw" and "parse_report raw = Inr bk"
  shows "compare H bl cur outp al w =
    (Inr \<lparr>br_path = outp, breakage = bk, hashsum = hashsum_of H raw,
          is_good = (hashsum_of H raw = empty_report_hashsum)\<rparr>, after_run (compare_args bl cur outp al) fs w)"
  using assms by (simp add: compare_ok BreakageReport_file)

lemma exit_status_simps [simp]:
  "exit_status (Inr ()) = 0" "exit_status (Inl (SystemExit n)) = n"
  "exit_status (Inl (FileNotFoundError p)) = 1" "exit_status (Inl (Exception m)) = 1"
  "exit_status (Inl (UnboundLocalError v)) = 1"
  by (simp_all add: exit_status_def)

lemma compare_args_allow:
  "a \<noteq> [] \<Longrightarrow> compare_args bl cur outp (Some a) = compare_args bl cur outp None @ [''-breakage-allowlist-path'', a]"
  by (simp add: compare_args_def)

lemma commands_run_captured [simp]: "commands (snd (run_captured args w)) = commands w @ [args]"
  by (simp add: run_captured_def Let_def split: tool_result.split)

lemma commands_run_inherit [simp]: "commands (snd (run_inherit args w)) = commands w @ [args]"
  by (simp add: run_inherit_def Let_def split: tool_result.split)

lemma log_grows_then_from: "log_grows n \<Longrightarrow> prefix (commands (snd (m w))) (commands (snd (exc_then m n w)))"
  unfolding exc_then_def by (rule log_grows_bind_from)

text \<open>The notifier runs \<open>gh pr comment --edit-last\<close> first, whatever happens after it.\<close>

lemma add_comment_to_pr_edit_first:
  "prefix (commands w @ [gh_edit_cmd]) (commands (snd (add_comment_to_pr r w)))"
proof -
  have "prefix (commands (snd (run_inherit gh_edit_cmd (comment_written r w))))
      (commands (snd (add_comment_to_pr r w)))"
    unfolding add_comment_to_pr_unfold by (rule log_grows_bind_from) (auto intro!: log_grows_then log_grows_when)
  then show ?thesis by simp
qed

text \<open>The first command \<open>check_api_breaking_changes\<close> runs is the comparator's, whatever
  happens after it.\<close>

lemma check_api_first_command:
  "\<exists>rest. commands (snd (check_api_breaking_changes H bl cur al rp cpr w)) =
     commands w @ compare_args bl cur rp al # rest"
proof -
  let ?w1 = "snd (run_captured (compare_args bl cur rp al) w)"
  have "check_api_breaking_changes H bl cur al rp cpr =
      exc_bind (run_captured (compare_args bl cur rp al)) (\<lambda>p.
        exc_bind (if returncode p \<noteq> 0
                  then exc_then (print_out (proc_stderr p)) (exc_raise (Exception ''swift-api-digester failed''))
                  else BreakageReport H rp)
          (\<lambda>r. exc_then (exc_when cpr (add_comment_to_pr r))
                 (if \<not> is_good r
                  then exc_bind (read_text rp) (\<lambda>txt.
                         exc_then (print_err (breakage_banner cur txt)) (exc_raise (SystemExit 1)))
                  else exc_return ())))"
    by (simp add: check_api_breaking_changes_def compare_def exc_bind_assoc)
  moreover have "prefix (commands ?w1) (commands (snd (exc_bind (run_captured (compare_args bl cur rp al)) (\<lambda>p.
        exc_bind (if returncode p \<noteq> 0
                  then exc_then (print_out (proc_stderr p)) (exc_raise (Exception ''swift-api-digester failed''))
                  else BreakageReport H rp)
          (\<lambda>r. exc_then (exc_when cpr (add_comment_to_pr r))
                 (if \<not> is_good r
                  then exc_bind (read_text rp) (\<lambda>txt.
                         exc_then (print_err (breakage_banner cur txt)) (exc_raise (SystemExit 1)))
                  else exc_return ()))) w)))"
    by (rule log_grows_bind_from) (auto intro!: log_grows_bind log_grows_then log_grows_when simp: log_grows_reader)
  ultimately show ?thesis by (auto simp: prefix_def)
qed

section \<open>Properties of the comparison\<close>

text \<open>C3. When the comparator exits with status 0 and leaves a report that parses, and no
  comment is requested, \<open>check-api\<close> exits with status 0 exactly when the report's
  fingerprint is the empty report's and with status 1 otherwise; in the second case, and
  only then, it prints the banner with the whole report text to standard error.\<close>

theorem check_api_exit_status:
  assumes run: "tools w (compare_args base latest rp allow) (files w) = Completed p fs"
    and ok: "returncode p = 0" and rep: "fs (resolve w rp) = Some raw"
    and parsed: "parse_report raw = Inr bk"
  shows "\<exists>res w'. check_api_breaking_changes H base latest allow rp False w = (res, w') \<and>
    exit_status res = (if hashsum_of H raw = empty_report_hashsum then 0 else 1) \<and>
    err w' = err w @ (if hashsum_of H raw = empty_report_hashsum then []
                      else breakage_banner latest (univ_nl raw) @ [NL])"
  using compare_report [OF run ok rep parsed, of H]
  by (simp add: check_api_breaking_changes_def exc_bind_def exc_then_apply rep)

theorem check_api_exit_status_witness:
  "tools \<lparr>files = Map.empty, dirs = Map.empty, cwd = ''/w'', out = [], err = [], commands = [],
          tools = (\<lambda>args fs. Completed \<lparr>returncode = 0, proc_stdout = [], proc_stderr = []\<rparr>
                              (fs(''/w/r.txt'' \<mapsto> ''/* Removed Decls */'' @ [NL] @ ''Func f()'' @ [NL])))\<rparr>
     (compare_args ''/w/a.json'' ''/w/b.json'' ''/w/r.txt'' None) Map.empty =
     Completed \<lparr>returncode = 0, proc_stdout = [], proc_stderr = []\<rparr>
       (Map.empty(''/w/r.txt'' \<mapsto> ''/* Removed Decls */'' @ [NL] @ ''Func f()'' @ [NL])) \<and>
   parse_report (''/* Removed Decls */'' @ [NL] @ ''Func f()'' @ [NL]) =
     Inr [(''Removed Decls'', [''Func f()'' @ [NL]])] \<and>
   (\<exists>res w'. check_api_breaking_changes java_hash ''/w/a.json'' ''/w/b.json'' None ''/w/r.txt'' False
      \<lparr>files = Map.empty, dirs = Map.empty, cwd = ''/w'', out = [], err = [], commands = [],
          tools = (\<lambda>args fs. Completed \<lparr>returncode = 0, proc_stdout = [], proc_stderr = []\<rparr>
                              (fs(''/w/r.txt'' \<mapsto> ''/* Removed Decls */'' @ [NL] @ ''Func f()'' @ [NL])))\<rparr> = (res, w') \<and>
      exit_status res = 1)"
proof -
  let ?raw = "''/* Removed Decls */'' @ [NL] @ ''Func f()'' @ [NL]"
  let ?w = "\<lparr>files = Map.empty, dirs = Map.empty, cwd = ''/w'', out = [], err = [], commands = [],
          tools = (\<lambda>args fs. Completed \<lparr>returncode = 0, proc_stdout = [], proc_stderr = []\<rparr>
                              (fs(''/w/r.txt'' \<mapsto> ?raw)))\<rparr>"
  have run: "tools ?w (compare_args ''/w/a.json'' ''/w/b.json'' ''/w/r.txt'' None) (files ?w) =
      Completed \<lparr>returncode = 0, proc_stdout = [], proc_stderr = []\<rparr> (Map.empty(''/w/r.txt'' \<mapsto> ?raw))"
    by simp
  have ok: "returncode \<lparr>returncode = 0, proc_stdout = [], proc_stderr = []\<rparr> = (0::int)" by simp
  have rep: "(Map.empty(''/w/r.txt'' \<mapsto> ?raw)) (resolve ?w ''/w/r.txt'') = Some ?raw"
    by (simp add: resolve_def path_join_def startswith_def)
  have parsed: "parse_report ?raw = Inr [(''Removed Decls'', [''Func f()'' @ [NL]])]"
    by (simp add: parse_eval)
  have bad: "hashsum_of java_hash ?raw \<noteq> empty_report_hashsum"
  proof
    assume "hashsum_of java_hash ?raw = empty_report_hashsum"
    then have "length (hashsum_of java_hash ?raw) = length empty_report_hashsum" by simp
    then show False by (simp add: hashsum_of_def java_hash_def fold_hash_def empty_report_hashsum_def)
  qed
  show ?thesis
    using check_api_exit_status [OF run ok rep parsed, of java_hash] bad run parsed by auto
qed

text \<open>C20. When the comparator exits with a non-zero status, \<open>check-api\<close> prints the
  tool's error stream, raises \<open>Exception("swift-api-digester failed")\<close> and so exits with
  status 1, without reading a report or running any other command.\<close>

theorem check_api_tool_failure:
  assumes run: "tools w (compare_args base latest rp allow) (files w) = Completed p fs"
    and failed: "returncode p \<noteq> 0"
  shows "check_api_breaking_changes H base latest allow rp c w =
    (Inl (Exception ''swift-api-digester failed''),
     (after_run (compare_args base latest rp allow) fs w)\<lparr>out := out w @ univ_nl (proc_stderr p) @ [NL]\<rparr>)"
  using assms
  by (simp add: check_api_breaking_changes_def compare_def exc_bind_def exc_then_apply after_run_def)

theorem check_api_tool_failure_witness:
  "tools \<lparr>files = Map.empty, dirs = Map.empty, cwd = ''/w'', out = [], err = [], commands = [],
          tools = (\<lambda>args fs. Completed \<lparr>returncode = 1, proc_stdout = [], proc_stderr = ''error: no such file''\<rparr> fs)\<rparr>
     (compare_args ''/w/a.json'' ''/w/b.json'' ''/w/r.txt'' None) Map.empty =
     Completed \<lparr>returncode = 1, proc_stdout = [], proc_stderr = ''error: no such file''\<rparr> Map.empty \<and>
   returncode \<lparr>returncode = 1, proc_stdout = [], proc_stderr = ''error: no such file''\<rparr> \<noteq> (0::int) \<and>
   exit_status (fst (check_api_breaking_changes java_hash ''/w/a.json'' ''/w/b.json'' None ''/w/r.txt'' True
      \<lparr>files = Map.empty, dirs = Map.empty, cwd = ''/w'', out = [], err = [], commands = [],
          tools = (\<lambda>args fs. Completed \<lparr>returncode = 1, proc_stdout = [], proc_stderr = ''error: no such file''\<rparr> fs)\<rparr>)) = 1"
proof -
  let ?p = "\<lparr>returncode = 1, proc_stdout = [], proc_stderr = ''error: no such file''\<rparr>"
  let ?w = "\<lparr>files = Map.empty, dirs = Map.empty, cwd = ''/w'', out = [], err = [], commands = [],
          tools = (\<lambda>args fs. Completed ?p fs)\<rparr>"
  have run: "tools ?w (compare_args ''/w/a.json'' ''/w/b.json'' ''/w/r.txt'' None) (files ?w) = Completed ?p Map.empty"
    by simp
  have failed: "returncode ?p \<noteq> 0" by simp
  show ?thesis
    using check_api_tool_failure [OF run failed, of java_hash True] by simp
qed

text \<open>C32. With \<open>--comment-pr\<close>, once the comparator has succeeded and its report has been
  read, the notifier is always reached: the comparator's command is followed by
  \<open>gh pr comment --edit-last\<close>, whether the report is good or not and whatever \<open>gh\<close> and
  the rest of the run then do.\<close>

theorem check_api_reaches_notifier:
  assumes run: "tools w (compare_args base latest rp allow) (files w) = Completed p fs"
    and ok: "returncode p = 0" and rep: "fs (resolve w rp) = Some raw"
    and parsed: "parse_report raw = Inr bk"
  shows "prefix (commands w @ [compare_args base latest rp allow, gh_edit_cmd])
    (commands (snd (check_api_breaking_changes H base latest allow rp True w)))"
proof -
  let ?r = "\<lparr>br_path = rp, breakage = bk, hashsum = hashsum_of H raw,
          is_good = (hashsum_of H raw = empty_report_hashsum)\<rparr>"
  let ?w1 = "after_run (compare_args base latest rp allow) fs w"
  let ?rest = "if \<not> is_good ?r
      then exc_bind (read_text rp) (\<lambda>txt.
             exc_then (print_err (breakage_banner latest txt)) (exc_raise (SystemExit 1)))
      else exc_return ()"
  have "check_api_breaking_changes H base latest allow rp True w = exc_then (add_comment_to_pr ?r) ?rest ?w1"
    using compare_report [OF run ok rep parsed, of H]
    by (simp add: check_api_breaking_changes_def exc_bind_def exc_when_def)
  moreover have "prefix (commands (snd (add_comment_to_pr ?r ?w1))) (commands (snd (exc_then (add_comment_to_pr ?r) ?rest ?w1)))"
    by (rule log_grows_then_from) (auto intro!: log_grows_bind log_grows_then)
  ultimately show ?thesis
    using add_comment_to_pr_edit_first [of ?w1 ?r] by (auto intro: prefix_order.trans)
qed

theorem check_api_reaches_notifier_witness:
  "prefix [compare_args ''/w/a.json'' ''/w/b.json'' ''/w/r.txt'' None, gh_edit_cmd]
     (commands (snd (check_api_breaking_changes java_hash ''/w/a.json'' ''/w/b.json'' None ''/w/r.txt'' True
      \<lparr>files = Map.empty, dirs = Map.empty, cwd = ''/w'', out = [], err = [], commands = [],
          tools = (\<lambda>args fs. Completed \<lparr>returncode = 0, proc_stdout = [], proc_stderr = []\<rparr>
                              (fs(''/w/r.txt'' \<mapsto> ''/* Removed Decls */'' @ [NL] @ ''Func f()'' @ [NL])))\<rparr>)))"
proof -
  let ?raw = "''/* Removed Decls */'' @ [NL] @ ''Func f()'' @ [NL]"
  let ?p = "\<lparr>returncode = 0, proc_stdout = [], proc_stderr = []\<rparr>"
  let ?w = "\<lparr>files = Map.empty, dirs = Map.empty, cwd = ''/w'', out = [], err = [], commands = [],
          tools = (\<lambda>args fs. Completed ?p (fs(''/w/r.txt'' \<mapsto> ?raw)))\<rparr>"
  have run: "tools ?w (compare_args ''/w/a.json'' ''/w/b.json'' ''/w/r.txt'' None) (files ?w) =
      Completed ?p (Map.empty(''/w/r.txt'' \<mapsto> ?raw))"
    by simp
  have ok: "returncode ?p = (0::int)" by simp
  have rep: "(Map.empty(''/w/r.txt'' \<mapsto> ?raw)) (resolve ?w ''/w/r.txt'') = Some ?raw"
    by (simp add: resolve_def path_join_def startswith_def)
  have parsed: "parse_report ?raw = Inr [(''Removed Decls'', [''Func f()'' @ [NL]])]"
    by (simp add: parse_eval)
  show ?thesis
    using check_api_reaches_notifier [OF run ok rep parsed, of java_hash] by simp
qed

end
