(* ===== verification/Dump.thy ===== *)
theory Dump
  imports SDK_Module Digester
begin

text \<open>
  The dump side and the command line: \<open>APIDigester.dump_sdk\<close> (lines 116--157) with its
  local functions \<open>append_dependencies\<close> and \<open>append_module\<close>, the top-level
  \<open>dump_sdk\<close> (lines 11--26) with \<open>dittoSDK\<close>, and \<open>main\<close> (lines 69--92) after
  \<open>argparse\<close>: the parsed command line is the datatype \<open>cli\<close>, each path option made
  absolute as \<open>type=os.path.abspath\<close> does, defaults included.  \<open>tempfile.mkdtemp\<close> is
  the directory \<open>tmp\<close> it creates, and \<open>shutil.unpack_archive\<close> the parameter
  \<open>unpack\<close>, both library calls.
\<close>

section \<open>Definitions\<close>

definition dump_base_args :: "string \<Rightarrow> string list" where
  "dump_base_args op =
     [''xcrun'', ''--sdk'', ''iphoneos'', ''swift-api-digester'', ''-dump-sdk'', ''-o'', op,
      ''-abort-on-module-fail'', ''-v'', ''-avoid-tool-args'', ''-avoid-location'']"

text \<open>The names in \<open>os.listdir(dependencies_path)\<close> that are directories ending in
  \<open>.xcframework\<close>, in the listing's order.\<close>

definition xcframework_dirs :: "string \<Rightarrow> string list io" where
  "xcframework_dirs dp =
     exc_bind (list_dir dp) (\<lambda>ns w.
       (Inr (filter (\<lambda>d. is_dir w (path_join dp d) \<and> endswith d ''.xcframework'') ns), w))"

text \<open>The loop \<open>for dependency in deps: for xcDep in xcDeps: if ...: ...; break\<close>: the first
  bundle whose name is the dependency's last component adds the directory of its device
  module as a framework search path.\<close>

fun add_dep_paths ::
  "(string \<Rightarrow> pval res) \<Rightarrow> xcframework list \<Rightarrow> string list \<Rightarrow> string list \<Rightarrow> string list io" where
  "add_dep_paths PL xs [] args = exc_return args"
| "add_dep_paths PL xs (d # ds) args =
     (case find (\<lambda>x. xc_name x = basename d) xs of
        None \<Rightarrow> add_dep_paths PL xs ds args
      | Some x \<Rightarrow>
          exc_bind (iOSDeviceModule PL x) (\<lambda>m.
            add_dep_paths PL xs ds (args @ [''-iframework'', dirname (mod_path m)])))"

definition append_dependencies ::
  "(string \<Rightarrow> pval res) \<Rightarrow> sdk_module \<Rightarrow> string \<Rightarrow> string list \<Rightarrow> string list io" where
  "append_dependencies PL m dp args =
     exc_bind (list_dependencies m) (\<lambda>deps.
     exc_bind (xcframework_dirs dp) (\<lambda>cands.
     exc_bind (exc_map (\<lambda>d. XCFramework PL (path_join dp d)) cands) (\<lambda>xs.
     add_dep_paths PL xs deps args)))"

definition append_module :: "(string \<Rightarrow> pval res) \<Rightarrow> xcframework \<Rightarrow> string list \<Rightarrow> string list io" where
  "append_module PL xc args =
     exc_bind (iOSDeviceModule PL xc) (\<lambda>m.
       case triplet_target m of
         Inl e \<Rightarrow> exc_raise e
       | Inr t \<Rightarrow> exc_return (args @ [''-module'', xc_name xc, ''-target'', t, ''-iframework'', dirname (mod_path m)]))"

definition APIDigester_dump_sdk ::
  "(string \<Rightarrow> pval res) \<Rightarrow> xcframework \<Rightarrow> string \<Rightarrow> string \<Rightarrow> bool \<Rightarrow> unit io" where
  "APIDigester_dump_sdk PL xc dp op abi =
     exc_bind (iOSDeviceModule PL xc) (\<lambda>m.
     exc_bind (append_dependencies PL m dp (dump_base_args op @ (if abi then [''-abi''] else []))) (\<lambda>args.
     exc_bind (append_module PL xc args) (\<lambda>args.
     exc_bind (run_captured args) (\<lambda>p.
       if returncode p \<noteq> 0
       then exc_then (print_out (proc_stderr p)) (exc_raise (Exception ''swift-api-digester failed''))
       else exc_return ()))))"

definition mkdtemp :: "string \<Rightarrow> string io" where
  "mkdtemp tmp = (\<lambda>w. (Inr tmp, w\<lparr>dirs := (dirs w)(tmp \<mapsto> [])\<rparr>))"

definition dittoSDK :: "(string \<Rightarrow> string \<Rightarrow> unit io) \<Rightarrow> string \<Rightarrow> string \<Rightarrow> string io" where
  "dittoSDK unpack sdk dest =
     (if splitext_ext sdk = ''.zip''
      then exc_then (unpack sdk dest) (exc_return (path_join dest ''artifacts''))
      else exc_raise (Exception ''SDK path must be a zip archive''))"

definition dump_sdk ::
  "(string \<Rightarrow> pval res) \<Rightarrow> (string \<Rightarrow> string \<Rightarrow> unit io) \<Rightarrow> string \<Rightarrow> string \<Rightarrow> string \<Rightarrow> bool \<Rightarrow> unit io" where
  "dump_sdk PL unpack tmp sdk op abi =
     exc_bind (mkdtemp tmp) (\<lambda>t.
     exc_then (print_out t)
     (exc_bind (dittoSDK unpack sdk t) (\<lambda>ad.
      exc_bind (XCFramework PL (path_join ad ''MapboxMaps.xcframework'')) (\<lambda>xc.
      APIDigester_dump_sdk PL xc ad op abi))))"

text \<open>The namespace \<open>parser.parse_args()\<close> returns, before the conversions of \<open>type=\<close>;
  \<open>None\<close> for an option not given.\<close>

datatype cli =
    Cli_dump string "string option" bool
  | Cli_check_api string string "string option" "string option" bool
  | Cli_none

definition main ::
  "'s hash_algo \<Rightarrow> (string \<Rightarrow> pval res) \<Rightarrow> (string \<Rightarrow> string \<Rightarrow> unit io) \<Rightarrow> string \<Rightarrow> cli \<Rightarrow> unit io" where
  "main H PL unpack tmp c = (\<lambda>w.
     let ap = abspath (cwd w) in
     case c of
       Cli_dump sdk op abi \<Rightarrow>
         dump_sdk PL unpack tmp (ap sdk) (ap (case op of None \<Rightarrow> ''MapboxMaps.json'' | Some o' \<Rightarrow> o')) abi w
     | Cli_check_api b l allow rp cpr \<Rightarrow>
         check_api_breaking_changes H (ap b) (ap l) (map_option ap allow)
           (ap (case rp of None \<Rightarrow> ''api-check-report.txt'' | Some r \<Rightarrow> r)) cpr w
     | Cli_none \<Rightarrow> (Inr (), w))"

text \<open>What the dependency loop adds, as a specification: for each dependency in order, the
  search path \<open>f x\<close> of the first bundle \<open>x\<close> of the same name, nothing when there is none.\<close>

definition dep_args :: "(xcframework \<Rightarrow> string) \<Rightarrow> xcframework list \<Rightarrow> string list \<Rightarrow> string list" where
  "dep_args f xs deps =
     concat (map (\<lambda>d. case find (\<lambda>x. xc_name x = basename d) xs of None \<Rightarrow> [] | Some x \<Rightarrow> [''-iframework'', f x]) deps)"

text \<open>The command \<open>APIDigester.dump_sdk\<close> runs, given the dependencies' search paths and
  the module's triple.\<close>

definition dump_cmd ::
  "string \<Rightarrow> bool \<Rightarrow> string list \<Rightarrow> xcframework \<Rightarrow> string \<Rightarrow> sdk_module \<Rightarrow> string list" where
  "dump_cmd op abi dargs xc t m =
     dump_base_args op @ (if abi then [''-abi''] else []) @ dargs @
     [''-module'', xc_name xc, ''-target'', t, ''-iframework'', dirname (mod_path m)]"

section \<open>Lemmas\<close>

lemma reader_xcframework_dirs [simp]: "reader (xcframework_dirs dp)"
  unfolding xcframework_dirs_def by (intro reader_bind) (simp, simp add: reader_def)

lemma reader_exc_map [intro]: "(\<And>x. reader (f x)) \<Longrightarrow> reader (exc_map f xs)"
  by (induction xs) (auto intro!: reader_bind)

lemma find_in_set: "find P xs = Some x \<Longrightarrow> x \<in> set xs"
  by (auto simp: find_Some_iff)

lemma add_dep_paths_run:
  assumes "\<forall>x\<in>set xs. iOSDeviceModule PL x w = (Inr (M x), w)"
  shows "add_dep_paths PL xs deps args w = (Inr (args @ dep_args (\<lambda>x. dirname (mod_path (M x))) xs deps), w)"
proof (induction deps arbitrary: args)
  case Nil
  then show ?case by (simp add: dep_args_def)
next
  case (Cons d ds)
  show ?case
  proof (cases "find (\<lambda>x. xc_name x = basename d) xs")
    case None
    then show ?thesis using Cons.IH by (simp add: dep_args_def)
  next
    case (Some x)
    then have "x \<in> set xs" by (rule find_in_set)
    with assms have "iOSDeviceModule PL x w = (Inr (M x), w)" by blast
    then have "add_dep_paths PL xs (d # ds) args w =
        add_dep_paths PL xs ds (args @ [''-iframework'', dirname (mod_path (M x))]) w"
      using Some by (simp add: exc_bind_def)
    then show ?thesis using Some Cons.IH by (simp add: dep_args_def)
  qed
qed

lemma reader_run:
  "reader m \<Longrightarrow> m w = (r, w) \<Longrightarrow> m (w\<lparr>commands := cs\<rparr>) = (r, w\<lparr>commands := cs\<rparr>)"
  using readerD(2) [of m cs w] by simp

lemma append_dependencies_run:
  assumes exe: "executable m = Inr exe"
    and otool: "tools w (otool_cmd exe) (files w) = Completed q (files w)"
    and deps: "parse_otool (univ_nl (proc_stdout q)) = Inr ds"
    and cands: "xcframework_dirs dp w = (Inr cs, w)"
    and xcs: "exc_map (\<lambda>d. XCFramework PL (path_join dp d)) cs w = (Inr xs, w)"
    and mods: "\<forall>x\<in>set xs. iOSDeviceModule PL x w = (Inr (M x), w)"
  shows "append_dependencies PL m dp args w =
    (Inr (args @ dep_args (\<lambda>x. dirname (mod_path (M x))) xs (filter filter_system_dependencies ds)),
     w\<lparr>commands := commands w @ [otool_cmd exe]\<rparr>)"
proof -
  let ?w1 = "w\<lparr>commands := commands w @ [otool_cmd exe]\<rparr>"
  have l: "list_dependencies m w = (Inr (filter filter_system_dependencies ds), ?w1)"
    using list_dependencies_run [OF exe otool deps] by simp
  have c: "xcframework_dirs dp ?w1 = (Inr cs, ?w1)"
    by (rule reader_run [OF reader_xcframework_dirs cands])
  have x: "exc_map (\<lambda>d. XCFramework PL (path_join dp d)) cs ?w1 = (Inr xs, ?w1)"
    by (rule reader_run [OF reader_exc_map xcs]) simp
  have "\<forall>x\<in>set xs. iOSDeviceModule PL x ?w1 = (Inr (M x), ?w1)"
    using mods reader_run [OF reader_iOSDeviceModule] by blast
  from add_dep_paths_run [OF this] l c x show ?thesis
    by (simp add: append_dependencies_def exc_bind_def)
qed

lemma append_module_run:
  "iOSDeviceModule PL xc w = (Inr m, w) \<Longrightarrow> triplet_target m = Inr t \<Longrightarrow>
   append_module PL xc args w =
     (Inr (args @ [''-module'', xc_name xc, ''-target'', t, ''-iframework'', dirname (mod_path m)]), w)"
  by (simp add: append_module_def exc_bind_def)

text \<open>Up to the run of the digester, \<open>APIDigester.dump_sdk\<close> runs \<open>otool\<close> once and builds
  the command \<open>dump_cmd\<close>.\<close>

lemma APIDigester_dump_sdk_run:
  assumes dev: "iOSDeviceModule PL xc w = (Inr m, w)"
    and exe: "executable m = Inr exe"
    and otool: "tools w (otool_cmd exe) (files w) = Completed q (files w)"
    and deps: "parse_otool (univ_nl (proc_stdout q)) = Inr ds"
    and cands: "xcframework_dirs dp w = (Inr cs, w)"
    and xcs: "exc_map (\<lambda>d. XCFramework PL (path_join dp d)) cs w = (Inr xs, w)"
    and mods: "\<forall>x\<in>set xs. iOSDeviceModule PL x w = (Inr (M x), w)"
    and tt: "triplet_target m = Inr t"
  shows "APIDigester_dump_sdk PL xc dp op abi w =
    exc_bind (run_captured (dump_cmd op abi (dep_args (\<lambda>x. dirname (mod_path (M x))) xs
                                               (filter filter_system_dependencies ds)) xc t m))
      (\<lambda>p. if returncode p \<noteq> 0
           then exc_then (print_out (proc_stderr p)) (exc_raise (Exception ''swift-api-digester failed''))
           else exc_return ())
      (w\<lparr>commands := commands w @ [otool_cmd exe]\<rparr>)"
proof -
  let ?w1 = "w\<lparr>commands := commands w @ [otool_cmd exe]\<rparr>"
  have m1: "iOSDeviceModule PL xc ?w1 = (Inr m, ?w1)" by (rule reader_run [OF reader_iOSDeviceModule dev])
  show ?thesis
    using append_dependencies_run [OF exe otool deps cands xcs mods] append_module_run [OF m1 tt] dev
    by (simp add: APIDigester_dump_sdk_def exc_bind_def dump_cmd_def)
qed

lemma APIDigester_dump_sdk_no_triple:
  assumes dev: "iOSDeviceModule PL xc w = (Inr m, w)"
    and exe: "executable m = Inr exe"
    and otool: "tools w (otool_cmd exe) (files w) = Completed q (files w)"
    and deps: "parse_otool (univ_nl (proc_stdout q)) = Inr ds"
    and cands: "xcframework_dirs dp w = (Inr cs, w)"
    and xcs: "exc_map (\<lambda>d. XCFramework PL (path_join dp d)) cs w = (Inr xs, w)"
    and mods: "\<forall>x\<in>set xs. iOSDeviceModule PL x w = (Inr (M x), w)"
    and tt: "triplet_target m = Inl e"
  shows "APIDigester_dump_sdk PL xc dp op abi w = (Inl e, w\<lparr>commands := commands w @ [otool_cmd exe]\<rparr>)"
proof -
  let ?w1 = "w\<lparr>commands := commands w @ [otool_cmd exe]\<rparr>"
  have m1: "iOSDeviceModule PL xc ?w1 = (Inr m, ?w1)" by (rule reader_run [OF reader_iOSDeviceModule dev])
  have "append_module PL xc args ?w1 = (Inl e, ?w1)" for args
    using m1 tt by (simp add: append_module_def exc_bind_def)
  then show ?thesis
    using append_dependencies_run [OF exe otool deps cands xcs mods] dev
    by (simp add: APIDigester_dump_sdk_def exc_bind_def)
qed

text \<open>On a \<open>.zip\<close> archive, \<open>dump_sdk\<close> makes and prints the temporary directory, unpacks
  the archive there and reads \<open>artifacts/MapboxMaps.xcframework\<close> under it.\<close>

lemma dump_sdk_zip:
  assumes "splitext_ext sdk = ''.zip''"
  shows "dump_sdk PL unpack tmp sdk op abi w =
    exc_then (unpack sdk tmp)
      (exc_bind (XCFramework PL (path_join (path_join tmp ''artifacts'') ''MapboxMaps.xcframework''))
        (\<lambda>xc. APIDigester_dump_sdk PL xc (path_join tmp ''artifacts'') op abi))
      (w\<lparr>dirs := (dirs w)(tmp \<mapsto> []), out := out w @ tmp @ [NL]\<rparr>)"
  using assms by (simp add: dump_sdk_def dittoSDK_def mkdtemp_def exc_bind_def exc_then_def
      split: prod.split sum.split)

section \<open>Properties of the dump\<close>

text \<open>C8. The dump command: when the device module, its \<open>otool\<close> listing, the bundles
  beside it and their device modules can all be read, \<open>APIDigester.dump_sdk\<close> runs
  \<open>otool -L\<close> and then one \<open>swift-api-digester -dump-sdk\<close> command: the base arguments,
  \<open>-abi\<close> when asked, a search path per dependency that has a bundle of its name (the
  first such bundle), then \<open>-module\<close>, \<open>-target\<close> with the module's triple and the
  module's own search path; on exit status 0 it returns normally.\<close>

theorem APIDigester_dump_sdk_ok:
  assumes dev: "iOSDeviceModule PL xc w = (Inr m, w)"
    and exe: "executable m = Inr exe"
    and otool: "tools w (otool_cmd exe) (files w) = Completed q (files w)"
    and deps: "parse_otool (univ_nl (proc_stdout q)) = Inr ds"
    and cands: "xcframework_dirs dp w = (Inr cs, w)"
    and xcs: "exc_map (\<lambda>d. XCFramework PL (path_join dp d)) cs w = (Inr xs, w)"
    and mods: "\<forall>x\<in>set xs. iOSDeviceModule PL x w = (Inr (M x), w)"
    and tt: "triplet_target m = Inr t"
    and run: "tools w (dump_cmd op abi (dep_args (\<lambda>x. dirname (mod_path (M x))) xs
                (filter filter_system_dependencies ds)) xc t m) (files w) = Completed p fs"
    and ok: "returncode p = 0"
  shows "APIDigester_dump_sdk PL xc dp op abi w =
    (Inr (), w\<lparr>commands := commands w @
       [otool_cmd exe, dump_cmd op abi (dep_args (\<lambda>x. dirname (mod_path (M x))) xs
                          (filter filter_system_dependencies ds)) xc t m], files := fs\<rparr>)"
  using APIDigester_dump_sdk_run [OF dev exe otool deps cands xcs mods tt, of op abi] run ok
  by (simp add: exc_bind_def)

theorem APIDigester_dump_sdk_ok_witness:
  "APIDigester_dump_sdk
     (\<lambda>t. if t = ''MOD'' then Inr (PDict [(''CFBundleExecutable'', PStr ''M''), (''MinimumOSVersion'', PStr ''11.0'')])
          else if t = ''XT'' then Inr (PDict [(''AvailableLibraries'', PArr [PDict [(''LibraryIdentifier'', PStr ''ios''),
                 (''LibraryPath'', PStr ''T.framework''), (''SupportedPlatform'', PStr ''ios'')]])])
          else Inr (PDict []))
     \<lparr>xc_path = ''/a/M.xcframework'', xc_name = ''M'',
      xc_libraries = [\<lparr>lib_dict = PDict [(''LibraryIdentifier'', PStr ''ios''), (''LibraryPath'', PStr ''M.framework''),
        (''SupportedArchitectures'', PArr [PStr ''arm64'']), (''SupportedPlatform'', PStr ''ios'')], lib_root = ''/a/M.xcframework''\<rparr>]\<rparr>
     ''/a'' ''/o.json'' False
     \<lparr>files = Map.empty(''/a/M.xcframework/ios/M.framework/Info.plist'' \<mapsto> ''MOD'', ''/a/T.xcframework/Info.plist'' \<mapsto> ''XT'',
        ''/a/T.xcframework/ios/T.framework/Info.plist'' \<mapsto> ''MT''),
      dirs = Map.empty(''/a'' \<mapsto> [''T.xcframework''], ''/a/T.xcframework'' \<mapsto> []), cwd = ''/'', out = [], err = [], commands = [],
      tools = (\<lambda>args fs. if args = otool_cmd ''/a/M.xcframework/ios/M.framework/M''
         then Completed \<lparr>returncode = 0, proc_stdout = otool_output ''/a/M.xcframework/ios/M.framework/M''
                [(''@rpath/T.framework/T'', ''v'')], proc_stderr = []\<rparr> fs
         else Completed \<lparr>returncode = 0, proc_stdout = [], proc_stderr = []\<rparr> fs)\<rparr> =
   (Inr (),
    \<lparr>files = Map.empty(''/a/M.xcframework/ios/M.framework/Info.plist'' \<mapsto> ''MOD'', ''/a/T.xcframework/Info.plist'' \<mapsto> ''XT'',
        ''/a/T.xcframework/ios/T.framework/Info.plist'' \<mapsto> ''MT''),
      dirs = Map.empty(''/a'' \<mapsto> [''T.xcframework''], ''/a/T.xcframework'' \<mapsto> []), cwd = ''/'', out = [], err = [],
      commands = [otool_cmd ''/a/M.xcframework/ios/M.framework/M'',
        dump_base_args ''/o.json'' @ [''-iframework'', ''/a/T.xcframework/ios'', ''-module'', ''M'',
          ''-target'', ''arm64-apple-ios11.0'', ''-iframework'', ''/a/M.xcframework/ios'']],
      tools = (\<lambda>args fs. if args = otool_cmd ''/a/M.xcframework/ios/M.framework/M''
         then Completed \<lparr>returncode = 0, proc_stdout = otool_output ''/a/M.xcframework/ios/M.framework/M''
                [(''@rpath/T.framework/T'', ''v'')], proc_stderr = []\<rparr> fs
         else Completed \<lparr>returncode = 0, proc_stdout = [], proc_stderr = []\<rparr> fs)\<rparr>)"
proof -
  let ?PL = "\<lambda>t. if t = ''MOD'' then Inr (PDict [(''CFBundleExecutable'', PStr ''M''), (''MinimumOSVersion'', PStr ''11.0'')])
          else if t = ''XT'' then Inr (PDict [(''AvailableLibraries'', PArr [PDict [(''LibraryIdentifier'', PStr ''ios''),
                 (''LibraryPath'', PStr ''T.framework''), (''SupportedPlatform'', PStr ''ios'')]])])
          else Inr (PDict [])"
  let ?lm = "\<lparr>lib_dict = PDict [(''LibraryIdentifier'', PStr ''ios''), (''LibraryPath'', PStr ''M.framework''),
        (''SupportedArchitectures'', PArr [PStr ''arm64'']), (''SupportedPlatform'', PStr ''ios'')], lib_root = ''/a/M.xcframework''\<rparr>"
  let ?lt = "\<lparr>lib_dict = PDict [(''LibraryIdentifier'', PStr ''ios''), (''LibraryPath'', PStr ''T.framework''),
        (''SupportedPlatform'', PStr ''ios'')], lib_root = ''/a/T.xcframework''\<rparr>"
  let ?xc = "\<lparr>xc_path = ''/a/M.xcframework'', xc_name = ''M'', xc_libraries = [?lm]\<rparr>"
  let ?xt = "\<lparr>xc_path = ''/a/T.xcframework'', xc_name = ''T'', xc_libraries = [?lt]\<rparr>"
  let ?m = "\<lparr>mod_library = ?lm, mod_path = ''/a/M.xcframework/ios/M.framework'',
      mod_plist = PDict [(''CFBundleExecutable'', PStr ''M''), (''MinimumOSVersion'', PStr ''11.0'')]\<rparr>"
  let ?mt = "\<lparr>mod_library = ?lt, mod_path = ''/a/T.xcframework/ios/T.framework'', mod_plist = PDict []\<rparr>"
  let ?exe = "''/a/M.xcframework/ios/M.framework/M''"
  let ?q = "\<lparr>returncode = 0, proc_stdout = otool_output ?exe [(''@rpath/T.framework/T'', ''v'')], proc_stderr = []\<rparr>"
  let ?p = "\<lparr>returncode = 0, proc_stdout = [], proc_stderr = []\<rparr>"
  let ?fs = "Map.empty(''/a/M.xcframework/ios/M.framework/Info.plist'' \<mapsto> ''MOD'', ''/a/T.xcframework/Info.plist'' \<mapsto> ''XT'',
        ''/a/T.xcframework/ios/T.framework/Info.plist'' \<mapsto> ''MT'')"
  let ?tools = "\<lambda>args fs. if args = otool_cmd ?exe then Completed ?q fs else Completed ?p fs"
  let ?w = "\<lparr>files = ?fs, dirs = Map.empty(''/a'' \<mapsto> [''T.xcframework''], ''/a/T.xcframework'' \<mapsto> []), cwd = ''/'',
      out = [], err = [], commands = [], tools = ?tools\<rparr>"
  let ?M = "\<lambda>x::xcframework. ?mt"
  have dev: "iOSDeviceModule ?PL ?xc ?w = (Inr ?m, ?w)"
    by (simp add: iOSDeviceModule_def bundle_eval SDKModule_def lib_identifier_def lib_path_def
        exc_bind_def resolve_def path_join_def startswith_def endswith_def)
  have exe: "executable ?m = Inr ?exe"
    by (simp add: executable_def executable_path_def py_getitem_def path_join_def startswith_def endswith_def)
  have otool: "?tools (otool_cmd ?exe) ?fs = Completed ?q ?fs" by simp
  have deps: "parse_otool (univ_nl (proc_stdout ?q)) = Inr [''@rpath/T.framework/T'']"
    by code_simp
  have cands: "xcframework_dirs ''/a'' ?w = (Inr [''T.xcframework''], ?w)"
    by (simp add: xcframework_dirs_def exc_bind_def is_dir_def resolve_def path_join_def startswith_def endswith_def)
  have ap: "''/a/T.xcframework'' = abspath (cwd ?w) (path_join ''/a'' ''T.xcframework'')"
    by (simp add: abspath_def normpath_def path_join_def startswith_def endswith_def split_on_from.simps)
  have dt: "is_dir ?w ''/a/T.xcframework'' \<or> \<not> endswith ''/a/T.xcframework'' ''.xcframework''"
    by (simp add: is_dir_def resolve_def path_join_def startswith_def)
  have "XCFramework ?PL (path_join ''/a'' ''T.xcframework'') ?w = (Inr ?xt, ?w)"
    unfolding XCFramework_unfold [OF ap dt]
    by (simp add: exc_bind_def resolve_def path_join_def startswith_def endswith_def parse_libraries_def
        py_getitem_def py_iter_def framework_name_def basename_def)
  then have xcs: "exc_map (\<lambda>d. XCFramework ?PL (path_join ''/a'' d)) [''T.xcframework''] ?w = (Inr [?xt], ?w)"
    by (simp add: exc_bind_def)
  have mods: "\<forall>x\<in>set [?xt]. iOSDeviceModule ?PL x ?w = (Inr (?M x), ?w)"
    by (simp add: iOSDeviceModule_def bundle_eval SDKModule_def lib_identifier_def lib_path_def
        exc_bind_def resolve_def path_join_def startswith_def endswith_def)
  have tt: "triplet_target ?m = Inr ''arm64-apple-ios11.0''"
    by (simp add: triplet_target_def lib_archs_def lib_platform_def minimum_os_version_def py_getitem_def
        py_item0_def py_str_def)
  have f: "filter filter_system_dependencies [''@rpath/T.framework/T''] = [''@rpath/T.framework/T'']"
    by (simp add: filter_system_dependencies_def startswith_def endswith_def)
  have da: "dep_args (\<lambda>x. dirname (mod_path (?M x))) [?xt] [''@rpath/T.framework/T''] = [''-iframework'', ''/a/T.xcframework/ios'']"
    by (simp add: dep_args_def basename_def dirname_def)
  have run: "tools ?w (dump_cmd ''/o.json'' False (dep_args (\<lambda>x. dirname (mod_path (?M x))) [?xt]
                (filter filter_system_dependencies [''@rpath/T.framework/T''])) ?xc ''arm64-apple-ios11.0'' ?m) (files ?w) =
      Completed ?p (files ?w)"
    using f da by (simp add: dump_cmd_def dump_base_args_def otool_cmd_def dirname_def basename_def)
  have ok: "returncode ?p = 0" by simp
  show ?thesis
    using APIDigester_dump_sdk_ok [OF dev exe _ deps cands xcs mods tt run ok] otool f da
    by (simp add: dump_cmd_def dirname_def basename_def)
qed

text \<open>C11. A failing dump: when \<open>swift-api-digester\<close> exits with a non-zero status, its
  standard error is printed and \<open>APIDigester.dump_sdk\<close> raises
  \<open>Exception("swift-api-digester failed")\<close>, after the same two commands.\<close>

theorem APIDigester_dump_sdk_failure:
  assumes dev: "iOSDeviceModule PL xc w = (Inr m, w)"
    and exe: "executable m = Inr exe"
    and otool: "tools w (otool_cmd exe) (files w) = Completed q (files w)"
    and deps: "parse_otool (univ_nl (proc_stdout q)) = Inr ds"
    and cands: "xcframework_dirs dp w = (Inr cs, w)"
    and xcs: "exc_map (\<lambda>d. XCFramework PL (path_join dp d)) cs w = (Inr xs, w)"
    and mods: "\<forall>x\<in>set xs. iOSDeviceModule PL x w = (Inr (M x), w)"
    and tt: "triplet_target m = Inr t"
    and run: "tools w (dump_cmd op abi (dep_args (\<lambda>x. dirname (mod_path (M x))) xs
                (filter filter_system_dependencies ds)) xc t m) (files w) = Completed p fs"
    and failed: "returncode p \<noteq> 0"
  shows "APIDigester_dump_sdk PL xc dp op abi w =
    (Inl (Exception ''swift-api-digester failed''),
     w\<lparr>commands := commands w @
       [otool_cmd exe, dump_cmd op abi (dep_args (\<lambda>x. dirname (mod_path (M x))) xs
                          (filter filter_system_dependencies ds)) xc t m], files := fs,
       out := out w @ univ_nl (proc_stderr p) @ [NL]\<rparr>)"
  using APIDigester_dump_sdk_run [OF dev exe otool deps cands xcs mods tt, of op abi] run failed
  by (simp add: exc_bind_def exc_then_apply)

theorem APIDigester_dump_sdk_failure_witness:
  "fst (APIDigester_dump_sdk (\<lambda>t. Inr (PDict [(''CFBundleExecutable'', PStr ''M''), (''MinimumOSVersion'', PStr ''11.0'')]))
     \<lparr>xc_path = ''/a/M.xcframework'', xc_name = ''M'',
      xc_libraries = [\<lparr>lib_dict = PDict [(''LibraryIdentifier'', PStr ''ios''), (''LibraryPath'', PStr ''M.framework''),
        (''SupportedArchitectures'', PArr [PStr ''arm64'']), (''SupportedPlatform'', PStr ''ios'')], lib_root = ''/a/M.xcframework''\<rparr>]\<rparr>
     ''/a'' ''/o.json'' True
     \<lparr>files = Map.empty(''/a/M.xcframework/ios/M.framework/Info.plist'' \<mapsto> ''MOD''),
      dirs = Map.empty(''/a'' \<mapsto> []), cwd = ''/'', out = [], err = [], commands = [],
      tools = (\<lambda>args fs. if args = otool_cmd ''/a/M.xcframework/ios/M.framework/M''
         then Completed \<lparr>returncode = 0, proc_stdout = otool_output ''/a/M.xcframework/ios/M.framework/M'' [], proc_stderr = []\<rparr> fs
         else Completed \<lparr>returncode = 1, proc_stdout = [], proc_stderr = ''error: module M not found''\<rparr> fs)\<rparr>) =
   Inl (Exception ''swift-api-digester failed'')"
proof -
  let ?PL = "\<lambda>t. Inr (PDict [(''CFBundleExecutable'', PStr ''M''), (''MinimumOSVersion'', PStr ''11.0'')]) :: pval res"
  let ?lm = "\<lparr>lib_dict = PDict [(''LibraryIdentifier'', PStr ''ios''), (''LibraryPath'', PStr ''M.framework''),
        (''SupportedArchitectures'', PArr [PStr ''arm64'']), (''SupportedPlatform'', PStr ''ios'')], lib_root = ''/a/M.xcframework''\<rparr>"
  let ?xc = "\<lparr>xc_path = ''/a/M.xcframework'', xc_name = ''M'', xc_libraries = [?lm]\<rparr>"
  let ?m = "\<lparr>mod_library = ?lm, mod_path = ''/a/M.xcframework/ios/M.framework'',
      mod_plist = PDict [(''CFBundleExecutable'', PStr ''M''), (''MinimumOSVersion'', PStr ''11.0'')]\<rparr>"
  let ?exe = "''/a/M.xcframework/ios/M.framework/M''"
  let ?q = "\<lparr>returncode = 0, proc_stdout = otool_output ?exe [], proc_stderr = []\<rparr>"
  let ?p = "\<lparr>returncode = 1, proc_stdout = [], proc_stderr = ''error: module M not found''\<rparr>"
  let ?fs = "Map.empty(''/a/M.xcframework/ios/M.framework/Info.plist'' \<mapsto> ''MOD'')"
  let ?tools = "\<lambda>args fs. if args = otool_cmd ?exe then Completed ?q fs else Completed ?p fs"
  let ?w = "\<lparr>files = ?fs, dirs = Map.empty(''/a'' \<mapsto> []), cwd = ''/'', out = [], err = [], commands = [], tools = ?tools\<rparr>"
  let ?M = "\<lambda>x::xcframework. ?m"
  have dev: "iOSDeviceModule ?PL ?xc ?w = (Inr ?m, ?w)"
    by (simp add: iOSDeviceModule_def bundle_eval SDKModule_def lib_identifier_def lib_path_def
        exc_bind_def resolve_def path_join_def startswith_def endswith_def)
  have exe: "executable ?m = Inr ?exe"
    by (simp add: executable_def executable_path_def py_getitem_def path_join_def startswith_def endswith_def)
  have otool: "?tools (otool_cmd ?exe) ?fs = Completed ?q ?fs" by simp
  have deps: "parse_otool (univ_nl (proc_stdout ?q)) = Inr []" by code_simp
  have cands: "xcframework_dirs ''/a'' ?w = (Inr [], ?w)"
    by (simp add: xcframework_dirs_def exc_bind_def resolve_def path_join_def startswith_def)
  have xcs: "exc_map (\<lambda>d. XCFramework ?PL (path_join ''/a'' d)) [] ?w = (Inr [], ?w)" by simp
  have mods: "\<forall>x\<in>set []. iOSDeviceModule ?PL x ?w = (Inr (?M x), ?w)" by simp
  have tt: "triplet_target ?m = Inr ''arm64-apple-ios11.0''"
    by (simp add: triplet_target_def lib_archs_def lib_platform_def minimum_os_version_def py_getitem_def
        py_item0_def py_str_def)
  have ne: "dump_cmd ''/o.json'' True (dep_args (\<lambda>x. dirname (mod_path (?M x))) [] (filter filter_system_dependencies []))
      ?xc ''arm64-apple-ios11.0'' ?m \<noteq> otool_cmd ?exe"
    by (simp add: dump_cmd_def dump_base_args_def otool_cmd_def)
  have run: "tools ?w (dump_cmd ''/o.json'' True (dep_args (\<lambda>x. dirname (mod_path (?M x))) []
                (filter filter_system_dependencies [])) ?xc ''arm64-apple-ios11.0'' ?m) (files ?w) =
      Completed ?p (files ?w)"
    using ne by simp
  have failed: "returncode ?p \<noteq> 0" by simp
  show ?thesis
    using APIDigester_dump_sdk_failure [OF dev exe _ deps cands xcs mods tt run failed] otool by simp
qed

text \<open>C30. A device library that lists no architecture: the triple's
  \<open>supported_architectures()[0]\<close> raises \<open>IndexError\<close>, after \<open>otool\<close> has run and every
  bundle beside the SDK has been read, and the digester is never run.\<close>

theorem APIDigester_dump_sdk_no_arch:
  assumes dev: "iOSDeviceModule PL xc w = (Inr m, w)"
    and exe: "executable m = Inr exe"
    and otool: "tools w (otool_cmd exe) (files w) = Completed q (files w)"
    and deps: "parse_otool (univ_nl (proc_stdout q)) = Inr ds"
    and cands: "xcframework_dirs dp w = (Inr cs, w)"
    and xcs: "exc_map (\<lambda>d. XCFramework PL (path_join dp d)) cs w = (Inr xs, w)"
    and mods: "\<forall>x\<in>set xs. iOSDeviceModule PL x w = (Inr (M x), w)"
    and noarch: "lib_archs (mod_library m) = Inr (PArr [])"
  shows "APIDigester_dump_sdk PL xc dp op abi w = (Inl IndexError, w\<lparr>commands := commands w @ [otool_cmd exe]\<rparr>)"
proof -
  have "triplet_target m = Inl IndexError" using noarch by (simp add: triplet_target_def py_item0_def)
  from APIDigester_dump_sdk_no_triple [OF dev exe otool deps cands xcs mods this] show ?thesis .
qed

theorem APIDigester_dump_sdk_no_arch_witness:
  "APIDigester_dump_sdk (\<lambda>t. Inr (PDict [(''CFBundleExecutable'', PStr ''M''), (''MinimumOSVersion'', PStr ''11.0'')]))
     \<lparr>xc_path = ''/a/M.xcframework'', xc_name = ''M'',
      xc_libraries = [\<lparr>lib_dict = PDict [(''LibraryIdentifier'', PStr ''ios''), (''LibraryPath'', PStr ''M.framework''),
        (''SupportedArchitectures'', PArr []), (''SupportedPlatform'', PStr ''ios'')], lib_root = ''/a/M.xcframework''\<rparr>]\<rparr>
     ''/a'' ''/o.json'' False
     \<lparr>files = Map.empty(''/a/M.xcframework/ios/M.framework/Info.plist'' \<mapsto> ''MOD''),
      dirs = Map.empty(''/a'' \<mapsto> []), cwd = ''/'', out = [], err = [], commands = [],
      tools = (\<lambda>args fs. Completed \<lparr>returncode = 0, proc_stdout = otool_output ''/a/M.xcframework/ios/M.framework/M'' [],
                                    proc_stderr = []\<rparr> fs)\<rparr> =
   (Inl IndexError,
    \<lparr>files = Map.empty(''/a/M.xcframework/ios/M.framework/Info.plist'' \<mapsto> ''MOD''),
      dirs = Map.empty(''/a'' \<mapsto> []), cwd = ''/'', out = [], err = [], commands = [otool_cmd ''/a/M.xcframework/ios/M.framework/M''],
      tools = (\<lambda>args fs. Completed \<lparr>returncode = 0, proc_stdout = otool_output ''/a/M.xcframework/ios/M.framework/M'' [],
                                    proc_stderr = []\<rparr> fs)\<rparr>)"
proof -
  let ?PL = "\<lambda>t. Inr (PDict [(''CFBundleExecutable'', PStr ''M''), (''MinimumOSVersion'', PStr ''11.0'')]) :: pval res"
  let ?lm = "\<lparr>lib_dict = PDict [(''LibraryIdentifier'', PStr ''ios''), (''LibraryPath'', PStr ''M.framework''),
        (''SupportedArchitectures'', PArr []), (''SupportedPlatform'', PStr ''ios'')], lib_root = ''/a/M.xcframework''\<rparr>"
  let ?xc = "\<lparr>xc_path = ''/a/M.xcframework'', xc_name = ''M'', xc_libraries = [?lm]\<rparr>"
  let ?m = "\<lparr>mod_library = ?lm, mod_path = ''/a/M.xcframework/ios/M.framework'',
      mod_plist = PDict [(''CFBundleExecutable'', PStr ''M''), (''MinimumOSVersion'', PStr ''11.0'')]\<rparr>"
  let ?exe = "''/a/M.xcframework/ios/M.framework/M''"
  let ?q = "\<lparr>returncode = 0, proc_stdout = otool_output ?exe [], proc_stderr = []\<rparr>"
  let ?fs = "Map.empty(''/a/M.xcframework/ios/M.framework/Info.plist'' \<mapsto> ''MOD'')"
  let ?tools = "\<lambda>args fs. Completed ?q fs"
  let ?w = "\<lparr>files = ?fs, dirs = Map.empty(''/a'' \<mapsto> []), cwd = ''/'', out = [], err = [], commands = [], tools = ?tools\<rparr>"
  let ?M = "\<lambda>x::xcframework. ?m"
  have dev: "iOSDeviceModule ?PL ?xc ?w = (Inr ?m, ?w)"
    by (simp add: iOSDeviceModule_def bundle_eval SDKModule_def lib_identifier_def lib_path_def
        exc_bind_def resolve_def path_join_def startswith_def endswith_def)
  have exe: "executable ?m = Inr ?exe"
    by (simp add: executable_def executable_path_def py_getitem_def path_join_def startswith_def endswith_def)
  have otool: "?tools (otool_cmd ?exe) ?fs = Completed ?q ?fs" by simp
  have deps: "parse_otool (univ_nl (proc_stdout ?q)) = Inr []" by code_simp
  have cands: "xcframework_dirs ''/a'' ?w = (Inr [], ?w)"
    by (simp add: xcframework_dirs_def exc_bind_def resolve_def path_join_def startswith_def)
  have xcs: "exc_map (\<lambda>d. XCFramework ?PL (path_join ''/a'' d)) [] ?w = (Inr [], ?w)" by simp
  have mods: "\<forall>x\<in>set []. iOSDeviceModule ?PL x ?w = (Inr (?M x), ?w)" by simp
  have noarch: "lib_archs (mod_library ?m) = Inr (PArr [])" by (simp add: lib_archs_def py_getitem_def)
  show ?thesis
    using APIDigester_dump_sdk_no_arch [OF dev exe _ deps cands xcs mods noarch, of "''/o.json''" False] otool by simp
qed

text \<open>C28. \<open>dump_sdk\<close> takes only a \<open>.zip\<close> archive: for any other extension it creates
  and prints the temporary directory, then raises \<open>Exception("SDK path must be a zip
  archive")\<close> before any archive is unpacked or any command run.\<close>

theorem dump_sdk_not_zip:
  assumes "splitext_ext sdk \<noteq> ''.zip''"
  shows "dump_sdk PL unpack tmp sdk op abi w =
    (Inl (Exception ''SDK path must be a zip archive''),
     w\<lparr>dirs := (dirs w)(tmp \<mapsto> []), out := out w @ tmp @ [NL]\<rparr>)"
  using assms by (simp add: dump_sdk_def dittoSDK_def mkdtemp_def exc_bind_def exc_then_apply)

theorem dump_sdk_not_zip_witness:
  "splitext_ext ''/w/MapboxMaps.tar.gz'' \<noteq> ''.zip'' \<and>
   dump_sdk (\<lambda>_. Inl (Exception ''plist'')) (\<lambda>_ _ w. (Inr (), w)) ''/tmp/API-check-1'' ''/w/MapboxMaps.tar.gz'' ''/w/o.json'' False
     \<lparr>files = Map.empty, dirs = Map.empty, cwd = ''/w'', out = [], err = [], commands = [],
      tools = (\<lambda>_ _. Launch_error (FileNotFoundError ''xcrun''))\<rparr> =
   (Inl (Exception ''SDK path must be a zip archive''),
    \<lparr>files = Map.empty, dirs = Map.empty(''/tmp/API-check-1'' \<mapsto> []), cwd = ''/w'', out = ''/tmp/API-check-1'' @ [NL],
     err = [], commands = [], tools = (\<lambda>_ _. Launch_error (FileNotFoundError ''xcrun''))\<rparr>)"
proof -
  have e: "splitext_ext ''/w/MapboxMaps.tar.gz'' \<noteq> ''.zip''" by (simp add: splitext_ext_def basename_def)
  show ?thesis
    using e dump_sdk_not_zip [OF e, of "\<lambda>_. Inl (Exception ''plist'')" "\<lambda>_ _ w. (Inr (), w)" "''/tmp/API-check-1''" "''/w/o.json''" False
      "\<lparr>files = Map.empty, dirs = Map.empty, cwd = ''/w'', out = [], err = [], commands = [],
        tools = (\<lambda>_ _. Launch_error (FileNotFoundError ''xcrun''))\<rparr>"]
    by simp
qed

text \<open>C31. The \<open>dump\<close> subcommand as the code composes it: \<open>main\<close> makes the SDK path and the
  output path absolute (the output defaulting to \<open>MapboxMaps.json\<close> in the working
  directory), \<open>dump_sdk\<close> creates and prints the temporary directory, unpacks the \<open>.zip\<close>
  archive into it, reads the bundle \<open>artifacts/MapboxMaps.xcframework\<close> there, and hands it
  to \<open>APIDigester.dump_sdk\<close> with \<open>artifacts\<close> as the directory searched for dependencies.\<close>

theorem main_dump_pipeline:
  assumes zip: "splitext_ext (abspath (cwd w) sdk) = ''.zip''"
    and unz: "unpack (abspath (cwd w) sdk) tmp (w\<lparr>dirs := (dirs w)(tmp \<mapsto> []), out := out w @ tmp @ [NL]\<rparr>) =
      (Inr (), w1)"
    and xc: "XCFramework PL (path_join (path_join tmp ''artifacts'') ''MapboxMaps.xcframework'') w1 = (Inr x, w1)"
  shows "main H PL unpack tmp (Cli_dump sdk op abi) w =
    APIDigester_dump_sdk PL x (path_join tmp ''artifacts'')
      (abspath (cwd w) (case op of None \<Rightarrow> ''MapboxMaps.json'' | Some o' \<Rightarrow> o')) abi w1"
  using dump_sdk_zip [OF zip] unz xc by (simp add: main_def exc_then_def exc_bind_def)

theorem main_dump_pipeline_witness:
  "main java_hash (\<lambda>_. Inr (PDict [(''AvailableLibraries'', PArr [])]))
     (\<lambda>_ _ w. (Inr (), w\<lparr>files := (files w)(''/t/artifacts/MapboxMaps.xcframework/Info.plist'' \<mapsto> ''X''),
        dirs := (dirs w)(''/t/artifacts'' \<mapsto> [''MapboxMaps.xcframework''], ''/t/artifacts/MapboxMaps.xcframework'' \<mapsto> [])\<rparr>))
     ''/t'' (Cli_dump ''s.zip'' None False)
     \<lparr>files = Map.empty, dirs = Map.empty, cwd = ''/w'', out = [], err = [], commands = [],
      tools = (\<lambda>_ _. Launch_error (FileNotFoundError ''xcrun''))\<rparr> =
   APIDigester_dump_sdk (\<lambda>_. Inr (PDict [(''AvailableLibraries'', PArr [])]))
     \<lparr>xc_path = ''/t/artifacts/MapboxMaps.xcframework'', xc_name = ''MapboxMaps'', xc_libraries = []\<rparr>
     ''/t/artifacts'' ''/w/MapboxMaps.json'' False
     \<lparr>files = Map.empty(''/t/artifacts/MapboxMaps.xcframework/Info.plist'' \<mapsto> ''X''),
      dirs = Map.empty(''/t'' \<mapsto> [], ''/t/artifacts'' \<mapsto> [''MapboxMaps.xcframework''],
        ''/t/artifacts/MapboxMaps.xcframework'' \<mapsto> []),
      cwd = ''/w'', out = ''/t'' @ [NL], err = [], commands = [],
      tools = (\<lambda>_ _. Launch_error (FileNotFoundError ''xcrun''))\<rparr>"
proof -
  let ?PL = "\<lambda>_::string. Inr (PDict [(''AvailableLibraries'', PArr [])]) :: pval res"
  let ?U = "\<lambda>(_::string) (_::string) w. (Inr (), w\<lparr>files := (files w)(''/t/artifacts/MapboxMaps.xcframework/Info.plist'' \<mapsto> ''X''),
        dirs := (dirs w)(''/t/artifacts'' \<mapsto> [''MapboxMaps.xcframework''], ''/t/artifacts/MapboxMaps.xcframework'' \<mapsto> [])\<rparr>)"
  let ?T = "\<lambda>(_::string list) (_::string \<rightharpoonup> string). Launch_error (FileNotFoundError ''xcrun'')"
  let ?w = "\<lparr>files = Map.empty, dirs = Map.empty, cwd = ''/w'', out = [], err = [], commands = [], tools = ?T\<rparr>"
  let ?w1 = "\<lparr>files = Map.empty(''/t/artifacts/MapboxMaps.xcframework/Info.plist'' \<mapsto> ''X''),
      dirs = Map.empty(''/t'' \<mapsto> [], ''/t/artifacts'' \<mapsto> [''MapboxMaps.xcframework''],
        ''/t/artifacts/MapboxMaps.xcframework'' \<mapsto> []),
      cwd = ''/w'', out = ''/t'' @ [NL], err = [], commands = [], tools = ?T\<rparr>"
  let ?p = "''/t/artifacts/MapboxMaps.xcframework''"
  have sdk: "abspath (cwd ?w) ''s.zip'' = ''/w/s.zip''"
    by (simp add: abspath_def normpath_def path_join_def startswith_def endswith_def split_on_from.simps)
  have zip: "splitext_ext (abspath (cwd ?w) ''s.zip'') = ''.zip''"
    unfolding sdk by (simp add: splitext_ext_def basename_def)
  have unz: "?U (abspath (cwd ?w) ''s.zip'') ''/t'' (?w\<lparr>dirs := (dirs ?w)(''/t'' \<mapsto> []), out := out ?w @ ''/t'' @ [NL]\<rparr>) =
      (Inr (), ?w1)"
    by (simp add: fun_upd_twist)
  have pj: "path_join (path_join ''/t'' ''artifacts'') ''MapboxMaps.xcframework'' = ?p"
    by (simp add: path_join_def startswith_def endswith_def)
  have ap: "?p = abspath (cwd ?w1) (path_join (path_join ''/t'' ''artifacts'') ''MapboxMaps.xcframework'')"
    unfolding pj by (simp add: abspath_def normpath_def path_join_def startswith_def endswith_def split_on_from.simps)
  have dt: "is_dir ?w1 ?p \<or> \<not> endswith ?p ''.xcframework''"
    by (simp add: is_dir_def resolve_def path_join_def startswith_def)
  have xc: "XCFramework ?PL (path_join (path_join ''/t'' ''artifacts'') ''MapboxMaps.xcframework'') ?w1 =
      (Inr \<lparr>xc_path = ?p, xc_name = ''MapboxMaps'', xc_libraries = []\<rparr>, ?w1)"
    unfolding XCFramework_unfold [OF ap dt]
    by (simp add: exc_bind_def resolve_def path_join_def startswith_def endswith_def parse_libraries_def
        py_getitem_def py_iter_def framework_name_def basename_def)
  have o: "abspath (cwd ?w) ''MapboxMaps.json'' = ''/w/MapboxMaps.json''"
    by (simp add: abspath_def normpath_def path_join_def startswith_def endswith_def split_on_from.simps)
  show ?thesis
    using main_dump_pipeline [where w = ?w and sdk = "''s.zip''" and unpack = ?U and tmp = "''/t''"
        and PL = ?PL and H = java_hash and op = None and abi = False, OF zip unz xc] o
    by (simp add: path_join_def startswith_def endswith_def)
qed

end
