(* ===== verification/Exit_Codes.thy ===== *)
theory Exit_Codes
  imports Dump
begin

text \<open>
  The exit status of the script.  The interpreter ends with status 0 when \<open>main()\<close>
  returns, with \<open>n\<close> on \<open>SystemExit(n)\<close> and with 1 on any other uncaught exception
  (\<open>exit_status\<close>).  The only \<open>SystemExit\<close> the script raises is \<open>exit(1)\<close> of
  \<open>check_api_breaking_changes\<close>; every other exception comes from a library call
  (\<open>open\<close>, \<open>subprocess.run\<close>, \<open>plistlib\<close>, \<open>shutil.unpack_archive\<close>) or from the
  script's own \<open>raise\<close>, \<open>d[k]\<close>, \<open>xs[0]\<close>.  The invariant \<open>io_ok\<close> of \<open>World\<close>
  is shown here for every operation of the script, bottom up, with the rules
  \<open>io_ok_intros\<close>; the libraries are assumed to raise no \<open>SystemExit\<close> (\<open>plist_ok\<close>,
  \<open>unpack_ok\<close>, \<open>tools_ok\<close>).
\<close>

section \<open>Definitions\<close>

definition plist_ok :: "(string \<Rightarrow> pval res) \<Rightarrow> bool" where
  "plist_ok PL \<longleftrightarrow> (\<forall>t. res_ok (PL t))"

definition unpack_ok :: "(string \<Rightarrow> string \<Rightarrow> unit io) \<Rightarrow> bool" where
  "unpack_ok U \<longleftrightarrow> (\<forall>a b. io_ok (U a b))"

section \<open>Lemmas\<close>

subsection \<open>Pure functions raise no \<open>SystemExit\<close>\<close>

lemma res_ok_map_sum [simp]: "res_ok (map_sum id f r) = res_ok r"
  by (cases r) simp_all

lemma res_ok_builtins [simp]:
  "res_ok (py_getitem v k)" "res_ok (py_contains v k)" "res_ok (py_iter v)" "res_ok (py_index0 xs)"
  "res_ok (py_item0 v)" "res_ok (py_split s sep)"
  by (simp_all add: py_getitem_def py_contains_def py_iter_def py_index0_def py_item0_def py_split_def
      split: pval.split option.split list.split)

lemma res_ok_case [intro]:
  "res_ok r \<Longrightarrow> (\<And>a. res_ok (f a)) \<Longrightarrow> res_ok (case r of Inl e \<Rightarrow> Inl e | Inr a \<Rightarrow> f a)"
  by (cases r) simp_all

lemma res_ok_map_res: "(\<And>x. res_ok (f x)) \<Longrightarrow> res_ok (map_res f xs)"
  by (induction xs) (auto intro!: res_ok_case)

lemma res_ok_filter_res: "(\<And>x. res_ok (P x)) \<Longrightarrow> res_ok (filter_res P xs)"
  by (induction xs) (auto intro!: res_ok_case)

lemma res_ok_parse_lines: "res_ok (parse_lines st ls)"
proof (induction ls arbitrary: st)
  case (Cons l ls)
  have "res_ok (parse_line st l)"
    by (simp add: parse_line_def split: category_var.split)
  with Cons show ?case by auto
qed simp

lemma res_ok_parse_report [simp]: "res_ok (parse_report raw)"
  by (simp add: parse_report_def res_ok_parse_lines)

lemma res_ok_library [simp]:
  "res_ok (lib_path l)" "res_ok (lib_identifier l)" "res_ok (lib_platform l)" "res_ok (lib_archs l)"
  "res_ok (is_ios l)" "res_ok (is_device l)" "res_ok (ios_device_test l)"
  by (auto simp: lib_path_def lib_identifier_def lib_platform_def lib_archs_def is_ios_def is_device_def
      ios_device_test_def)

lemma res_ok_module [simp]:
  "res_ok (ios_device_library libs)" "res_ok (parse_libraries v root)" "res_ok (minimum_os_version m)"
  "res_ok (triplet_target m)" "res_ok (executable m)" "res_ok (parse_otool s)"
  unfolding ios_device_library_def parse_libraries_def minimum_os_version_def triplet_target_def
    executable_def executable_path_def parse_otool_def
  by (auto intro!: res_ok_case res_ok_filter_res res_ok_map_res split: pval.split)

subsection \<open>Every operation of the script\<close>

lemma io_ok_state [io_ok_intros]: "io_ok (\<lambda>w. (Inr (f w), w))"
  by (simp add: io_ok_def)

lemma io_ok_report [io_ok_intros]:
  "io_ok (BreakageReport H p)" "io_ok (compare H bl cur outp al)" "io_ok (add_comment_to_pr r)"
  "io_ok (check_api_breaking_changes H bl cur al rp cpr)"
  unfolding BreakageReport_def compare_def add_comment_to_pr_def check_api_breaking_changes_def Let_def
  by (auto intro!: io_ok_intros)

lemma io_ok_XCFramework [io_ok_intros]:
  assumes "plist_ok PL"
  shows "io_ok (XCFramework PL path)"
proof (rule io_okI)
  fix w :: world assume t: "tools_ok (tools w)"
  have r: "io_ok (exc_bind (read_text (path_join p ''Info.plist'')) (\<lambda>txt.
      case PL txt of
        Inl e \<Rightarrow> exc_raise e
      | Inr plist \<Rightarrow>
          (case parse_libraries plist p of
             Inl e \<Rightarrow> exc_raise e
           | Inr libs \<Rightarrow> exc_return \<lparr>xc_path = p, xc_name = framework_name p, xc_libraries = libs\<rparr>)))" for p
    using assms by (auto intro!: io_ok_intros simp: plist_ok_def)
  show "res_ok (fst (XCFramework PL path w)) \<and> tools (snd (XCFramework PL path w)) = tools w"
    using io_okD [OF r t] by (simp add: XCFramework_def Let_def)
qed

lemma io_ok_module [io_ok_intros]:
  assumes "plist_ok PL"
  shows "io_ok (SDKModule PL root l)" "io_ok (iOSDeviceModule PL x)" "io_ok (list_all_dependencies m)"
    "io_ok (list_dependencies m)"
  using assms
  unfolding SDKModule_def iOSDeviceModule_def list_all_dependencies_def list_dependencies_def Let_def
  by (auto intro!: io_ok_intros simp: plist_ok_def split: pval.split)

lemma io_ok_add_dep_paths [io_ok_intros]: "plist_ok PL \<Longrightarrow> io_ok (add_dep_paths PL xs deps args)"
  by (induction deps arbitrary: args) (auto intro!: io_ok_intros split: option.split)

lemma io_ok_dump [io_ok_intros]:
  assumes "plist_ok PL" and "unpack_ok unpack"
  shows "io_ok (APIDigester_dump_sdk PL xc dp op abi)" "io_ok (dump_sdk PL unpack tmp sdk op abi)"
proof -
  have d: "io_ok (xcframework_dirs dp)" for dp
    unfolding xcframework_dirs_def by (intro io_ok_intros)
  have a: "io_ok (append_dependencies PL m dp args)" "io_ok (append_module PL xc args)" for m dp args xc
    using assms(1) d unfolding append_dependencies_def append_module_def
    by (auto intro!: io_ok_intros)
  show "io_ok (APIDigester_dump_sdk PL xc dp op abi)"
    using assms(1) a unfolding APIDigester_dump_sdk_def by (auto intro!: io_ok_intros)
  have "io_ok (mkdtemp tmp)" by (simp add: io_ok_def mkdtemp_def)
  moreover have "io_ok (dittoSDK unpack sdk t)" for t
    using assms(2) unfolding dittoSDK_def unpack_ok_def by (auto intro!: io_ok_intros)
  ultimately show "io_ok (dump_sdk PL unpack tmp sdk op abi)"
    using assms(1) a \<open>io_ok (APIDigester_dump_sdk PL xc dp op abi)\<close>
    unfolding dump_sdk_def APIDigester_dump_sdk_def by (auto intro!: io_ok_intros)
qed

lemma io_ok_main:
  assumes "plist_ok PL" and "unpack_ok unpack"
  shows "io_ok (main H PL unpack tmp c)"
proof (rule io_okI)
  fix w :: world assume t: "tools_ok (tools w)"
  show "res_ok (fst (main H PL unpack tmp c w)) \<and> tools (snd (main H PL unpack tmp c w)) = tools w"
    using io_okD [OF io_ok_dump(2) [OF assms] t] io_okD [OF io_ok_report(4) t]
    by (cases c) (simp_all add: main_def Let_def)
qed

section \<open>The exit status\<close>

text \<open>C9. Whatever the subcommand, the files and the tools' outcomes, the script exits with
  status 0 or 1, and with 0 exactly when \<open>main()\<close> returns normally: the only exit status
  it sets itself is the 1 of a breaking report, and every other failure is an uncaught
  exception.  The libraries are assumed to raise no \<open>SystemExit\<close> of their own.\<close>

theorem main_exit_status:
  assumes "tools_ok (tools w)" and "plist_ok PL" and "unpack_ok unpack"
  shows "exit_status (fst (main H PL unpack tmp c w)) \<in> {0, 1} \<and>
    (exit_status (fst (main H PL unpack tmp c w)) = 0 \<longleftrightarrow> fst (main H PL unpack tmp c w) = Inr ())"
proof -
  have "io_ok (main H PL unpack tmp c)" by (rule io_ok_main [OF assms(2,3)])
  then have "res_ok (fst (main H PL unpack tmp c w))" using io_okD assms(1) by blast
  then show ?thesis
    by (cases "fst (main H PL unpack tmp c w)") (auto simp: exit_status_def exit_ok_def split: py_error.splits)
qed

theorem main_exit_status_witness:
  "exit_status (fst (main java_hash (\<lambda>_. Inl (Exception ''plist'')) (\<lambda>_ _ w. (Inr (), w)) ''/tmp/API-check-1''
      (Cli_check_api ''base.json'' ''latest.json'' None None False)
      \<lparr>files = Map.empty, dirs = Map.empty, cwd = ''/w'', out = [], err = [], commands = [],
       tools = (\<lambda>_ _. Launch_error (FileNotFoundError ''xcrun''))\<rparr>)) \<in> {0, 1}"
proof -
  have t: "tools_ok (tools \<lparr>files = Map.empty, dirs = Map.empty, cwd = ''/w'', out = [], err = [], commands = [],
       tools = (\<lambda>_ _. Launch_error (FileNotFoundError ''xcrun''))\<rparr>)"
    by (simp add: tools_ok_def)
  have p: "plist_ok (\<lambda>_. Inl (Exception ''plist''))" by (simp add: plist_ok_def)
  have u: "unpack_ok (\<lambda>_ _ w. (Inr (), w))" by (simp add: unpack_ok_def io_ok_def)
  show "exit_status (fst (main java_hash (\<lambda>_. Inl (Exception ''plist'')) (\<lambda>_ _ w. (Inr (), w)) ''/tmp/API-check-1''
      (Cli_check_api ''base.json'' ''latest.json'' None None False)
      \<lparr>files = Map.empty, dirs = Map.empty, cwd = ''/w'', out = [], err = [], commands = [],
       tools = (\<lambda>_ _. Launch_error (FileNotFoundError ''xcrun''))\<rparr>)) \<in> {0, 1}"
    using main_exit_status [OF t p u, of java_hash "''/tmp/API-check-1''"
      "Cli_check_api ''base.json'' ''latest.json'' None None False"]
    by (rule conjunct1)
qed

end
