(* ===== verification/Spec2Isabelle.thy ===== *)
theory Spec2Isabelle
  imports Exit_Codes
begin

text \<open>
  \<^bold>\<open>A verification library for the API compatibility check of the Mapbox Maps SDK.\<close>

  The program is one Python script, src/scripts/api-compatibility-check/breaking-api-check.py.
  It has two subcommands.  \<open>dump\<close> unpacks the SDK's zip archive, locates the device
  library of the \<open>MapboxMaps.xcframework\<close> bundle (class \<open>XCFramework\<close>), reads the
  module's metadata and linked libraries (class \<open>SDKModule\<close>) and runs
  \<open>swift-api-digester -dump-sdk\<close> (\<open>APIDigester.dump_sdk\<close>).  \<open>check-api\<close> runs
  \<open>swift-api-digester -diagnose-sdk\<close> on two dumps (\<open>APIDigester.compare\<close>), reads the text
  report it writes into a \<open>BreakageReport\<close> (categories of findings, a SHA-1 of the file and a
  verdict), optionally posts a summary with the \<open>gh\<close> CLI (\<open>add_comment_to_pr\<close>) and exits
  with status 1 when the report is not the known empty one (\<open>check_api_breaking_changes\<close>).

  \<^bold>\<open>Layout.\<close>  Each theory models one part of the script, in the order of its imports.
  \<^item> \<open>Py_Prelude\<close>: the Python runtime the script relies on: its exceptions (\<open>py_error\<close>),
    an exception-and-state monad \<open>exc\<close> (a raise keeps the effects done before it),
    \<open>list(map(...))\<close> as \<open>exc_map\<close> and \<open>map_res\<close>, and the string, path and dictionary
    functions it calls (\<open>strip\<close>, \<open>startswith\<close>, slicing, \<open>split\<close>, universal-newline
    \<open>readlines\<close>, \<open>os.path.join/basename/dirname/normpath/abspath/splitext\<close>, \<open>dict.get\<close>
    on an insertion-ordered association list).
  \<^item> \<open>Report_Parser\<close>: \<open>BreakageReport.__parseReport\<close> (lines 167--175) as a step function
    \<open>parse_line\<close> on the loop state \<open>parse_state\<close> (the local \<open>category\<close>, unbound,
    \<open>None\<close> or a string, and \<open>self.breakage\<close>), the loop \<open>parse_lines\<close> and the parse
    \<open>parse_report\<close> of the file's bytes; the report format \<open>render_report\<close> and its meaning
    \<open>group_findings\<close> are the specification.
  \<^item> \<open>Block_Hash\<close>: \<open>__hashsum\<close> (lines 177--183): the 4096-byte read loop \<open>read_blocks\<close>
    (a \<open>function\<close> with a measure) feeding a hash given as an interface \<open>hash_algo\<close>
    (\<open>hashlib\<close> is a library) whose update obeys the concatenation law \<open>streaming\<close>;
    \<open>java_hash\<close>, a 32-bit polynomial hash on \<open>32 word\<close>, is a concrete streaming instance
    used to evaluate examples.
  \<^item> \<open>World\<close>: the file system, directories, working directory, standard streams, the log
    of commands run and the external tools as an oracle; one operation per statement
    kind (\<open>open/read/write\<close>, \<open>os.remove\<close>, \<open>os.listdir\<close>, \<open>print\<close>, \<open>subprocess.run\<close>),
    the errors \<open>open_error\<close> that \<open>open\<close> and \<open>os.remove\<close> raise on a path that is not a
    file, and the frame notions \<open>reader\<close> (only reads) and \<open>log_grows\<close> (only appends
    to the log of commands), each with its rules for the monad's combinators.
  \<^item> \<open>Breakage_Report\<close>: the constructor \<open>BreakageReport\<close> (lines 159--165).
  \<^item> \<open>Notifier\<close>: \<open>add_comment_to_pr\<close> (lines 46--67), with the comment text
    \<open>render_comment\<close> and the transient file \<open>comment.txt\<close>.
  \<^item> \<open>Digester\<close>: \<open>APIDigester.compare\<close> (lines 96--114) and
    \<open>check_api_breaking_changes\<close> (lines 28--43); \<open>exit(1)\<close> is \<open>SystemExit 1\<close>.
  \<^item> \<open>Bundle\<close>: the property-list values \<open>pval\<close> that \<open>plistlib\<close> returns, with item
    access, membership, iteration, \<open>str\<close> and \<open>repr\<close>; \<open>XCFramework.Library\<close> (lines
    229--262) as \<open>xc_library\<close>; the device-library choice \<open>ios_device_library\<close> (line 279);
    \<open>XCFramework\<close> (lines 264--276).  \<open>plistlib\<close> itself is a parameter \<open>PL\<close>.
  \<^item> \<open>SDK_Module\<close>: \<open>SDKModule\<close> (lines 189--226) and \<open>XCFramework.iOSDeviceModule\<close>:
    module path, target triple, executable, the parse \<open>parse_otool\<close> of \<open>otool -L\<close> and
    the filter \<open>filter_system_dependencies\<close>.
  \<^item> \<open>Dump\<close>: \<open>APIDigester.dump_sdk\<close> (lines 116--157), \<open>dump_sdk\<close> and \<open>dittoSDK\<close>
    (lines 11--26) and \<open>main\<close> (lines 69--92) on the parsed command line \<open>cli\<close>.
    \<open>tempfile.mkdtemp\<close> creates the directory \<open>tmp\<close> it is given and
    \<open>shutil.unpack_archive\<close> is a parameter.
  \<^item> \<open>Exit_Codes\<close>: the exit status of the process (\<open>exit_status\<close>, lines 286--287) and
    the invariant \<open>io_ok\<close> (no \<open>SystemExit\<close> but \<open>exit(1)\<close>, tools unchanged), shown
    bottom up for every operation of the script with the rule collection
    \<open>io_ok_intros\<close>.

  \<^bold>\<open>What is proved.\<close>  Properties C1 to C33, each after a text naming it:
  \<^item> Report: the parser refines the grouping specification on every well-formed report
    (C1), so empty blocks add no entry and blocks of one name merge; its loop invariant
    (C5); exact block counts (C14); reports of headers only (C16); \<open>UnboundLocalError\<close>
    on a report that starts with a finding (C15).
  \<^item> Verdict: block-wise hashing equals one-shot hashing for every streaming hash (C2);
    the read loop's bounds (C18); the constructor (C19) and the line-ending sensitivity
    of the fingerprint (C25).
  \<^item> check-api: its exit status (C3), tool failure (C20), the notifier always reached
    with \<open>--comment-pr\<close> (C32); the notifier's effects (C4), its launch failure (C21) and
    comment text (C22); across components, in this theory, the specification's
    end-to-end example (C10), the report path aliasing the notifier's file (C24) and an
    empty allow-list path becoming the working directory (C29).
  \<^item> dump: device-library choice against its contract (C6) and its eager \<open>KeyError\<close> (C17);
    the dependency listing from \<open>otool\<close> (C7) and its ignored exit status (C23); the dump
    command (C8), its failure (C11) and a library without architecture (C30); the module
    (C12), its triple (C26); the bundle constructor (C13), its guard (C27) and a regular
    file handed to it (C33); the \<open>.zip\<close> check (C28); the subcommand from \<open>main\<close> through
    unpacking to the bundle handed to \<open>APIDigester.dump_sdk\<close> (C31).
  \<^item> The whole script: its exit status is 0 or 1, and 0 exactly on normal return (C9).
  Theorems with hypotheses are followed by a \<open>_witness\<close> that applies them to a concrete
  world, evaluated by \<open>simp\<close> or \<open>code_simp\<close>.

  \<^bold>\<open>Bounds.\<close>  The only loops are over finite lists (lines, blocks, libraries,
  dependencies, bundles): each is structural recursion or \<open>read_blocks\<close>, whose measure is
  the bytes left; the block size is the script's 4096.  No fuel is needed.

  \<^bold>\<open>Not modelled.\<close> The external tools (\<open>swift-api-digester\<close>, \<open>otool\<close>, \<open>gh\<close>, \<open>xcrun\<close>)
  are an oracle of the world that sees and changes the regular files only (the script
  never relies on a tool making or removing a directory); \<open>hashlib.sha1\<close>, \<open>plistlib\<close>, \<open>argparse\<close>,
  \<open>tempfile\<close> and \<open>shutil.unpack_archive\<close> are libraries the script only calls.  Text is
  bytes: decoding of non-ASCII UTF-8 is not modelled, nor are real and date values of
  property lists, permissions, or symbolic links.  Opening, removing and listing a path
  fail as they do on Linux: \<open>IsADirectoryError\<close> on a directory,
  \<open>NotADirectoryError\<close> on a path through a regular file, \<open>FileNotFoundError\<close> otherwise
  (\<open>World.open_error\<close>); \<open>open(p, "w")\<close> is assumed to succeed (the notifier writes
  \<open>comment.txt\<close> in the working directory, which it takes to be writable).
\<close>

section \<open>Properties across components\<close>

text \<open>C24. The report file and the notifier's transient file can be the same file: with
  \<open>--comment-pr\<close> and \<open>--report-path\<close> naming \<open>comment.txt\<close> in the working directory, a
  report that is not good is overwritten by the comment and removed by the notifier, so the
  banner is never printed and the check dies with \<open>FileNotFoundError\<close> on the report.\<close>

theorem check_api_report_is_comment_file:
  assumes run: "tools w (compare_args base latest rp allow) (files w) = Completed p fs"
    and ok: "returncode p = 0" and rep: "fs (resolve w rp) = Some raw"
    and parsed: "parse_report raw = Inr bk" and bad: "hashsum_of H raw \<noteq> empty_report_hashsum"
    and same: "resolve w rp = resolve w comment_file"
    and gh: "tools w gh_edit_cmd (fs(resolve w comment_file \<mapsto>
        render_comment \<lparr>br_path = rp, breakage = bk, hashsum = hashsum_of H raw, is_good = False\<rparr>)) =
      Completed q (fs(resolve w comment_file \<mapsto>
        render_comment \<lparr>br_path = rp, breakage = bk, hashsum = hashsum_of H raw, is_good = False\<rparr>))"
    and edited: "returncode q = 0"
    and nodir: "dirs w (resolve w rp) = None" and nofile: "\<not> through_file fs (resolve w rp)"
  shows "\<exists>w'. check_api_breaking_changes H base latest allow rp True w = (Inl (FileNotFoundError rp), w') \<and>
    files w' (resolve w rp) = None \<and> err w' = err w @ proc_stderr q"
  using compare_report [OF run ok rep parsed, of H] bad same gh edited nodir nofile
  by (simp add: check_api_breaking_changes_def exc_bind_def exc_then_apply add_comment_to_pr_unfold
      open_error_def Let_def)

theorem check_api_report_is_comment_file_witness:
  "\<exists>w'. check_api_breaking_changes java_hash ''/w/a.json'' ''/w/b.json'' None ''/w/comment.txt'' True
      \<lparr>files = Map.empty, dirs = Map.empty, cwd = ''/w'', out = [], err = [], commands = [],
       tools = (\<lambda>args fs. if args = gh_edit_cmd
                          then Completed \<lparr>returncode = 0, proc_stdout = [], proc_stderr = []\<rparr> fs
                          else Completed \<lparr>returncode = 0, proc_stdout = [], proc_stderr = []\<rparr>
                                 (fs(''/w/comment.txt'' \<mapsto> ''/* Removed Decls */'' @ [NL] @ ''Func f()'' @ [NL])))\<rparr> =
      (Inl (FileNotFoundError ''/w/comment.txt''), w') \<and>
    files w' ''/w/comment.txt'' = None \<and> err w' = []"
proof -
  let ?raw = "''/* Removed Decls */'' @ [NL] @ ''Func f()'' @ [NL]"
  let ?bk = "[(''Removed Decls'', [''Func f()'' @ [NL]])]"
  let ?p = "\<lparr>returncode = 0, proc_stdout = [], proc_stderr = []\<rparr>"
  let ?w = "\<lparr>files = Map.empty, dirs = Map.empty, cwd = ''/w'', out = [], err = [], commands = [],
       tools = (\<lambda>args fs. if args = gh_edit_cmd then Completed ?p fs
                          else Completed ?p (fs(''/w/comment.txt'' \<mapsto> ?raw)))\<rparr>"
  let ?fs = "Map.empty(''/w/comment.txt'' \<mapsto> ?raw)"
  let ?r = "\<lparr>br_path = ''/w/comment.txt'', breakage = ?bk, hashsum = hashsum_of java_hash ?raw, is_good = False\<rparr>"
  have cw: "resolve ?w comment_file = ''/w/comment.txt''"
    by (simp add: resolve_def path_join_def comment_file_def startswith_def endswith_def)
  have rw: "resolve ?w ''/w/comment.txt'' = ''/w/comment.txt''"
    by (simp add: resolve_def path_join_def startswith_def)
  have ne: "compare_args ''/w/a.json'' ''/w/b.json'' ''/w/comment.txt'' None \<noteq> gh_edit_cmd"
    by (simp add: compare_args_def gh_edit_cmd_def digester_cmd_def)
  have run: "tools ?w (compare_args ''/w/a.json'' ''/w/b.json'' ''/w/comment.txt'' None) (files ?w) = Completed ?p ?fs"
    using ne by simp
  have ok: "returncode ?p = 0" by simp
  have rep: "?fs (resolve ?w ''/w/comment.txt'') = Some ?raw" using rw by simp
  have parsed: "parse_report ?raw = Inr ?bk" by (simp add: parse_eval)
  have bad: "hashsum_of java_hash ?raw \<noteq> empty_report_hashsum"
  proof
    assume "hashsum_of java_hash ?raw = empty_report_hashsum"
    then have "length (hashsum_of java_hash ?raw) = length empty_report_hashsum" by simp
    then show False by (simp add: hashsum_of_def java_hash_def fold_hash_def empty_report_hashsum_def)
  qed
  have same: "resolve ?w ''/w/comment.txt'' = resolve ?w comment_file" using cw rw by simp
  have gh: "tools ?w gh_edit_cmd (?fs(resolve ?w comment_file \<mapsto> render_comment ?r)) =
      Completed ?p (?fs(resolve ?w comment_file \<mapsto> render_comment ?r))"
    by simp
  have nodir: "dirs ?w (resolve ?w ''/w/comment.txt'') = None" using rw by simp
  have nofile: "\<not> through_file ?fs (resolve ?w ''/w/comment.txt'')" unfolding rw by code_simp
  show ?thesis
    using check_api_report_is_comment_file [OF run ok rep parsed bad same gh ok nodir nofile] rw by simp
qed

text \<open>C10. The end-to-end run of the specification's example: the comparator succeeds and
  reports a breaking change, editing the last comment fails, so with \<open>--comment-pr\<close>
  \<open>check-api\<close> runs the comparator, the edit and then the creation of a comment, removes
  \<open>comment.txt\<close>, prints the children's error output and then the banner with the whole
  report on standard error, and exits with status 1.\<close>

theorem check_api_end_to_end:
  assumes run: "tools w (compare_args base latest rp allow) (files w) = Completed p fs"
    and ok: "returncode p = 0" and rep: "fs (resolve w rp) = Some raw"
    and parsed: "parse_report raw = Inr bk" and bad: "hashsum_of H raw \<noteq> empty_report_hashsum"
    and apart: "resolve w rp \<noteq> resolve w comment_file"
    and edit: "tools w gh_edit_cmd (fs(resolve w comment_file \<mapsto>
        render_comment \<lparr>br_path = rp, breakage = bk, hashsum = hashsum_of H raw, is_good = False\<rparr>)) =
      Completed q (fs(resolve w comment_file \<mapsto>
        render_comment \<lparr>br_path = rp, breakage = bk, hashsum = hashsum_of H raw, is_good = False\<rparr>))"
    and failed: "returncode q \<noteq> 0"
    and create: "tools w gh_create_cmd (fs(resolve w comment_file \<mapsto>
        render_comment \<lparr>br_path = rp, breakage = bk, hashsum = hashsum_of H raw, is_good = False\<rparr>)) =
      Completed q' (fs(resolve w comment_file \<mapsto>
        render_comment \<lparr>br_path = rp, breakage = bk, hashsum = hashsum_of H raw, is_good = False\<rparr>))"
  shows "\<exists>w'. check_api_breaking_changes H base latest allow rp True w = (Inl (SystemExit 1), w') \<and>
    commands w' = commands w @ [compare_args base latest rp allow, gh_edit_cmd, gh_create_cmd] \<and>
    files w' = fs(resolve w comment_file := None) \<and>
    err w' = err w @ proc_stderr q @ proc_stderr q' @ breakage_banner latest (univ_nl raw) @ [NL]"
  using compare_report [OF run ok rep parsed, of H] bad apart edit failed create rep
  by (simp add: check_api_breaking_changes_def exc_bind_def exc_then_apply add_comment_to_pr_unfold)

theorem check_api_end_to_end_witness:
  "\<exists>w'. check_api_breaking_changes java_hash ''/w/base.json'' ''/w/latest.json'' None ''/w/report.txt'' True
      \<lparr>files = Map.empty, dirs = Map.empty, cwd = ''/w'', out = [], err = [], commands = [],
       tools = (\<lambda>args fs. if args = gh_edit_cmd
                          then Completed \<lparr>returncode = 1, proc_stdout = [], proc_stderr = ''no comment''\<rparr> fs
                          else if args = gh_create_cmd
                          then Completed \<lparr>returncode = 0, proc_stdout = [], proc_stderr = []\<rparr> fs
                          else Completed \<lparr>returncode = 0, proc_stdout = [], proc_stderr = []\<rparr>
                                 (fs(''/w/report.txt'' \<mapsto> ''/* Removed Decls */'' @ [NL] @ ''Func f() has been removed'' @ [NL])))\<rparr> =
      (Inl (SystemExit 1), w') \<and>
    commands w' = [compare_args ''/w/base.json'' ''/w/latest.json'' ''/w/report.txt'' None, gh_edit_cmd, gh_create_cmd] \<and>
    err w' = ''no comment'' @ breakage_banner ''/w/latest.json''
                 (''/* Removed Decls */'' @ [NL] @ ''Func f() has been removed'' @ [NL]) @ [NL]"
proof -
  let ?raw = "''/* Removed Decls */'' @ [NL] @ ''Func f() has been removed'' @ [NL]"
  let ?bk = "[(''Removed Decls'', [''Func f() has been removed'' @ [NL]])]"
  let ?p = "\<lparr>returncode = 0, proc_stdout = [], proc_stderr = []\<rparr>"
  let ?q = "\<lparr>returncode = 1, proc_stdout = [], proc_stderr = ''no comment''\<rparr>"
  let ?w = "\<lparr>files = Map.empty, dirs = Map.empty, cwd = ''/w'', out = [], err = [], commands = [],
       tools = (\<lambda>args fs. if args = gh_edit_cmd then Completed ?q fs
                          else if args = gh_create_cmd then Completed ?p fs
                          else Completed ?p (fs(''/w/report.txt'' \<mapsto> ?raw)))\<rparr>"
  let ?fs = "Map.empty(''/w/report.txt'' \<mapsto> ?raw)"
  let ?c = "render_comment \<lparr>br_path = ''/w/report.txt'', breakage = ?bk, hashsum = hashsum_of java_hash ?raw, is_good = False\<rparr>"
  have cw: "resolve ?w comment_file = ''/w/comment.txt''"
    by (simp add: resolve_def path_join_def comment_file_def startswith_def endswith_def)
  have rw: "resolve ?w ''/w/report.txt'' = ''/w/report.txt''"
    by (simp add: resolve_def path_join_def startswith_def)
  have ne: "compare_args ''/w/base.json'' ''/w/latest.json'' ''/w/report.txt'' None \<noteq> gh_edit_cmd"
    "compare_args ''/w/base.json'' ''/w/latest.json'' ''/w/report.txt'' None \<noteq> gh_create_cmd"
    by (simp_all add: compare_args_def gh_edit_cmd_def gh_create_cmd_def digester_cmd_def)
  have ne2: "gh_create_cmd \<noteq> gh_edit_cmd" by (simp add: gh_create_cmd_def gh_edit_cmd_def)
  have run: "tools ?w (compare_args ''/w/base.json'' ''/w/latest.json'' ''/w/report.txt'' None) (files ?w) = Completed ?p ?fs"
    using ne by simp
  have ok: "returncode ?p = 0" by simp
  have rep: "?fs (resolve ?w ''/w/report.txt'') = Some ?raw" using rw by simp
  have parsed: "parse_report ?raw = Inr ?bk" by (simp add: parse_eval)
  have bad: "hashsum_of java_hash ?raw \<noteq> empty_report_hashsum"
  proof
    assume "hashsum_of java_hash ?raw = empty_report_hashsum"
    then have "length (hashsum_of java_hash ?raw) = length empty_report_hashsum" by simp
    then show False by (simp add: hashsum_of_def java_hash_def fold_hash_def empty_report_hashsum_def)
  qed
  have apart: "resolve ?w ''/w/report.txt'' \<noteq> resolve ?w comment_file" using cw rw by simp
  have edit: "tools ?w gh_edit_cmd (?fs(resolve ?w comment_file \<mapsto> ?c)) = Completed ?q (?fs(resolve ?w comment_file \<mapsto> ?c))"
    by simp
  have failed: "returncode ?q \<noteq> 0" by simp
  have create: "tools ?w gh_create_cmd (?fs(resolve ?w comment_file \<mapsto> ?c)) = Completed ?p (?fs(resolve ?w comment_file \<mapsto> ?c))"
    using ne2 by simp
  have u: "univ_nl ?raw = ?raw" by (simp add: univ_nl_no_CR)
  show ?thesis
    using check_api_end_to_end [OF run ok rep parsed bad apart edit failed create] u by auto
qed

text \<open>C29. \<open>type=os.path.abspath\<close> turns an empty \<open>--breakage-allowlist-path ""\<close> into
  the working directory, which is not empty, so the comparator is always run with the
  working directory as its allow-list file.\<close>

theorem main_empty_allowlist:
  "\<exists>rest. commands (snd (main H PL unpack tmp (Cli_check_api b l (Some []) rp cpr) w)) =
     commands w @
       (compare_args (abspath (cwd w) b) (abspath (cwd w) l)
          (abspath (cwd w) (case rp of None \<Rightarrow> ''api-check-report.txt'' | Some r \<Rightarrow> r)) None @
        [''-breakage-allowlist-path'', abspath (cwd w) []]) # rest"
proof -
  have "abspath (cwd w) [] \<noteq> []" by (simp add: abspath_def normpath_def Let_def)
  then show ?thesis
    using check_api_first_command [of H "abspath (cwd w) b" "abspath (cwd w) l" "Some (abspath (cwd w) [])"
        "abspath (cwd w) (case rp of None \<Rightarrow> ''api-check-report.txt'' | Some r \<Rightarrow> r)" cpr w]
    by (simp add: main_def compare_args_allow Let_def)
qed

theorem main_empty_allowlist_witness:
  "\<exists>rest. commands (snd (main java_hash (\<lambda>_. Inl (Exception ''plist'')) (\<lambda>_ _ w. (Inr (), w)) ''/tmp/API-check-1''
      (Cli_check_api ''base.json'' ''latest.json'' (Some []) None False)
      \<lparr>files = Map.empty, dirs = Map.empty, cwd = ''/w'', out = [], err = [], commands = [],
       tools = (\<lambda>_ _. Launch_error (FileNotFoundError ''xcrun''))\<rparr>)) =
     (compare_args ''/w/base.json'' ''/w/latest.json'' ''/w/api-check-report.txt'' None @
        [''-breakage-allowlist-path'', ''/w'']) # rest"
proof -
  have a: "abspath ''/w'' ''base.json'' = ''/w/base.json''" "abspath ''/w'' ''latest.json'' = ''/w/latest.json''"
    "abspath ''/w'' ''api-check-report.txt'' = ''/w/api-check-report.txt''" "abspath ''/w'' [] = ''/w''"
    by (simp_all add: abspath_def normpath_def path_join_def startswith_def endswith_def split_on_from.simps)
  show ?thesis
    using main_empty_allowlist [of java_hash "\<lambda>_. Inl (Exception ''plist'')" "\<lambda>_ _ w. (Inr (), w)" "''/tmp/API-check-1''"
      "''base.json''" "''latest.json''" None False
      "\<lparr>files = Map.empty, dirs = Map.empty, cwd = ''/w'', out = [], err = [], commands = [],
        tools = (\<lambda>_ _. Launch_error (FileNotFoundError ''xcrun''))\<rparr>"] a
    by simp
qed

end
